theory Spec2Isabelle
  imports Complex_Main
begin

section \<open>The variable store\<close>

text \<open>
  The generated model \<^verbatim>\<open>oc_latch\<close> works on the aggregate \<^verbatim>\<open>DATA\<close> of the simulation
  runtime.  Only the members the generated functions touch are modelled.  Every array
  index in the generated code is a literal inside the sizes fixed by
  \<^verbatim>\<open>oc_latch_setupDataStruc\<close> (58 reals, 12 booleans, 61 real parameters, 7 relations),
  so an array is a total function from its index.  A C \<^verbatim>\<open>double\<close> is an idealised real
  number; rounding is not modelled.
\<close>

record SIMULATION_DATA =
  timeValue :: real
  realVars :: "nat \<Rightarrow> real"
  booleanVars :: "nat \<Rightarrow> bool"

record CALL_STATISTICS =
  functionZeroCrossings :: int
  functionZeroCrossingsEquations :: int
  functionAlgebraics :: int
  functionODE :: int

record SIMULATION_INFO =
  realVarsPre :: "nat \<Rightarrow> real"
  booleanVarsPre :: "nat \<Rightarrow> bool"
  realParameter :: "nat \<Rightarrow> real"
  integerParameter :: "nat \<Rightarrow> int"
  booleanParameter :: "nat \<Rightarrow> bool"
  storedRelations :: "nat \<Rightarrow> bool"
  relations :: "nat \<Rightarrow> bool"
  discreteCall :: bool
  needToIterate :: bool
  noThrowAsserts :: bool
  needToReThrow :: bool
  callStatistics :: CALL_STATISTICS

record DATA =
  localData :: "nat \<Rightarrow> SIMULATION_DATA"
  simulationInfo :: SIMULATION_INFO

record threadData_t =
  lastEquationSolved :: int

text \<open>
  The logging sink of the runtime receives the calls of \<^verbatim>\<open>infoStreamPrint\<close>,
  \<^verbatim>\<open>infoStreamPrintWithEquationIndexes\<close>, \<^verbatim>\<open>messageClose\<close>, \<^verbatim>\<open>omc_assert_warning\<close> and
  \<^verbatim>\<open>omc_assert_warning_withEquationIndexes\<close>; each call is one entry, with its format
  string and arguments.
\<close>

datatype stream = LOG_DT | LOG_ASSERT | LOG_INIT

datatype arg = RealArg real | StringArg string

datatype FILE_INFO = FILE_INFO string nat nat nat nat nat

datatype log_entry =
    InfoStreamPrint stream nat string "arg list"
  | InfoStreamPrintWithEquationIndexes stream nat "nat list" string "arg list"
  | MessageClose stream
  | AssertWarning FILE_INFO string "arg list"
  | AssertWarningWithEquationIndexes FILE_INFO "nat list" string

text \<open>
  A fatal error unwinds to the caller of the pass (the runtime's \<^verbatim>\<open>longjmp\<close>); the
  value records which throwing function was called and with what.
\<close>

datatype error =
    StreamPrintWithEquationIndexes "nat list" string "real list"
  | AssertWithEquationIndexes FILE_INFO "nat list" string
  | DivisionError string

text \<open>
  The machine state: the store, the thread data, the log written so far, and the
  function-local \<^verbatim>\<open>static int\<close> flags of the assertion functions, one per equation
  index (all 0 at program start).
\<close>

record state =
  data :: DATA
  threadData :: threadData_t
  messages :: "log_entry list"
  warned :: "nat \<Rightarrow> bool"

datatype 'a result = Normal 'a state | Abort error state

fun state_of :: "'a result \<Rightarrow> state" where
  "state_of (Normal a s) = s"
| "state_of (Abort e s) = s"

subsection \<open>Reading and writing the store\<close>

definition realVar :: "state \<Rightarrow> nat \<Rightarrow> real" where
  \<comment> \<open>\<^verbatim>\<open>data->localData[0]->realVars[i]\<close>\<close>
  "realVar s i = realVars (localData (data s) 0) i"

definition booleanVar :: "state \<Rightarrow> nat \<Rightarrow> bool" where
  \<comment> \<open>\<^verbatim>\<open>data->localData[0]->booleanVars[i]\<close>\<close>
  "booleanVar s i = booleanVars (localData (data s) 0) i"

definition timeValue0 :: "state \<Rightarrow> real" where
  \<comment> \<open>\<^verbatim>\<open>data->localData[0]->timeValue\<close>\<close>
  "timeValue0 s = timeValue (localData (data s) 0)"

definition realVarOld :: "state \<Rightarrow> nat \<Rightarrow> real" where
  \<comment> \<open>\<^verbatim>\<open>data->localData[1]->realVars[i]\<close>, the previous solution\<close>
  "realVarOld s i = realVars (localData (data s) 1) i"

definition realPre :: "state \<Rightarrow> nat \<Rightarrow> real" where
  "realPre s i = realVarsPre (simulationInfo (data s)) i"

definition booleanPre :: "state \<Rightarrow> nat \<Rightarrow> bool" where
  "booleanPre s i = booleanVarsPre (simulationInfo (data s)) i"

definition realParam :: "state \<Rightarrow> nat \<Rightarrow> real" where
  "realParam s i = realParameter (simulationInfo (data s)) i"

definition integerParam :: "state \<Rightarrow> nat \<Rightarrow> int" where
  "integerParam s i = integerParameter (simulationInfo (data s)) i"

definition booleanParam :: "state \<Rightarrow> nat \<Rightarrow> bool" where
  "booleanParam s i = booleanParameter (simulationInfo (data s)) i"

definition storedRelation :: "state \<Rightarrow> nat \<Rightarrow> bool" where
  "storedRelation s i = storedRelations (simulationInfo (data s)) i"

definition info_upd :: "(SIMULATION_INFO \<Rightarrow> SIMULATION_INFO) \<Rightarrow> state \<Rightarrow> state" where
  "info_upd f s = s\<lparr>data := (data s)\<lparr>simulationInfo := f (simulationInfo (data s))\<rparr>\<rparr>"

definition local0_upd :: "(SIMULATION_DATA \<Rightarrow> SIMULATION_DATA) \<Rightarrow> state \<Rightarrow> state" where
  "local0_upd f s =
     s\<lparr>data := (data s)\<lparr>localData := (localData (data s))(0 := f (localData (data s) 0))\<rparr>\<rparr>"

definition realVar_upd :: "nat \<Rightarrow> real \<Rightarrow> state \<Rightarrow> state" where
  \<comment> \<open>\<^verbatim>\<open>data->localData[0]->realVars[i] = v\<close>\<close>
  "realVar_upd i v s = local0_upd (\<lambda>d. d\<lparr>realVars := (realVars d)(i := v)\<rparr>) s"

definition booleanVar_upd :: "nat \<Rightarrow> bool \<Rightarrow> state \<Rightarrow> state" where
  "booleanVar_upd i v s = local0_upd (\<lambda>d. d\<lparr>booleanVars := (booleanVars d)(i := v)\<rparr>) s"

definition realPre_upd :: "nat \<Rightarrow> real \<Rightarrow> state \<Rightarrow> state" where
  "realPre_upd i v s = info_upd (\<lambda>f. f\<lparr>realVarsPre := (realVarsPre f)(i := v)\<rparr>) s"

definition booleanPre_upd :: "nat \<Rightarrow> bool \<Rightarrow> state \<Rightarrow> state" where
  "booleanPre_upd i v s = info_upd (\<lambda>f. f\<lparr>booleanVarsPre := (booleanVarsPre f)(i := v)\<rparr>) s"

definition put :: "log_entry \<Rightarrow> state \<Rightarrow> state" where
  \<comment> \<open>one call of a logging function\<close>
  "put m s = s\<lparr>messages := messages s @ [m]\<rparr>"

subsection \<open>Further members read or written by the generated code\<close>

definition info :: "state \<Rightarrow> SIMULATION_INFO" where
  \<comment> \<open>\<^verbatim>\<open>data->simulationInfo\<close>\<close>
  "info s = simulationInfo (data s)"

definition localData_rest :: "state \<Rightarrow> nat \<Rightarrow> SIMULATION_DATA" where
  \<comment> \<open>\<^verbatim>\<open>data->localData[k + 1]\<close>: the older entries of the ring buffer\<close>
  "localData_rest s k = localData (data s) (Suc k)"

definition lastEquationSolved_upd :: "int \<Rightarrow> state \<Rightarrow> state" where
  \<comment> \<open>\<^verbatim>\<open>threadData->lastEquationSolved = n\<close>\<close>
  "lastEquationSolved_upd n s = s\<lparr>threadData := (threadData s)\<lparr>lastEquationSolved := n\<rparr>\<rparr>"

definition needToReThrow_upd :: "bool \<Rightarrow> state \<Rightarrow> state" where
  "needToReThrow_upd b s = info_upd (\<lambda>f. f\<lparr>needToReThrow := b\<rparr>) s"

definition needToIterate_upd :: "bool \<Rightarrow> state \<Rightarrow> state" where
  "needToIterate_upd b s = info_upd (\<lambda>f. f\<lparr>needToIterate := b\<rparr>) s"

definition discreteCall_upd :: "bool \<Rightarrow> state \<Rightarrow> state" where
  "discreteCall_upd b s = info_upd (\<lambda>f. f\<lparr>discreteCall := b\<rparr>) s"

definition relations_upd :: "nat \<Rightarrow> bool \<Rightarrow> state \<Rightarrow> state" where
  "relations_upd i v s = info_upd (\<lambda>f. f\<lparr>relations := (relations f)(i := v)\<rparr>) s"

definition callStatistics_upd :: "(CALL_STATISTICS \<Rightarrow> CALL_STATISTICS) \<Rightarrow> state \<Rightarrow> state" where
  "callStatistics_upd g s = info_upd (\<lambda>f. f\<lparr>callStatistics := g (callStatistics f)\<rparr>) s"

definition realParam_upd :: "nat \<Rightarrow> real \<Rightarrow> state \<Rightarrow> state" where
  \<comment> \<open>\<^verbatim>\<open>data->simulationInfo->realParameter[i] = v\<close>\<close>
  "realParam_upd i v s = info_upd (\<lambda>f. f\<lparr>realParameter := (realParameter f)(i := v)\<rparr>) s"

definition noThrowAsserts_upd :: "bool \<Rightarrow> state \<Rightarrow> state" where
  "noThrowAsserts_upd b s = info_upd (\<lambda>f. f\<lparr>noThrowAsserts := b\<rparr>) s"

definition warned_upd :: "nat \<Rightarrow> bool \<Rightarrow> state \<Rightarrow> state" where
  \<comment> \<open>the \<^verbatim>\<open>static int\<close> flag of the assertion function of equation \<^verbatim>\<open>i\<close>\<close>
  "warned_upd i b s = s\<lparr>warned := (warned s)(i := b)\<rparr>"

section \<open>The simulation runtime\<close>

text \<open>
  The generated code is linked against the simulation runtime, which is not part of the
  repository.  What the generated functions call there is a parameter of the model.
  The solver of a torn linear system is a program over the two callbacks that
  \<^verbatim>\<open>oc_latch_initialLinearSystem\<close> registers for the system: it may evaluate the residual
  at a trial value, evaluate the analytic Jacobian column for a seed, and finally return a
  code and a solution; it touches the store in no other way.
\<close>

datatype solver_prog =
    Return int real
  | Residual real "real \<Rightarrow> solver_prog"
  | JacobianColumn real "real \<Rightarrow> solver_prog"

record ANALYTIC_JACOBIAN =
  sizeCols :: nat
  sizeRows :: nat
  sizeTmpVars :: nat
  seedVars :: "nat \<Rightarrow> real"
  resultVars :: "nat \<Rightarrow> real"
  tmpVars :: "nat \<Rightarrow> real"

datatype relop = GreaterEq_GreaterEqZC | LessEq_LessEqZC

record runtime =
  ACTIVE_STREAM :: "stream \<Rightarrow> bool"
  initial :: "state \<Rightarrow> bool"
  DIVISION_by_zero :: "real \<Rightarrow> real \<Rightarrow> string \<Rightarrow> error + real"
  DIVISION_SIM_by_zero :: "real \<Rightarrow> real \<Rightarrow> string \<Rightarrow> nat list \<Rightarrow> error + real"
  solver :: "nat \<Rightarrow> real \<Rightarrow> solver_prog"
  analyticJacobians :: "nat \<Rightarrow> ANALYTIC_JACOBIAN"
  relationhysteresis :: "(nat \<Rightarrow> bool) \<Rightarrow> bool \<Rightarrow> real \<Rightarrow> real \<Rightarrow> nat \<Rightarrow> relop \<Rightarrow> bool"
  GreaterEqZC :: "real \<Rightarrow> real \<Rightarrow> bool \<Rightarrow> bool"
  LessEqZC :: "real \<Rightarrow> real \<Rightarrow> bool \<Rightarrow> bool"
  getNextTimeEvent :: "real \<Rightarrow> real"
  getTimeTableValueNoDer :: "int \<Rightarrow> real \<Rightarrow> real \<Rightarrow> real \<Rightarrow> real"
  modelica_real_to_modelica_string_format :: "real \<Rightarrow> string \<Rightarrow> string"
  modelica_integer_to_modelica_string_format :: "int \<Rightarrow> string \<Rightarrow> string"

text \<open>
  \<^verbatim>\<open>DIVISION(a, b, msg)\<close> and \<^verbatim>\<open>DIVISION_SIM(a, b, msg, equationIndexes)\<close> are the
  runtime's guarded divisions: the quotient for a nonzero divisor, and the runtime's
  division-error handler (which raises, or supplies a value to go on with) for a zero
  one.
\<close>

definition DIVISION :: "runtime \<Rightarrow> real \<Rightarrow> real \<Rightarrow> string \<Rightarrow> state \<Rightarrow> real result" where
  "DIVISION rt a b msg s =
     (if b \<noteq> 0 then Normal (a / b) s
      else (case DIVISION_by_zero rt a b msg of
              Inl e \<Rightarrow> Abort e s
            | Inr v \<Rightarrow> Normal v s))"

definition DIVISION_SIM ::
  "runtime \<Rightarrow> real \<Rightarrow> real \<Rightarrow> string \<Rightarrow> nat list \<Rightarrow> state \<Rightarrow> real result" where
  "DIVISION_SIM rt a b msg equationIndexes s =
     (if b \<noteq> 0 then Normal (a / b) s
      else (case DIVISION_SIM_by_zero rt a b msg equationIndexes of
              Inl e \<Rightarrow> Abort e s
            | Inr v \<Rightarrow> Normal v s))"

section \<open>Linear systems (\<^verbatim>\<open>oc_latch_03lsy.c\<close>)\<close>

definition oc_latch_eqFunction_115 :: "state \<Rightarrow> state" where
  \<comment> \<open>\<^verbatim>\<open>R1.v = R1.R_actual * R2.i\<close>\<close>
  "oc_latch_eqFunction_115 s = realVar_upd 2 (realVar s 1 * realVar s 5) s"

definition oc_latch_eqFunction_116 :: "state \<Rightarrow> state" where
  \<comment> \<open>\<^verbatim>\<open>R2.v = R2.R_actual * R2.i\<close>\<close>
  "oc_latch_eqFunction_116 s = realVar_upd 6 (realVar s 4 * realVar s 5) s"

definition residualFunc121 :: "runtime \<Rightarrow> state \<Rightarrow> real \<Rightarrow> real result" where
  "residualFunc121 rt s xloc0 =
     (let s1 = realVar_upd 5 xloc0 s;
          s2 = oc_latch_eqFunction_115 s1;
          s3 = oc_latch_eqFunction_116 s2
      in Normal (realParam s3 29 + (- realVar s3 6) - realVar s3 2) s3)"

definition oc_latch_eqFunction_92 :: "runtime \<Rightarrow> state \<Rightarrow> unit result" where
  \<comment> \<open>\<^verbatim>\<open>resistor3.i = resistor2.v / resistor2.R_actual\<close>\<close>
  "oc_latch_eqFunction_92 rt s =
     (case DIVISION_SIM rt (realVar s 49) (realVar s 48) ''resistor2.R_actual'' [1, 92] s of
        Abort e s' \<Rightarrow> Abort e s'
      | Normal q s' \<Rightarrow> Normal () (realVar_upd 52 q s'))"

definition oc_latch_eqFunction_93 :: "state \<Rightarrow> state" where
  \<comment> \<open>\<^verbatim>\<open>resistor3.v = resistor3.R_actual * resistor3.i\<close>\<close>
  "oc_latch_eqFunction_93 s = realVar_upd 53 (realVar s 51 * realVar s 52) s"

definition residualFunc98 :: "runtime \<Rightarrow> state \<Rightarrow> real \<Rightarrow> real result" where
  "residualFunc98 rt s xloc0 =
     (let s1 = realVar_upd 49 xloc0 s in
      case oc_latch_eqFunction_92 rt s1 of
        Abort e s' \<Rightarrow> Abort e s'
      | Normal u s2 \<Rightarrow>
          (let s3 = oc_latch_eqFunction_93 s2
           in Normal (realParam s3 29 + (- realVar s3 53) - realVar s3 49) s3))"

definition oc_latch_eqFunction_27 :: "runtime \<Rightarrow> state \<Rightarrow> unit result" where
  \<comment> \<open>\<^verbatim>\<open>resistor3.i = resistor3.v / resistor3.R_actual\<close>\<close>
  "oc_latch_eqFunction_27 rt s =
     (case DIVISION_SIM rt (realVar s 53) (realVar s 51) ''resistor3.R_actual'' [1, 27] s of
        Abort e s' \<Rightarrow> Abort e s'
      | Normal q s' \<Rightarrow> Normal () (realVar_upd 52 q s'))"

definition oc_latch_eqFunction_28 :: "state \<Rightarrow> state" where
  \<comment> \<open>\<^verbatim>\<open>resistor2.v = resistor2.R_actual * resistor3.i\<close>\<close>
  "oc_latch_eqFunction_28 s = realVar_upd 49 (realVar s 48 * realVar s 52) s"

definition residualFunc33 :: "runtime \<Rightarrow> state \<Rightarrow> real \<Rightarrow> real result" where
  "residualFunc33 rt s xloc0 =
     (let s1 = realVar_upd 53 xloc0 s in
      case oc_latch_eqFunction_27 rt s1 of
        Abort e s' \<Rightarrow> Abort e s'
      | Normal u s2 \<Rightarrow>
          (let s3 = oc_latch_eqFunction_28 s2
           in Normal (realParam s3 29 + (- realVar s3 53) - realVar s3 49) s3))"

definition oc_latch_eqFunction_17 :: "runtime \<Rightarrow> state \<Rightarrow> unit result" where
  \<comment> \<open>\<^verbatim>\<open>R2.i = R2.v / R2.R_actual\<close>\<close>
  "oc_latch_eqFunction_17 rt s =
     (case DIVISION_SIM rt (realVar s 6) (realVar s 4) ''R2.R_actual'' [1, 17] s of
        Abort e s' \<Rightarrow> Abort e s'
      | Normal q s' \<Rightarrow> Normal () (realVar_upd 5 q s'))"

definition oc_latch_eqFunction_18 :: "state \<Rightarrow> state" where
  \<comment> \<open>\<^verbatim>\<open>R1.v = R1.R_actual * R2.i\<close>\<close>
  "oc_latch_eqFunction_18 s = realVar_upd 2 (realVar s 1 * realVar s 5) s"

definition residualFunc23 :: "runtime \<Rightarrow> state \<Rightarrow> real \<Rightarrow> real result" where
  "residualFunc23 rt s xloc0 =
     (let s1 = realVar_upd 6 xloc0 s in
      case oc_latch_eqFunction_17 rt s1 of
        Abort e s' \<Rightarrow> Abort e s'
      | Normal u s2 \<Rightarrow>
          (let s3 = oc_latch_eqFunction_18 s2
           in Normal (realParam s3 29 + (- realVar s3 6) - realVar s3 2) s3))"

section \<open>Jacobians (\<^verbatim>\<open>oc_latch_12jac.c\<close>)\<close>

text \<open>
  A Jacobian equation receives the store and the \<^verbatim>\<open>ANALYTIC_JACOBIAN\<close> it works on, and
  hands both back.
\<close>

definition tmpVars_upd :: "nat \<Rightarrow> real \<Rightarrow> ANALYTIC_JACOBIAN \<Rightarrow> ANALYTIC_JACOBIAN" where
  "tmpVars_upd i v jacobian = jacobian\<lparr>tmpVars := (tmpVars jacobian)(i := v)\<rparr>"

definition resultVars_upd :: "nat \<Rightarrow> real \<Rightarrow> ANALYTIC_JACOBIAN \<Rightarrow> ANALYTIC_JACOBIAN" where
  "resultVars_upd i v jacobian = jacobian\<lparr>resultVars := (resultVars jacobian)(i := v)\<rparr>"

definition oc_latch_eqFunction_20 ::
  "runtime \<Rightarrow> ANALYTIC_JACOBIAN \<Rightarrow> state \<Rightarrow> ANALYTIC_JACOBIAN result" where
  "oc_latch_eqFunction_20 rt jacobian s =
     (case DIVISION rt (seedVars jacobian 0) (realVar s 4) ''R2.R_actual'' s of
        Abort e s' \<Rightarrow> Abort e s'
      | Normal q s' \<Rightarrow> Normal (tmpVars_upd 0 q jacobian) s')"

definition oc_latch_eqFunction_21 :: "ANALYTIC_JACOBIAN \<Rightarrow> state \<Rightarrow> ANALYTIC_JACOBIAN \<times> state" where
  "oc_latch_eqFunction_21 jacobian s =
     (tmpVars_upd 1 (realVar s 1 * tmpVars jacobian 0) jacobian, s)"

definition oc_latch_eqFunction_22 :: "ANALYTIC_JACOBIAN \<Rightarrow> state \<Rightarrow> ANALYTIC_JACOBIAN \<times> state" where
  "oc_latch_eqFunction_22 jacobian s =
     (resultVars_upd 0 ((- seedVars jacobian 0) - tmpVars jacobian 1) jacobian, s)"

definition oc_latch_functionJacLSJac0_column ::
  "runtime \<Rightarrow> ANALYTIC_JACOBIAN \<Rightarrow> state \<Rightarrow> (int \<times> ANALYTIC_JACOBIAN) result" where
  "oc_latch_functionJacLSJac0_column rt jacobian s =
     (case oc_latch_eqFunction_20 rt jacobian s of
        Abort e s' \<Rightarrow> Abort e s'
      | Normal j1 s1 \<Rightarrow>
          (case oc_latch_eqFunction_21 j1 s1 of (j2, s2) \<Rightarrow>
           case oc_latch_eqFunction_22 j2 s2 of (j3, s3) \<Rightarrow> Normal (0, j3) s3))"

definition oc_latch_eqFunction_30 ::
  "runtime \<Rightarrow> ANALYTIC_JACOBIAN \<Rightarrow> state \<Rightarrow> ANALYTIC_JACOBIAN result" where
  "oc_latch_eqFunction_30 rt jacobian s =
     (case DIVISION rt (seedVars jacobian 0) (realVar s 51) ''resistor3.R_actual'' s of
        Abort e s' \<Rightarrow> Abort e s'
      | Normal q s' \<Rightarrow> Normal (tmpVars_upd 0 q jacobian) s')"

definition oc_latch_eqFunction_31 :: "ANALYTIC_JACOBIAN \<Rightarrow> state \<Rightarrow> ANALYTIC_JACOBIAN \<times> state" where
  "oc_latch_eqFunction_31 jacobian s =
     (tmpVars_upd 1 (realVar s 48 * tmpVars jacobian 0) jacobian, s)"

definition oc_latch_eqFunction_32 :: "ANALYTIC_JACOBIAN \<Rightarrow> state \<Rightarrow> ANALYTIC_JACOBIAN \<times> state" where
  "oc_latch_eqFunction_32 jacobian s =
     (resultVars_upd 0 ((- seedVars jacobian 0) - tmpVars jacobian 1) jacobian, s)"

definition oc_latch_functionJacLSJac1_column ::
  "runtime \<Rightarrow> ANALYTIC_JACOBIAN \<Rightarrow> state \<Rightarrow> (int \<times> ANALYTIC_JACOBIAN) result" where
  "oc_latch_functionJacLSJac1_column rt jacobian s =
     (case oc_latch_eqFunction_30 rt jacobian s of
        Abort e s' \<Rightarrow> Abort e s'
      | Normal j1 s1 \<Rightarrow>
          (case oc_latch_eqFunction_31 j1 s1 of (j2, s2) \<Rightarrow>
           case oc_latch_eqFunction_32 j2 s2 of (j3, s3) \<Rightarrow> Normal (0, j3) s3))"

definition oc_latch_eqFunction_95 ::
  "runtime \<Rightarrow> ANALYTIC_JACOBIAN \<Rightarrow> state \<Rightarrow> ANALYTIC_JACOBIAN result" where
  "oc_latch_eqFunction_95 rt jacobian s =
     (case DIVISION rt (seedVars jacobian 0) (realVar s 48) ''resistor2.R_actual'' s of
        Abort e s' \<Rightarrow> Abort e s'
      | Normal q s' \<Rightarrow> Normal (tmpVars_upd 0 q jacobian) s')"

definition oc_latch_eqFunction_96 :: "ANALYTIC_JACOBIAN \<Rightarrow> state \<Rightarrow> ANALYTIC_JACOBIAN \<times> state" where
  "oc_latch_eqFunction_96 jacobian s =
     (tmpVars_upd 1 (realVar s 51 * tmpVars jacobian 0) jacobian, s)"

definition oc_latch_eqFunction_97 :: "ANALYTIC_JACOBIAN \<Rightarrow> state \<Rightarrow> ANALYTIC_JACOBIAN \<times> state" where
  "oc_latch_eqFunction_97 jacobian s =
     (resultVars_upd 0 ((- tmpVars jacobian 1) - seedVars jacobian 0) jacobian, s)"

definition oc_latch_functionJacLSJac2_column ::
  "runtime \<Rightarrow> ANALYTIC_JACOBIAN \<Rightarrow> state \<Rightarrow> (int \<times> ANALYTIC_JACOBIAN) result" where
  "oc_latch_functionJacLSJac2_column rt jacobian s =
     (case oc_latch_eqFunction_95 rt jacobian s of
        Abort e s' \<Rightarrow> Abort e s'
      | Normal j1 s1 \<Rightarrow>
          (case oc_latch_eqFunction_96 j1 s1 of (j2, s2) \<Rightarrow>
           case oc_latch_eqFunction_97 j2 s2 of (j3, s3) \<Rightarrow> Normal (0, j3) s3))"

definition oc_latch_eqFunction_118 :: "ANALYTIC_JACOBIAN \<Rightarrow> state \<Rightarrow> ANALYTIC_JACOBIAN \<times> state" where
  "oc_latch_eqFunction_118 jacobian s =
     (tmpVars_upd 0 (realVar s 1 * seedVars jacobian 0) jacobian, s)"

definition oc_latch_eqFunction_119 :: "ANALYTIC_JACOBIAN \<Rightarrow> state \<Rightarrow> ANALYTIC_JACOBIAN \<times> state" where
  "oc_latch_eqFunction_119 jacobian s =
     (tmpVars_upd 1 (realVar s 4 * seedVars jacobian 0) jacobian, s)"

definition oc_latch_eqFunction_120 :: "ANALYTIC_JACOBIAN \<Rightarrow> state \<Rightarrow> ANALYTIC_JACOBIAN \<times> state" where
  "oc_latch_eqFunction_120 jacobian s =
     (resultVars_upd 0 ((- tmpVars jacobian 1) - tmpVars jacobian 0) jacobian, s)"

definition oc_latch_functionJacLSJac3_column ::
  "runtime \<Rightarrow> ANALYTIC_JACOBIAN \<Rightarrow> state \<Rightarrow> (int \<times> ANALYTIC_JACOBIAN) result" where
  "oc_latch_functionJacLSJac3_column rt jacobian s =
     (case oc_latch_eqFunction_118 jacobian s of (j1, s1) \<Rightarrow>
      case oc_latch_eqFunction_119 j1 s1 of (j2, s2) \<Rightarrow>
      case oc_latch_eqFunction_120 j2 s2 of (j3, s3) \<Rightarrow> Normal (0, j3) s3)"

fun aborted :: "'a result \<Rightarrow> bool" where
  "aborted (Normal a s) = False"
| "aborted (Abort e s) = True"


definition unit_seed :: "ANALYTIC_JACOBIAN \<Rightarrow> ANALYTIC_JACOBIAN" where
  \<comment> \<open>\<^verbatim>\<open>jacobian->seedVars[0] = 1.0\<close>, as the solver sets it before a column call\<close>
  "unit_seed jacobian = jacobian\<lparr>seedVars := (seedVars jacobian)(0 := 1)\<rparr>"


definition side_buffers_only :: "ANALYTIC_JACOBIAN \<Rightarrow> ANALYTIC_JACOBIAN \<Rightarrow> bool" where
  \<comment> \<open>\<^verbatim>\<open>j\<close> is \<^verbatim>\<open>jacobian\<close> but for the contents of \<^verbatim>\<open>tmpVars\<close> and \<^verbatim>\<open>resultVars\<close>\<close>
  "side_buffers_only jacobian j = (j = jacobian\<lparr>tmpVars := tmpVars j, resultVars := resultVars j\<rparr>)"


section \<open>Solving the torn systems\<close>

record LINEAR_SYSTEM_DATA =
  equationIndex :: nat
  size_ls :: nat
  nnz :: nat
  method_ls :: nat
  residualFunc :: "runtime \<Rightarrow> state \<Rightarrow> real \<Rightarrow> real result"
  analyticalJacobianColumn ::
    "runtime \<Rightarrow> ANALYTIC_JACOBIAN \<Rightarrow> state \<Rightarrow> (int \<times> ANALYTIC_JACOBIAN) result"
  jacobianIndex :: nat

definition oc_latch_initialLinearSystem :: "nat \<Rightarrow> LINEAR_SYSTEM_DATA" where
  \<comment> \<open>the entry the function writes to \<^verbatim>\<open>linearSystemData[i]\<close>, for \<^verbatim>\<open>i\<close> from 3 down to 0\<close>
  "oc_latch_initialLinearSystem i =
     (if i = 3 then
        \<lparr>equationIndex = 121, size_ls = 1, nnz = 0, method_ls = 1,
         residualFunc = residualFunc121,
         analyticalJacobianColumn = oc_latch_functionJacLSJac3_column,
         jacobianIndex = 3\<rparr>
      else if i = 2 then
        \<lparr>equationIndex = 98, size_ls = 1, nnz = 0, method_ls = 1,
         residualFunc = residualFunc98,
         analyticalJacobianColumn = oc_latch_functionJacLSJac2_column,
         jacobianIndex = 2\<rparr>
      else if i = 1 then
        \<lparr>equationIndex = 33, size_ls = 1, nnz = 0, method_ls = 1,
         residualFunc = residualFunc33,
         analyticalJacobianColumn = oc_latch_functionJacLSJac1_column,
         jacobianIndex = 1\<rparr>
      else
        \<lparr>equationIndex = 23, size_ls = 1, nnz = 0, method_ls = 1,
         residualFunc = residualFunc23,
         analyticalJacobianColumn = oc_latch_functionJacLSJac0_column,
         jacobianIndex = 0\<rparr>)"

definition oc_latch_initialAnalyticJacobianLSJac0 :: "ANALYTIC_JACOBIAN \<Rightarrow> int \<times> ANALYTIC_JACOBIAN" where
  \<comment> \<open>sizes 1, 1, 3; the three vectors come from \<^verbatim>\<open>calloc\<close>\<close>
  "oc_latch_initialAnalyticJacobianLSJac0 jacobian =
     (0, jacobian\<lparr>sizeCols := 1, sizeRows := 1, sizeTmpVars := 3,
                   seedVars := (\<lambda>i. 0), resultVars := (\<lambda>i. 0), tmpVars := (\<lambda>i. 0)\<rparr>)"

text \<open>
  Modelled from the spec: \<^verbatim>\<open>solve_linear_system\<close> of the solver library, which is
  "given dimension, residual callback, and optional analytic Jacobian callback" and
  "returns solution vector or a failure code".  The steps the library takes for system
  \<^verbatim>\<open>sysNumber\<close> and start value \<^verbatim>\<open>aux_x[0]\<close> are the runtime's \<^term>\<open>solver\<close>; each
  step is run here on the store through the callback registered for the system.
\<close>

primrec run_solver ::
  "(state \<Rightarrow> real \<Rightarrow> real result) \<Rightarrow>
   (ANALYTIC_JACOBIAN \<Rightarrow> state \<Rightarrow> (int \<times> ANALYTIC_JACOBIAN) result) \<Rightarrow>
   solver_prog \<Rightarrow> ANALYTIC_JACOBIAN \<Rightarrow> state \<Rightarrow> (int \<times> real) result" where
  "run_solver res col (Return retValue x) = (\<lambda>jacobian s. Normal (retValue, x) s)"
| "run_solver res col (Residual x k) =
     (\<lambda>jacobian s.
        case res s x of
          Abort e s' \<Rightarrow> Abort e s'
        | Normal r s' \<Rightarrow> run_solver res col (k r) jacobian s')"
| "run_solver res col (JacobianColumn seed k) =
     (\<lambda>jacobian s.
        case col (jacobian\<lparr>seedVars := (seedVars jacobian)(0 := seed)\<rparr>) s of
          Abort e s' \<Rightarrow> Abort e s'
        | Normal rj s' \<Rightarrow> run_solver res col (k (resultVars (snd rj) 0)) (snd rj) s')"

definition solve_linear_system :: "runtime \<Rightarrow> nat \<Rightarrow> real \<Rightarrow> state \<Rightarrow> (int \<times> real) result" where
  "solve_linear_system rt sysNumber aux_x s =
     (let ls = oc_latch_initialLinearSystem sysNumber
      in run_solver (residualFunc ls rt) (analyticalJacobianColumn ls rt)
           (solver rt sysNumber aux_x) (analyticJacobians rt (jacobianIndex ls)) s)"

text \<open>
  The trial values at which the solver's steps evaluate the residual, in the order of
  the evaluations: the same walk through the steps as \<^term>\<open>run_solver\<close>, keeping the
  arguments of the residual calls.
\<close>

primrec solver_trials ::
  "(state \<Rightarrow> real \<Rightarrow> real result) \<Rightarrow>
   (ANALYTIC_JACOBIAN \<Rightarrow> state \<Rightarrow> (int \<times> ANALYTIC_JACOBIAN) result) \<Rightarrow>
   solver_prog \<Rightarrow> ANALYTIC_JACOBIAN \<Rightarrow> state \<Rightarrow> real list" where
  "solver_trials res col (Return retValue x) = (\<lambda>jacobian s. [])"
| "solver_trials res col (Residual x k) =
     (\<lambda>jacobian s.
        x # (case res s x of
               Abort e s' \<Rightarrow> []
             | Normal r s' \<Rightarrow> solver_trials res col (k r) jacobian s'))"
| "solver_trials res col (JacobianColumn seed k) =
     (\<lambda>jacobian s.
        case col (jacobian\<lparr>seedVars := (seedVars jacobian)(0 := seed)\<rparr>) s of
          Abort e s' \<Rightarrow> []
        | Normal rj s' \<Rightarrow> solver_trials res col (k (resultVars (snd rj) 0)) (snd rj) s')"

definition residual_trials :: "runtime \<Rightarrow> nat \<Rightarrow> real \<Rightarrow> state \<Rightarrow> real list" where
  \<comment> \<open>the trial values of \<^verbatim>\<open>solve_linear_system(data, threadData, sysNumber, &aux_x[0])\<close>\<close>
  "residual_trials rt sysNumber aux_x s =
     (let ls = oc_latch_initialLinearSystem sysNumber
      in solver_trials (residualFunc ls rt) (analyticalJacobianColumn ls rt)
           (solver rt sysNumber aux_x) (analyticJacobians rt (jacobianIndex ls)) s)"

text \<open>The format strings of the four linear-system equations.\<close>

definition solving_98 :: string where
  "solving_98 =
     ''Solving linear system 98 (STRICT TEARING SET if tearing enabled) at time = %18.10e''"

definition failed_98 :: string where
  "failed_98 =
     ''Solving linear system 98 failed at time=%.15g.\<newline>For more information please use -lv LOG_LS.''"

definition solving_121 :: string where
  "solving_121 =
     ''Solving linear system 121 (STRICT TEARING SET if tearing enabled) at time = %18.10e''"

definition failed_121 :: string where
  "failed_121 =
     ''Solving linear system 121 failed at time=%.15g.\<newline>For more information please use -lv LOG_LS.''"

definition solving_23 :: string where
  "solving_23 =
     ''Solving linear system 23 (STRICT TEARING SET if tearing enabled) at time = %18.10e''"

definition failed_23 :: string where
  "failed_23 =
     ''Solving linear system 23 failed at time=%.15g.\<newline>For more information please use -lv LOG_LS.''"

definition solving_33 :: string where
  "solving_33 =
     ''Solving linear system 33 (STRICT TEARING SET if tearing enabled) at time = %18.10e''"

definition failed_33 :: string where
  "failed_33 =
     ''Solving linear system 33 failed at time=%.15g.\<newline>For more information please use -lv LOG_LS.''"

definition log_solving :: "runtime \<Rightarrow> string \<Rightarrow> state \<Rightarrow> state" where
  \<comment> \<open>\<^verbatim>\<open>if(ACTIVE_STREAM(LOG_DT)) { infoStreamPrint(LOG_DT, 1, fmt, time); messageClose(LOG_DT); }\<close>\<close>
  "log_solving rt fmt s =
     (if ACTIVE_STREAM rt LOG_DT
      then put (MessageClose LOG_DT) (put (InfoStreamPrint LOG_DT 1 fmt [RealArg (timeValue0 s)]) s)
      else s)"

definition oc_latch_eqFunction_98 :: "runtime \<Rightarrow> state \<Rightarrow> unit result" where
  "oc_latch_eqFunction_98 rt s =
     (let aux_x = realVarOld s 49;
          s1 = log_solving rt solving_98 s
      in case solve_linear_system rt 2 aux_x s1 of
           Abort e s2 \<Rightarrow> Abort e s2
         | Normal rx s2 \<Rightarrow>
             if fst rx > 0
             then Abort (StreamPrintWithEquationIndexes [1, 98] failed_98 [timeValue0 s2]) s2
             else Normal () (realVar_upd 49 (snd rx) s2))"

definition oc_latch_eqFunction_121 :: "runtime \<Rightarrow> state \<Rightarrow> unit result" where
  "oc_latch_eqFunction_121 rt s =
     (let aux_x = realVarOld s 5;
          s1 = log_solving rt solving_121 s
      in case solve_linear_system rt 3 aux_x s1 of
           Abort e s2 \<Rightarrow> Abort e s2
         | Normal rx s2 \<Rightarrow>
             if fst rx > 0
             then Abort (StreamPrintWithEquationIndexes [1, 121] failed_121 [timeValue0 s2]) s2
             else Normal () (realVar_upd 5 (snd rx) s2))"

definition oc_latch_eqFunction_23 :: "runtime \<Rightarrow> state \<Rightarrow> unit result" where
  "oc_latch_eqFunction_23 rt s =
     (let aux_x = realVarOld s 6;
          s1 = log_solving rt solving_23 s
      in case solve_linear_system rt 0 aux_x s1 of
           Abort e s2 \<Rightarrow> Abort e s2
         | Normal rx s2 \<Rightarrow>
             if fst rx > 0
             then Abort (StreamPrintWithEquationIndexes [1, 23] failed_23 [timeValue0 s2]) s2
             else Normal () (realVar_upd 6 (snd rx) s2))"

definition oc_latch_eqFunction_33 :: "runtime \<Rightarrow> state \<Rightarrow> unit result" where
  "oc_latch_eqFunction_33 rt s =
     (let aux_x = realVarOld s 53;
          s1 = log_solving rt solving_33 s
      in case solve_linear_system rt 1 aux_x s1 of
           Abort e s2 \<Rightarrow> Abort e s2
         | Normal rx s2 \<Rightarrow>
             if fst rx > 0
             then Abort (StreamPrintWithEquationIndexes [1, 33] failed_33 [timeValue0 s2]) s2
             else Normal () (realVar_upd 53 (snd rx) s2))"

section \<open>When-clauses (\<^verbatim>\<open>oc_latch.c\<close>)\<close>

text \<open>
  \<^verbatim>\<open>omc_Modelica_Blocks_Tables_Internal_getNextTimeEvent(threadData, extObjs[0], t)\<close> is
  the runtime's \<^term>\<open>getNextTimeEvent\<close> for the table the model owns.
\<close>

definition oc_latch_eqFunction_106 :: "runtime \<Rightarrow> state \<Rightarrow> state" where
  "oc_latch_eqFunction_106 rt s =
     (if booleanVar s 0 \<and> \<not> booleanPre s 0
      then realVar_upd 57 (getNextTimeEvent rt (realVar s 9)) s
      else s)"

definition oc_latch_eqFunction_108 :: "state \<Rightarrow> state" where
  "oc_latch_eqFunction_108 s =
     (if booleanVar s 0 \<and> \<not> booleanPre s 0
      then (let tmp5 = (realVar s 57 < 9999999999999999 * 10 ^ 44)
            in realVar_upd 56 (if tmp5 then realVar s 57 else 9999999999999999 * 10 ^ 44) s)
      else s)"

section \<open>Zero crossings and relations (\<^verbatim>\<open>oc_latch_05evt.c\<close>)\<close>

text \<open>
  \<^verbatim>\<open>gout\<close> is the caller's indicator array.  The timer calls under
  \<^verbatim>\<open>measure_time_flag\<close> do not touch the store and are left out.
\<close>

definition oc_latch_function_ZeroCrossings ::
  "runtime \<Rightarrow> state \<Rightarrow> (nat \<Rightarrow> real) \<Rightarrow> int \<times> (nat \<Rightarrow> real) \<times> state" where
  "oc_latch_function_ZeroCrossings rt s gout =
     (let s1 = callStatistics_upd
                 (\<lambda>c. c\<lparr>functionZeroCrossings := functionZeroCrossings c + 1\<rparr>) s;
          tmp0 = GreaterEqZC rt (realVar s1 36) (realParam s1 32) (storedRelation s1 0);
          gout = gout(0 := if tmp0 then 1 else - 1);
          tmp1 = GreaterEqZC rt (realVar s1 38) (realParam s1 33) (storedRelation s1 1);
          gout = gout(1 := if tmp1 then 1 else - 1);
          tmp2 = LessEqZC rt (timeValue0 s1) (1 / 10) (storedRelation s1 2);
          tmp3 = GreaterEqZC rt (timeValue0 s1) (9 / 10) (storedRelation s1 3);
          gout = gout(2 := if tmp2 \<or> tmp3 then 1 else - 1);
          tmp4 = GreaterEqZC rt (timeValue0 s1) (95 / 100) (storedRelation s1 4);
          tmp5 = LessEqZC rt (timeValue0 s1) (96 / 100) (storedRelation s1 5);
          gout = gout(3 := if tmp4 \<and> tmp5 then 1 else - 1);
          tmp6 = GreaterEqZC rt (timeValue0 s1) (realPre s1 56) (storedRelation s1 6);
          gout = gout(4 := if tmp6 then 1 else - 1)
      in (0, gout, s1))"

definition oc_latch_function_updateRelations :: "runtime \<Rightarrow> state \<Rightarrow> bool \<Rightarrow> int \<times> state" where
  "oc_latch_function_updateRelations rt s evalforZeroCross =
     (if evalforZeroCross then
        (let s = relations_upd 0
                   (GreaterEqZC rt (realVar s 36) (realParam s 32) (storedRelation s 0)) s;
             s = relations_upd 1
                   (GreaterEqZC rt (realVar s 38) (realParam s 33) (storedRelation s 1)) s;
             s = relations_upd 2 (LessEqZC rt (timeValue0 s) (1 / 10) (storedRelation s 2)) s;
             s = relations_upd 3 (GreaterEqZC rt (timeValue0 s) (9 / 10) (storedRelation s 3)) s;
             s = relations_upd 4 (GreaterEqZC rt (timeValue0 s) (95 / 100) (storedRelation s 4)) s;
             s = relations_upd 5 (LessEqZC rt (timeValue0 s) (96 / 100) (storedRelation s 5)) s;
             s = relations_upd 6
                   (GreaterEqZC rt (timeValue0 s) (realPre s 56) (storedRelation s 6)) s
         in (0, s))
      else
        (let s = relations_upd 0 (realVar s 36 \<ge> realParam s 32) s;
             s = relations_upd 1 (realVar s 38 \<ge> realParam s 33) s;
             s = relations_upd 2 (timeValue0 s \<le> 1 / 10) s;
             s = relations_upd 3 (timeValue0 s \<ge> 9 / 10) s;
             s = relations_upd 4 (timeValue0 s \<ge> 95 / 100) s;
             s = relations_upd 5 (timeValue0 s \<le> 96 / 100) s;
             s = relations_upd 6 (timeValue0 s \<ge> realPre s 56) s
         in (0, s)))"

definition relation_holds :: "runtime \<Rightarrow> state \<Rightarrow> nat \<Rightarrow> bool" where
  \<comment> \<open>the value of the relation registered under index \<^verbatim>\<open>i\<close>
      (\<^verbatim>\<open>oc_latch_relationDescription(i)\<close>), evaluated with hysteresis\<close>
  "relation_holds rt s i = relations (info (snd (oc_latch_function_updateRelations rt s True))) i"


section \<open>Assertions\<close>

text \<open>
  Every assertion function of the generated code has one of two shapes.  Both report a
  violation with the same two calls: under \<^verbatim>\<open>noThrowAsserts\<close> to the info stream
  \<^verbatim>\<open>LOG_ASSERT\<close>, otherwise through \<^verbatim>\<open>omc_assert_warning\<close> followed by the assert
  function proper.  \<^verbatim>\<open>GreaterEq(a, b)\<close> and \<^verbatim>\<open>LessEq(a, b)\<close> are the comparisons the
  equation's comment states.
\<close>

definition violated_text :: "string \<Rightarrow> string" where
  \<comment> \<open>the format string of the report, ending in the text of the condition\<close>
  "violated_text c = ''The following assertion has been violated %sat time %f\<newline>'' @ c"

definition violation_args :: "runtime \<Rightarrow> state \<Rightarrow> arg list" where
  \<comment> \<open>\<^verbatim>\<open>initial() ? "during initialization " : "", data->localData[0]->timeValue\<close>\<close>
  "violation_args rt s =
     [StringArg (if initial rt s then ''during initialization '' else []), RealArg (timeValue0 s)]"

definition assertion_violated ::
  "runtime \<Rightarrow> FILE_INFO \<Rightarrow> nat list \<Rightarrow> string \<Rightarrow> string \<Rightarrow> state \<Rightarrow> unit result" where
  \<comment> \<open>the report of the assertions that end in \<^verbatim>\<open>omc_assert_withEquationIndexes\<close>\<close>
  "assertion_violated rt finfo equationIndexes c msg s =
     (if noThrowAsserts (info s) then
        Normal ()
          (needToReThrow_upd True
            (put (InfoStreamPrint LOG_ASSERT 0 ''%s'' [StringArg msg])
              (put (InfoStreamPrintWithEquationIndexes LOG_ASSERT 0 equationIndexes
                      (violated_text c) (violation_args rt s)) s)))
      else
        Abort (AssertWithEquationIndexes finfo equationIndexes msg)
          (put (AssertWarning finfo (violated_text c) (violation_args rt s)) s))"

definition warning_violated ::
  "runtime \<Rightarrow> FILE_INFO \<Rightarrow> nat list \<Rightarrow> string \<Rightarrow> string \<Rightarrow> state \<Rightarrow> state" where
  \<comment> \<open>the report of the assertions that end in \<^verbatim>\<open>omc_assert_warning_withEquationIndexes\<close>\<close>
  "warning_violated rt finfo equationIndexes c msg s =
     (if noThrowAsserts (info s) then
        put (InfoStreamPrint LOG_ASSERT 0 ''%s'' [StringArg msg])
          (put (InfoStreamPrintWithEquationIndexes LOG_ASSERT 0 equationIndexes
                  (violated_text c) (violation_args rt s)) s)
      else
        put (AssertWarningWithEquationIndexes finfo equationIndexes msg)
          (put (AssertWarning finfo (violated_text c) (violation_args rt s)) s))"

text \<open>
  The assertions of the algebraic and initial equations
  (\<^verbatim>\<open>oc_latch.c\<close>, \<^verbatim>\<open>oc_latch_06inz.c\<close>).  Each declares a \<^verbatim>\<open>static int\<close> flag that it
  neither reads nor writes.
\<close>

definition oc_latch_eqFunction_83 :: "runtime \<Rightarrow> state \<Rightarrow> unit result" where
  "oc_latch_eqFunction_83 rt s =
     (let tmp19 = (1 + realParam s 4 * (realParam s 1 - realParam s 3) \<ge> 1 / 10 ^ 15) in
      if \<not> tmp19 then
        assertion_violated rt
          (FILE_INFO ''C:/OpenModelica/lib/omlibrary/Modelica 4.0.0/Electrical/Analog/Basic/Resistor.mo'' 15 3 16 43 0)
          [1, 83]
          ''1.0 + R1.alpha * (R1.T - R1.T_ref) >= 1e-15''
          ''Temperature outside scope of model!'' s
      else Normal () s)"

definition oc_latch_eqFunction_84 :: "runtime \<Rightarrow> state \<Rightarrow> unit result" where
  "oc_latch_eqFunction_84 rt s =
     (let tmp16 = (1 + realParam s 10 * (realParam s 7 - realParam s 9) \<ge> 1 / 10 ^ 15) in
      if \<not> tmp16 then
        assertion_violated rt
          (FILE_INFO ''C:/OpenModelica/lib/omlibrary/Modelica 4.0.0/Electrical/Analog/Basic/Resistor.mo'' 15 3 16 43 0)
          [1, 84]
          ''1.0 + R2.alpha * (R2.T - R2.T_ref) >= 1e-15''
          ''Temperature outside scope of model!'' s
      else Normal () s)"

definition oc_latch_eqFunction_85 :: "runtime \<Rightarrow> state \<Rightarrow> unit result" where
  "oc_latch_eqFunction_85 rt s =
     (let tmp13 = (1 + realParam s 42 * (realParam s 39 - realParam s 41) \<ge> 1 / 10 ^ 15) in
      if \<not> tmp13 then
        assertion_violated rt
          (FILE_INFO ''C:/OpenModelica/lib/omlibrary/Modelica 4.0.0/Electrical/Analog/Basic/Resistor.mo'' 15 3 16 43 0)
          [1, 85]
          ''1.0 + resistor.alpha * (resistor.T - resistor.T_ref) >= 1e-15''
          ''Temperature outside scope of model!'' s
      else Normal () s)"

definition oc_latch_eqFunction_86 :: "runtime \<Rightarrow> state \<Rightarrow> unit result" where
  "oc_latch_eqFunction_86 rt s =
     (let tmp10 = (1 + realParam s 48 * (realParam s 45 - realParam s 47) \<ge> 1 / 10 ^ 15) in
      if \<not> tmp10 then
        assertion_violated rt
          (FILE_INFO ''C:/OpenModelica/lib/omlibrary/Modelica 4.0.0/Electrical/Analog/Basic/Resistor.mo'' 15 3 16 43 0)
          [1, 86]
          ''1.0 + resistor1.alpha * (resistor1.T - resistor1.T_ref) >= 1e-15''
          ''Temperature outside scope of model!'' s
      else Normal () s)"

definition oc_latch_eqFunction_87 :: "runtime \<Rightarrow> state \<Rightarrow> unit result" where
  "oc_latch_eqFunction_87 rt s =
     (let tmp7 = (1 + realParam s 54 * (realParam s 51 - realParam s 53) \<ge> 1 / 10 ^ 15) in
      if \<not> tmp7 then
        assertion_violated rt
          (FILE_INFO ''C:/OpenModelica/lib/omlibrary/Modelica 4.0.0/Electrical/Analog/Basic/Resistor.mo'' 15 3 16 43 0)
          [1, 87]
          ''1.0 + resistor2.alpha * (resistor2.T - resistor2.T_ref) >= 1e-15''
          ''Temperature outside scope of model!'' s
      else Normal () s)"

definition oc_latch_eqFunction_88 :: "runtime \<Rightarrow> state \<Rightarrow> unit result" where
  "oc_latch_eqFunction_88 rt s =
     (let tmp4 = (1 + realParam s 60 * (realParam s 57 - realParam s 59) \<ge> 1 / 10 ^ 15) in
      if \<not> tmp4 then
        assertion_violated rt
          (FILE_INFO ''C:/OpenModelica/lib/omlibrary/Modelica 4.0.0/Electrical/Analog/Basic/Resistor.mo'' 15 3 16 43 0)
          [1, 88]
          ''1.0 + resistor3.alpha * (resistor3.T - resistor3.T_ref) >= 1e-15''
          ''Temperature outside scope of model!'' s
      else Normal () s)"

definition oc_latch_eqFunction_134 :: "runtime \<Rightarrow> state \<Rightarrow> unit result" where
  "oc_latch_eqFunction_134 rt s =
     (let tmp25 = (1 + realParam s 4 * (realParam s 1 - realParam s 3) \<ge> 1 / 10 ^ 15) in
      if \<not> tmp25 then
        assertion_violated rt
          (FILE_INFO ''C:/OpenModelica/lib/omlibrary/Modelica 4.0.0/Electrical/Analog/Basic/Resistor.mo'' 15 3 16 43 0)
          [1, 134]
          ''1.0 + R1.alpha * (R1.T - R1.T_ref) >= 1e-15''
          ''Temperature outside scope of model!'' s
      else Normal () s)"

definition oc_latch_eqFunction_135 :: "runtime \<Rightarrow> state \<Rightarrow> unit result" where
  "oc_latch_eqFunction_135 rt s =
     (let tmp22 = (1 + realParam s 10 * (realParam s 7 - realParam s 9) \<ge> 1 / 10 ^ 15) in
      if \<not> tmp22 then
        assertion_violated rt
          (FILE_INFO ''C:/OpenModelica/lib/omlibrary/Modelica 4.0.0/Electrical/Analog/Basic/Resistor.mo'' 15 3 16 43 0)
          [1, 135]
          ''1.0 + R2.alpha * (R2.T - R2.T_ref) >= 1e-15''
          ''Temperature outside scope of model!'' s
      else Normal () s)"

definition oc_latch_eqFunction_136 :: "runtime \<Rightarrow> state \<Rightarrow> unit result" where
  "oc_latch_eqFunction_136 rt s =
     (let tmp19 = (1 + realParam s 42 * (realParam s 39 - realParam s 41) \<ge> 1 / 10 ^ 15) in
      if \<not> tmp19 then
        assertion_violated rt
          (FILE_INFO ''C:/OpenModelica/lib/omlibrary/Modelica 4.0.0/Electrical/Analog/Basic/Resistor.mo'' 15 3 16 43 0)
          [1, 136]
          ''1.0 + resistor.alpha * (resistor.T - resistor.T_ref) >= 1e-15''
          ''Temperature outside scope of model!'' s
      else Normal () s)"

definition oc_latch_eqFunction_137 :: "runtime \<Rightarrow> state \<Rightarrow> unit result" where
  "oc_latch_eqFunction_137 rt s =
     (let tmp16 = (1 + realParam s 48 * (realParam s 45 - realParam s 47) \<ge> 1 / 10 ^ 15) in
      if \<not> tmp16 then
        assertion_violated rt
          (FILE_INFO ''C:/OpenModelica/lib/omlibrary/Modelica 4.0.0/Electrical/Analog/Basic/Resistor.mo'' 15 3 16 43 0)
          [1, 137]
          ''1.0 + resistor1.alpha * (resistor1.T - resistor1.T_ref) >= 1e-15''
          ''Temperature outside scope of model!'' s
      else Normal () s)"

definition oc_latch_eqFunction_138 :: "runtime \<Rightarrow> state \<Rightarrow> unit result" where
  "oc_latch_eqFunction_138 rt s =
     (let tmp13 = (1 + realParam s 54 * (realParam s 51 - realParam s 53) \<ge> 1 / 10 ^ 15) in
      if \<not> tmp13 then
        assertion_violated rt
          (FILE_INFO ''C:/OpenModelica/lib/omlibrary/Modelica 4.0.0/Electrical/Analog/Basic/Resistor.mo'' 15 3 16 43 0)
          [1, 138]
          ''1.0 + resistor2.alpha * (resistor2.T - resistor2.T_ref) >= 1e-15''
          ''Temperature outside scope of model!'' s
      else Normal () s)"

definition oc_latch_eqFunction_139 :: "runtime \<Rightarrow> state \<Rightarrow> unit result" where
  "oc_latch_eqFunction_139 rt s =
     (let tmp10 = (1 + realParam s 60 * (realParam s 57 - realParam s 59) \<ge> 1 / 10 ^ 15) in
      if \<not> tmp10 then
        assertion_violated rt
          (FILE_INFO ''C:/OpenModelica/lib/omlibrary/Modelica 4.0.0/Electrical/Analog/Basic/Resistor.mo'' 15 3 16 43 0)
          [1, 139]
          ''1.0 + resistor3.alpha * (resistor3.T - resistor3.T_ref) >= 1e-15''
          ''Temperature outside scope of model!'' s
      else Normal () s)"

text \<open>
  The assertions on parameter bounds (\<^verbatim>\<open>oc_latch_08bnd.c\<close>).  The \<^verbatim>\<open>static int\<close> flag
  of the function of equation \<^verbatim>\<open>n\<close> is \<^term>\<open>warned s n\<close>.
\<close>

definition oc_latch_eqFunction_216 :: "runtime \<Rightarrow> state \<Rightarrow> state" where
  "oc_latch_eqFunction_216 rt s =
     (if \<not> warned s 216 then
        (let tmp1 = (realParam s 3 \<ge> 0) in
         if \<not> tmp1 then
           (let str = modelica_real_to_modelica_string_format rt (realParam s 3) ''g'';
                msg = ''Variable violating min constraint: 0.0 <= R1.T_ref, has value: '' @ str
            in warned_upd 216 True
                 (warning_violated rt
                    (FILE_INFO ''C:/OpenModelica/lib/omlibrary/Modelica 4.0.0/Electrical/Analog/Basic/Resistor.mo'' 5 3 5 64 0)
                    [1, 216]
                    ''R1.T_ref >= 0.0''
                    msg s))
         else s)
      else s)"

definition oc_latch_eqFunction_217 :: "runtime \<Rightarrow> state \<Rightarrow> state" where
  "oc_latch_eqFunction_217 rt s =
     (if \<not> warned s 217 then
        (let tmp6 = (realParam s 1 \<ge> 0) in
         if \<not> tmp6 then
           (let str = modelica_real_to_modelica_string_format rt (realParam s 1) ''g'';
                msg = ''Variable violating min constraint: 0.0 <= R1.T, has value: '' @ str
            in warned_upd 217 True
                 (warning_violated rt
                    (FILE_INFO ''C:/OpenModelica/lib/omlibrary/Modelica 4.0.0/Electrical/Analog/Interfaces/ConditionalHeatPort.mo'' 7 3 8 97 0)
                    [1, 217]
                    ''R1.T >= 0.0''
                    msg s))
         else s)
      else s)"

definition oc_latch_eqFunction_218 :: "runtime \<Rightarrow> state \<Rightarrow> state" where
  "oc_latch_eqFunction_218 rt s =
     (if \<not> warned s 218 then
        (let tmp11 = (realParam s 2 \<ge> 0) in
         if \<not> tmp11 then
           (let str = modelica_real_to_modelica_string_format rt (realParam s 2) ''g'';
                msg = ''Variable violating min constraint: 0.0 <= R1.T_heatPort, has value: '' @ str
            in warned_upd 218 True
                 (warning_violated rt
                    (FILE_INFO ''C:/OpenModelica/lib/omlibrary/Modelica 4.0.0/Electrical/Analog/Interfaces/ConditionalHeatPort.mo'' 14 3 14 54 0)
                    [1, 218]
                    ''R1.T_heatPort >= 0.0''
                    msg s))
         else s)
      else s)"

definition oc_latch_eqFunction_219 :: "runtime \<Rightarrow> state \<Rightarrow> state" where
  "oc_latch_eqFunction_219 rt s =
     (if \<not> warned s 219 then
        (let tmp16 = (realParam s 9 \<ge> 0) in
         if \<not> tmp16 then
           (let str = modelica_real_to_modelica_string_format rt (realParam s 9) ''g'';
                msg = ''Variable violating min constraint: 0.0 <= R2.T_ref, has value: '' @ str
            in warned_upd 219 True
                 (warning_violated rt
                    (FILE_INFO ''C:/OpenModelica/lib/omlibrary/Modelica 4.0.0/Electrical/Analog/Basic/Resistor.mo'' 5 3 5 64 0)
                    [1, 219]
                    ''R2.T_ref >= 0.0''
                    msg s))
         else s)
      else s)"

definition oc_latch_eqFunction_220 :: "runtime \<Rightarrow> state \<Rightarrow> state" where
  "oc_latch_eqFunction_220 rt s =
     (if \<not> warned s 220 then
        (let tmp21 = (realParam s 7 \<ge> 0) in
         if \<not> tmp21 then
           (let str = modelica_real_to_modelica_string_format rt (realParam s 7) ''g'';
                msg = ''Variable violating min constraint: 0.0 <= R2.T, has value: '' @ str
            in warned_upd 220 True
                 (warning_violated rt
                    (FILE_INFO ''C:/OpenModelica/lib/omlibrary/Modelica 4.0.0/Electrical/Analog/Interfaces/ConditionalHeatPort.mo'' 7 3 8 97 0)
                    [1, 220]
                    ''R2.T >= 0.0''
                    msg s))
         else s)
      else s)"

definition oc_latch_eqFunction_221 :: "runtime \<Rightarrow> state \<Rightarrow> state" where
  "oc_latch_eqFunction_221 rt s =
     (if \<not> warned s 221 then
        (let tmp26 = (realParam s 8 \<ge> 0) in
         if \<not> tmp26 then
           (let str = modelica_real_to_modelica_string_format rt (realParam s 8) ''g'';
                msg = ''Variable violating min constraint: 0.0 <= R2.T_heatPort, has value: '' @ str
            in warned_upd 221 True
                 (warning_violated rt
                    (FILE_INFO ''C:/OpenModelica/lib/omlibrary/Modelica 4.0.0/Electrical/Analog/Interfaces/ConditionalHeatPort.mo'' 14 3 14 54 0)
                    [1, 221]
                    ''R2.T_heatPort >= 0.0''
                    msg s))
         else s)
      else s)"

definition oc_latch_eqFunction_222 :: "runtime \<Rightarrow> state \<Rightarrow> state" where
  "oc_latch_eqFunction_222 rt s =
     (if \<not> warned s 222 then
        (let tmp31 = (realParam s 41 \<ge> 0) in
         if \<not> tmp31 then
           (let str = modelica_real_to_modelica_string_format rt (realParam s 41) ''g'';
                msg = ''Variable violating min constraint: 0.0 <= resistor.T_ref, has value: '' @ str
            in warned_upd 222 True
                 (warning_violated rt
                    (FILE_INFO ''C:/OpenModelica/lib/omlibrary/Modelica 4.0.0/Electrical/Analog/Basic/Resistor.mo'' 5 3 5 64 0)
                    [1, 222]
                    ''resistor.T_ref >= 0.0''
                    msg s))
         else s)
      else s)"

definition oc_latch_eqFunction_223 :: "runtime \<Rightarrow> state \<Rightarrow> state" where
  "oc_latch_eqFunction_223 rt s =
     (if \<not> warned s 223 then
        (let tmp36 = (realParam s 39 \<ge> 0) in
         if \<not> tmp36 then
           (let str = modelica_real_to_modelica_string_format rt (realParam s 39) ''g'';
                msg = ''Variable violating min constraint: 0.0 <= resistor.T, has value: '' @ str
            in warned_upd 223 True
                 (warning_violated rt
                    (FILE_INFO ''C:/OpenModelica/lib/omlibrary/Modelica 4.0.0/Electrical/Analog/Interfaces/ConditionalHeatPort.mo'' 7 3 8 97 0)
                    [1, 223]
                    ''resistor.T >= 0.0''
                    msg s))
         else s)
      else s)"

definition oc_latch_eqFunction_224 :: "runtime \<Rightarrow> state \<Rightarrow> state" where
  "oc_latch_eqFunction_224 rt s =
     (if \<not> warned s 224 then
        (let tmp41 = (realParam s 40 \<ge> 0) in
         if \<not> tmp41 then
           (let str = modelica_real_to_modelica_string_format rt (realParam s 40) ''g'';
                msg = ''Variable violating min constraint: 0.0 <= resistor.T_heatPort, has value: '' @ str
            in warned_upd 224 True
                 (warning_violated rt
                    (FILE_INFO ''C:/OpenModelica/lib/omlibrary/Modelica 4.0.0/Electrical/Analog/Interfaces/ConditionalHeatPort.mo'' 14 3 14 54 0)
                    [1, 224]
                    ''resistor.T_heatPort >= 0.0''
                    msg s))
         else s)
      else s)"

definition oc_latch_eqFunction_225 :: "runtime \<Rightarrow> state \<Rightarrow> state" where
  "oc_latch_eqFunction_225 rt s =
     (if \<not> warned s 225 then
        (let tmp46 = (realParam s 47 \<ge> 0) in
         if \<not> tmp46 then
           (let str = modelica_real_to_modelica_string_format rt (realParam s 47) ''g'';
                msg = ''Variable violating min constraint: 0.0 <= resistor1.T_ref, has value: '' @ str
            in warned_upd 225 True
                 (warning_violated rt
                    (FILE_INFO ''C:/OpenModelica/lib/omlibrary/Modelica 4.0.0/Electrical/Analog/Basic/Resistor.mo'' 5 3 5 64 0)
                    [1, 225]
                    ''resistor1.T_ref >= 0.0''
                    msg s))
         else s)
      else s)"

definition oc_latch_eqFunction_226 :: "runtime \<Rightarrow> state \<Rightarrow> state" where
  "oc_latch_eqFunction_226 rt s =
     (if \<not> warned s 226 then
        (let tmp51 = (realParam s 45 \<ge> 0) in
         if \<not> tmp51 then
           (let str = modelica_real_to_modelica_string_format rt (realParam s 45) ''g'';
                msg = ''Variable violating min constraint: 0.0 <= resistor1.T, has value: '' @ str
            in warned_upd 226 True
                 (warning_violated rt
                    (FILE_INFO ''C:/OpenModelica/lib/omlibrary/Modelica 4.0.0/Electrical/Analog/Interfaces/ConditionalHeatPort.mo'' 7 3 8 97 0)
                    [1, 226]
                    ''resistor1.T >= 0.0''
                    msg s))
         else s)
      else s)"

definition oc_latch_eqFunction_227 :: "runtime \<Rightarrow> state \<Rightarrow> state" where
  "oc_latch_eqFunction_227 rt s =
     (if \<not> warned s 227 then
        (let tmp56 = (realParam s 46 \<ge> 0) in
         if \<not> tmp56 then
           (let str = modelica_real_to_modelica_string_format rt (realParam s 46) ''g'';
                msg = ''Variable violating min constraint: 0.0 <= resistor1.T_heatPort, has value: '' @ str
            in warned_upd 227 True
                 (warning_violated rt
                    (FILE_INFO ''C:/OpenModelica/lib/omlibrary/Modelica 4.0.0/Electrical/Analog/Interfaces/ConditionalHeatPort.mo'' 14 3 14 54 0)
                    [1, 227]
                    ''resistor1.T_heatPort >= 0.0''
                    msg s))
         else s)
      else s)"

definition oc_latch_eqFunction_228 :: "runtime \<Rightarrow> state \<Rightarrow> state" where
  "oc_latch_eqFunction_228 rt s =
     (if \<not> warned s 228 then
        (let tmp61 = (realParam s 53 \<ge> 0) in
         if \<not> tmp61 then
           (let str = modelica_real_to_modelica_string_format rt (realParam s 53) ''g'';
                msg = ''Variable violating min constraint: 0.0 <= resistor2.T_ref, has value: '' @ str
            in warned_upd 228 True
                 (warning_violated rt
                    (FILE_INFO ''C:/OpenModelica/lib/omlibrary/Modelica 4.0.0/Electrical/Analog/Basic/Resistor.mo'' 5 3 5 64 0)
                    [1, 228]
                    ''resistor2.T_ref >= 0.0''
                    msg s))
         else s)
      else s)"

definition oc_latch_eqFunction_229 :: "runtime \<Rightarrow> state \<Rightarrow> state" where
  "oc_latch_eqFunction_229 rt s =
     (if \<not> warned s 229 then
        (let tmp66 = (realParam s 51 \<ge> 0) in
         if \<not> tmp66 then
           (let str = modelica_real_to_modelica_string_format rt (realParam s 51) ''g'';
                msg = ''Variable violating min constraint: 0.0 <= resistor2.T, has value: '' @ str
            in warned_upd 229 True
                 (warning_violated rt
                    (FILE_INFO ''C:/OpenModelica/lib/omlibrary/Modelica 4.0.0/Electrical/Analog/Interfaces/ConditionalHeatPort.mo'' 7 3 8 97 0)
                    [1, 229]
                    ''resistor2.T >= 0.0''
                    msg s))
         else s)
      else s)"

definition oc_latch_eqFunction_230 :: "runtime \<Rightarrow> state \<Rightarrow> state" where
  "oc_latch_eqFunction_230 rt s =
     (if \<not> warned s 230 then
        (let tmp71 = (realParam s 52 \<ge> 0) in
         if \<not> tmp71 then
           (let str = modelica_real_to_modelica_string_format rt (realParam s 52) ''g'';
                msg = ''Variable violating min constraint: 0.0 <= resistor2.T_heatPort, has value: '' @ str
            in warned_upd 230 True
                 (warning_violated rt
                    (FILE_INFO ''C:/OpenModelica/lib/omlibrary/Modelica 4.0.0/Electrical/Analog/Interfaces/ConditionalHeatPort.mo'' 14 3 14 54 0)
                    [1, 230]
                    ''resistor2.T_heatPort >= 0.0''
                    msg s))
         else s)
      else s)"

definition oc_latch_eqFunction_231 :: "runtime \<Rightarrow> state \<Rightarrow> state" where
  "oc_latch_eqFunction_231 rt s =
     (if \<not> warned s 231 then
        (let tmp76 = (realParam s 59 \<ge> 0) in
         if \<not> tmp76 then
           (let str = modelica_real_to_modelica_string_format rt (realParam s 59) ''g'';
                msg = ''Variable violating min constraint: 0.0 <= resistor3.T_ref, has value: '' @ str
            in warned_upd 231 True
                 (warning_violated rt
                    (FILE_INFO ''C:/OpenModelica/lib/omlibrary/Modelica 4.0.0/Electrical/Analog/Basic/Resistor.mo'' 5 3 5 64 0)
                    [1, 231]
                    ''resistor3.T_ref >= 0.0''
                    msg s))
         else s)
      else s)"

definition oc_latch_eqFunction_232 :: "runtime \<Rightarrow> state \<Rightarrow> state" where
  "oc_latch_eqFunction_232 rt s =
     (if \<not> warned s 232 then
        (let tmp81 = (realParam s 57 \<ge> 0) in
         if \<not> tmp81 then
           (let str = modelica_real_to_modelica_string_format rt (realParam s 57) ''g'';
                msg = ''Variable violating min constraint: 0.0 <= resistor3.T, has value: '' @ str
            in warned_upd 232 True
                 (warning_violated rt
                    (FILE_INFO ''C:/OpenModelica/lib/omlibrary/Modelica 4.0.0/Electrical/Analog/Interfaces/ConditionalHeatPort.mo'' 7 3 8 97 0)
                    [1, 232]
                    ''resistor3.T >= 0.0''
                    msg s))
         else s)
      else s)"

definition oc_latch_eqFunction_233 :: "runtime \<Rightarrow> state \<Rightarrow> state" where
  "oc_latch_eqFunction_233 rt s =
     (if \<not> warned s 233 then
        (let tmp86 = (realParam s 58 \<ge> 0) in
         if \<not> tmp86 then
           (let str = modelica_real_to_modelica_string_format rt (realParam s 58) ''g'';
                msg = ''Variable violating min constraint: 0.0 <= resistor3.T_heatPort, has value: '' @ str
            in warned_upd 233 True
                 (warning_violated rt
                    (FILE_INFO ''C:/OpenModelica/lib/omlibrary/Modelica 4.0.0/Electrical/Analog/Interfaces/ConditionalHeatPort.mo'' 14 3 14 54 0)
                    [1, 233]
                    ''resistor3.T_heatPort >= 0.0''
                    msg s))
         else s)
      else s)"

definition oc_latch_eqFunction_234 :: "runtime \<Rightarrow> state \<Rightarrow> state" where
  "oc_latch_eqFunction_234 rt s =
     (if \<not> warned s 234 then
        (let tmp91 = (integerParam s 4 \<ge> 1);
             tmp92 = (integerParam s 4 \<le> 3) in
         if \<not> (tmp91 \<and> tmp92) then
           (let str = modelica_integer_to_modelica_string_format rt (integerParam s 4) ''d'';
                msg = ''Variable violating min/max constraint: Modelica.Blocks.Types.TimeEvents.Always <= combiTimeTable.timeEvents <= Modelica.Blocks.Types.TimeEvents.NoTimeEvents, has value: '' @ str
            in warned_upd 234 True
                 (warning_violated rt
                    (FILE_INFO ''C:/OpenModelica/lib/omlibrary/Modelica 4.0.0/Blocks/Sources.mo'' 1600 5 1602 131 0)
                    [1, 234]
                    ''combiTimeTable.timeEvents >= Modelica.Blocks.Types.TimeEvents.Always and combiTimeTable.timeEvents <= Modelica.Blocks.Types.TimeEvents.NoTimeEvents''
                    msg s))
         else s)
      else s)"

definition oc_latch_eqFunction_235 :: "runtime \<Rightarrow> state \<Rightarrow> state" where
  "oc_latch_eqFunction_235 rt s =
     (if \<not> warned s 235 then
        (let tmp97 = (realParam s 28 \<ge> 1 / 10 ^ 15) in
         if \<not> tmp97 then
           (let str = modelica_real_to_modelica_string_format rt (realParam s 28) ''g'';
                msg = ''Variable violating min constraint: 1e-15 <= combiTimeTable.timeScale, has value: '' @ str
            in warned_upd 235 True
                 (warning_violated rt
                    (FILE_INFO ''C:/OpenModelica/lib/omlibrary/Modelica 4.0.0/Blocks/Sources.mo'' 1589 5 1591 76 0)
                    [1, 235]
                    ''combiTimeTable.timeScale >= 1e-15''
                    msg s))
         else s)
      else s)"

definition oc_latch_eqFunction_236 :: "runtime \<Rightarrow> state \<Rightarrow> state" where
  "oc_latch_eqFunction_236 rt s =
     (if \<not> warned s 236 then
        (let tmp102 = (integerParam s 1 \<ge> 1);
             tmp103 = (integerParam s 1 \<le> 4) in
         if \<not> (tmp102 \<and> tmp103) then
           (let str = modelica_integer_to_modelica_string_format rt (integerParam s 1) ''d'';
                msg = ''Variable violating min/max constraint: Modelica.Blocks.Types.Extrapolation.HoldLastPoint <= combiTimeTable.extrapolation <= Modelica.Blocks.Types.Extrapolation.NoExtrapolation, has value: '' @ str
            in warned_upd 236 True
                 (warning_violated rt
                    (FILE_INFO ''C:/OpenModelica/lib/omlibrary/Modelica 4.0.0/Blocks/Sources.mo'' 1586 5 1588 61 0)
                    [1, 236]
                    ''combiTimeTable.extrapolation >= Modelica.Blocks.Types.Extrapolation.HoldLastPoint and combiTimeTable.extrapolation <= Modelica.Blocks.Types.Extrapolation.NoExtrapolation''
                    msg s))
         else s)
      else s)"

definition oc_latch_eqFunction_237 :: "runtime \<Rightarrow> state \<Rightarrow> state" where
  "oc_latch_eqFunction_237 rt s =
     (if \<not> warned s 237 then
        (let tmp108 = (integerParam s 3 \<ge> 1);
             tmp109 = (integerParam s 3 \<le> 6) in
         if \<not> (tmp108 \<and> tmp109) then
           (let str = modelica_integer_to_modelica_string_format rt (integerParam s 3) ''d'';
                msg = ''Variable violating min/max constraint: Modelica.Blocks.Types.Smoothness.LinearSegments <= combiTimeTable.smoothness <= Modelica.Blocks.Types.Smoothness.ModifiedContinuousDerivative, has value: '' @ str
            in warned_upd 237 True
                 (warning_violated rt
                    (FILE_INFO ''C:/OpenModelica/lib/omlibrary/Modelica 4.0.0/Blocks/Sources.mo'' 1583 5 1585 61 0)
                    [1, 237]
                    ''combiTimeTable.smoothness >= Modelica.Blocks.Types.Smoothness.LinearSegments and combiTimeTable.smoothness <= Modelica.Blocks.Types.Smoothness.ModifiedContinuousDerivative''
                    msg s))
         else s)
      else s)"

definition oc_latch_eqFunction_238 :: "runtime \<Rightarrow> state \<Rightarrow> state" where
  "oc_latch_eqFunction_238 rt s =
     (if \<not> warned s 238 then
        (let tmp114 = (integerParam s 2 \<ge> 1) in
         if \<not> tmp114 then
           (let str = modelica_integer_to_modelica_string_format rt (integerParam s 2) ''d'';
                msg = ''Variable violating min constraint: 1 <= combiTimeTable.nout, has value: '' @ str
            in warned_upd 238 True
                 (warning_violated rt
                    (FILE_INFO ''C:/OpenModelica/lib/omlibrary/Modelica 4.0.0/Blocks/Interfaces.mo'' 313 5 313 58 0)
                    [1, 238]
                    ''combiTimeTable.nout >= 1''
                    msg s))
         else s)
      else s)"

definition oc_latch_eqFunction_239 :: "runtime \<Rightarrow> state \<Rightarrow> state" where
  "oc_latch_eqFunction_239 rt s =
     (if \<not> warned s 239 then
        (let tmp119 = (realParam s 11 \<ge> 0) in
         if \<not> tmp119 then
           (let str = modelica_real_to_modelica_string_format rt (realParam s 11) ''g'';
                msg = ''Variable violating min constraint: 0.0 <= capacitor.C, has value: '' @ str
            in warned_upd 239 True
                 (warning_violated rt
                    (FILE_INFO ''C:/OpenModelica/lib/omlibrary/Modelica 4.0.0/Electrical/Analog/Basic/Capacitor.mo'' 4 3 4 52 0)
                    [1, 239]
                    ''capacitor.C >= 0.0''
                    msg s))
         else s)
      else s)"

text \<open>
  The two shapes, with the condition, the texts and the source position as parameters;
  each assertion function above is an instance of one of them.
\<close>

definition latched_warning ::
  "nat \<Rightarrow> bool \<Rightarrow> FILE_INFO \<Rightarrow> string \<Rightarrow> string \<Rightarrow> runtime \<Rightarrow> state \<Rightarrow> state" where
  "latched_warning n holds finfo c msg rt s =
     (if \<not> warned s n then
        (if \<not> holds then warned_upd n True (warning_violated rt finfo [1, n] c msg s) else s)
      else s)"

definition throwing_assertion ::
  "nat \<Rightarrow> bool \<Rightarrow> FILE_INFO \<Rightarrow> string \<Rightarrow> string \<Rightarrow> runtime \<Rightarrow> state \<Rightarrow> unit result" where
  "throwing_assertion n holds finfo c msg rt s =
     (if \<not> holds then assertion_violated rt finfo [1, n] c msg s else Normal () s)"


text \<open>
  The assertion calls of the three passes, in the order of the calls:
  the tail of \<^verbatim>\<open>oc_latch_updateBoundParameters_0\<close>, the tail of
  \<^verbatim>\<open>oc_latch_functionInitialEquations_0\<close> and the tail of \<^verbatim>\<open>functionAlg_system0\<close>.
\<close>

definition bound_parameter_assertions :: "(nat \<times> (runtime \<Rightarrow> state \<Rightarrow> state)) list" where
  "bound_parameter_assertions =
     [(216, oc_latch_eqFunction_216),
      (217, oc_latch_eqFunction_217),
      (218, oc_latch_eqFunction_218),
      (219, oc_latch_eqFunction_219),
      (220, oc_latch_eqFunction_220),
      (221, oc_latch_eqFunction_221),
      (222, oc_latch_eqFunction_222),
      (223, oc_latch_eqFunction_223),
      (224, oc_latch_eqFunction_224),
      (225, oc_latch_eqFunction_225),
      (226, oc_latch_eqFunction_226),
      (227, oc_latch_eqFunction_227),
      (228, oc_latch_eqFunction_228),
      (229, oc_latch_eqFunction_229),
      (230, oc_latch_eqFunction_230),
      (231, oc_latch_eqFunction_231),
      (232, oc_latch_eqFunction_232),
      (233, oc_latch_eqFunction_233),
      (234, oc_latch_eqFunction_234),
      (235, oc_latch_eqFunction_235),
      (236, oc_latch_eqFunction_236),
      (237, oc_latch_eqFunction_237),
      (238, oc_latch_eqFunction_238),
      (239, oc_latch_eqFunction_239)]"

definition initial_assertions :: "(nat \<times> (runtime \<Rightarrow> state \<Rightarrow> unit result)) list" where
  "initial_assertions =
     [(88, oc_latch_eqFunction_88),
      (87, oc_latch_eqFunction_87),
      (86, oc_latch_eqFunction_86),
      (85, oc_latch_eqFunction_85),
      (84, oc_latch_eqFunction_84),
      (83, oc_latch_eqFunction_83)]"

definition algebraic_assertions :: "(nat \<times> (runtime \<Rightarrow> state \<Rightarrow> unit result)) list" where
  "algebraic_assertions =
     [(134, oc_latch_eqFunction_134),
      (135, oc_latch_eqFunction_135),
      (136, oc_latch_eqFunction_136),
      (137, oc_latch_eqFunction_137),
      (138, oc_latch_eqFunction_138),
      (139, oc_latch_eqFunction_139)]"

text \<open>
  The condition of each assertion, by equation index: what the function compares before
  its test \<^verbatim>\<open>if(!tmp)\<close>, as the \<^verbatim>\<open>assert\<close> in the equation's comment states it.
\<close>

definition assertion_conditions :: "(nat \<times> (state \<Rightarrow> bool)) list" where
  "assertion_conditions =
     [(83, \<lambda>s. 1 + realParam s 4 * (realParam s 1 - realParam s 3) \<ge> 1 / 10 ^ 15),
      (84, \<lambda>s. 1 + realParam s 10 * (realParam s 7 - realParam s 9) \<ge> 1 / 10 ^ 15),
      (85, \<lambda>s. 1 + realParam s 42 * (realParam s 39 - realParam s 41) \<ge> 1 / 10 ^ 15),
      (86, \<lambda>s. 1 + realParam s 48 * (realParam s 45 - realParam s 47) \<ge> 1 / 10 ^ 15),
      (87, \<lambda>s. 1 + realParam s 54 * (realParam s 51 - realParam s 53) \<ge> 1 / 10 ^ 15),
      (88, \<lambda>s. 1 + realParam s 60 * (realParam s 57 - realParam s 59) \<ge> 1 / 10 ^ 15),
      (134, \<lambda>s. 1 + realParam s 4 * (realParam s 1 - realParam s 3) \<ge> 1 / 10 ^ 15),
      (135, \<lambda>s. 1 + realParam s 10 * (realParam s 7 - realParam s 9) \<ge> 1 / 10 ^ 15),
      (136, \<lambda>s. 1 + realParam s 42 * (realParam s 39 - realParam s 41) \<ge> 1 / 10 ^ 15),
      (137, \<lambda>s. 1 + realParam s 48 * (realParam s 45 - realParam s 47) \<ge> 1 / 10 ^ 15),
      (138, \<lambda>s. 1 + realParam s 54 * (realParam s 51 - realParam s 53) \<ge> 1 / 10 ^ 15),
      (139, \<lambda>s. 1 + realParam s 60 * (realParam s 57 - realParam s 59) \<ge> 1 / 10 ^ 15),
      (216, \<lambda>s. realParam s 3 \<ge> 0),
      (217, \<lambda>s. realParam s 1 \<ge> 0),
      (218, \<lambda>s. realParam s 2 \<ge> 0),
      (219, \<lambda>s. realParam s 9 \<ge> 0),
      (220, \<lambda>s. realParam s 7 \<ge> 0),
      (221, \<lambda>s. realParam s 8 \<ge> 0),
      (222, \<lambda>s. realParam s 41 \<ge> 0),
      (223, \<lambda>s. realParam s 39 \<ge> 0),
      (224, \<lambda>s. realParam s 40 \<ge> 0),
      (225, \<lambda>s. realParam s 47 \<ge> 0),
      (226, \<lambda>s. realParam s 45 \<ge> 0),
      (227, \<lambda>s. realParam s 46 \<ge> 0),
      (228, \<lambda>s. realParam s 53 \<ge> 0),
      (229, \<lambda>s. realParam s 51 \<ge> 0),
      (230, \<lambda>s. realParam s 52 \<ge> 0),
      (231, \<lambda>s. realParam s 59 \<ge> 0),
      (232, \<lambda>s. realParam s 57 \<ge> 0),
      (233, \<lambda>s. realParam s 58 \<ge> 0),
      (234, \<lambda>s. integerParam s 4 \<ge> 1 \<and> integerParam s 4 \<le> 3),
      (235, \<lambda>s. realParam s 28 \<ge> 1 / 10 ^ 15),
      (236, \<lambda>s. integerParam s 1 \<ge> 1 \<and> integerParam s 1 \<le> 4),
      (237, \<lambda>s. integerParam s 3 \<ge> 1 \<and> integerParam s 3 \<le> 6),
      (238, \<lambda>s. integerParam s 2 \<ge> 1),
      (239, \<lambda>s. realParam s 11 \<ge> 0)]"

definition assertion_condition :: "nat \<Rightarrow> state \<Rightarrow> bool" where
  "assertion_condition n s = (case map_of assertion_conditions n of Some c \<Rightarrow> c s | None \<Rightarrow> True)"

section \<open>The algebraic pass (\<^verbatim>\<open>oc_latch.c\<close>, \<^verbatim>\<open>oc_latch_09alg.c\<close>)\<close>

text \<open>
  The equations that \<^verbatim>\<open>functionAlg_system0\<close> calls, besides the linear systems 98 and
  121 and the assertions 134 to 139.  \<^verbatim>\<open>relationhysteresis\<close> is the runtime's macro: it
  is given the stored relations, the \<^verbatim>\<open>discreteCall\<close> flag, the two operands, the index
  of the relation and the pair of comparison functions, and yields the boolean.
\<close>

definition oc_latch_eqFunction_89 :: "runtime \<Rightarrow> state \<Rightarrow> unit result" where
  \<comment> \<open>\<^verbatim>\<open>$whenCondition1 = time >= pre(combiTimeTable.nextTimeEvent)\<close>\<close>
  "oc_latch_eqFunction_89 rt s =
     (let tmp0 = relationhysteresis rt (storedRelations (info s)) (discreteCall (info s))
                   (timeValue0 s) (realPre s 56) 6 GreaterEq_GreaterEqZC
      in Normal () (booleanVar_upd 0 tmp0 s))"

definition oc_latch_eqFunction_90 :: "runtime \<Rightarrow> state \<Rightarrow> unit result" where
  \<comment> \<open>\<^verbatim>\<open>reset = time >= 0.95 and time <= 0.96\<close>\<close>
  "oc_latch_eqFunction_90 rt s =
     (let tmp1 = relationhysteresis rt (storedRelations (info s)) (discreteCall (info s))
                   (timeValue0 s) (95 / 100) 4 GreaterEq_GreaterEqZC;
          tmp2 = relationhysteresis rt (storedRelations (info s)) (discreteCall (info s))
                   (timeValue0 s) (96 / 100) 5 LessEq_LessEqZC
      in Normal () (booleanVar_upd 11 (tmp1 \<and> tmp2) s))"

definition oc_latch_eqFunction_91 :: "runtime \<Rightarrow> state \<Rightarrow> unit result" where
  \<comment> \<open>\<^verbatim>\<open>enable = time <= 0.1 or time >= 0.9\<close>\<close>
  "oc_latch_eqFunction_91 rt s =
     (let tmp3 = relationhysteresis rt (storedRelations (info s)) (discreteCall (info s))
                   (timeValue0 s) (1 / 10) 2 LessEq_LessEqZC;
          tmp4 = relationhysteresis rt (storedRelations (info s)) (discreteCall (info s))
                   (timeValue0 s) (9 / 10) 3 GreaterEq_GreaterEqZC
      in Normal () (booleanVar_upd 2 (tmp3 \<or> tmp4) s))"

definition oc_latch_eqFunction_99 :: "runtime \<Rightarrow> state \<Rightarrow> unit result" where
  \<comment> \<open>\<^verbatim>\<open>resistor2.LossPower = resistor2.v * resistor3.i\<close>\<close>
  "oc_latch_eqFunction_99 rt s = Normal () (realVar_upd 47 (realVar s 49 * realVar s 52) s)"

definition oc_latch_eqFunction_100 :: "runtime \<Rightarrow> state \<Rightarrow> unit result" where
  \<comment> \<open>\<^verbatim>\<open>resistor3.LossPower = resistor3.v * resistor3.i\<close>\<close>
  "oc_latch_eqFunction_100 rt s = Normal () (realVar_upd 50 (realVar s 53 * realVar s 52) s)"

definition oc_latch_eqFunction_101 :: "runtime \<Rightarrow> state \<Rightarrow> unit result" where
  \<comment> \<open>\<^verbatim>\<open>pre11.y = pre(pre11.u)\<close>\<close>
  "oc_latch_eqFunction_101 rt s = Normal () (booleanVar_upd 10 (booleanPre s 9) s)"

definition oc_latch_eqFunction_102 :: "runtime \<Rightarrow> state \<Rightarrow> unit result" where
  \<comment> \<open>\<^verbatim>\<open>nor1.u1 = pre(pre1.u)\<close>\<close>
  "oc_latch_eqFunction_102 rt s = Normal () (booleanVar_upd 5 (booleanPre s 8) s)"

definition oc_latch_eqFunction_103 :: "runtime \<Rightarrow> state \<Rightarrow> unit result" where
  \<comment> \<open>\<^verbatim>\<open>SW = not (nor1.u1 or pre11.y)\<close>\<close>
  "oc_latch_eqFunction_103 rt s =
     Normal () (booleanVar_upd 1 (\<not> (booleanVar s 5 \<or> booleanVar s 10)) s)"

definition oc_latch_eqFunction_104 :: "runtime \<Rightarrow> state \<Rightarrow> unit result" where
  \<comment> \<open>\<^verbatim>\<open>pre1.u = not (SW or enable)\<close>\<close>
  "oc_latch_eqFunction_104 rt s =
     Normal () (booleanVar_upd 8 (\<not> (booleanVar s 1 \<or> booleanVar s 2)) s)"

definition oc_latch_eqFunction_105 :: "runtime \<Rightarrow> state \<Rightarrow> unit result" where
  \<comment> \<open>\<^verbatim>\<open>combiTimeTable.timeScaled = time\<close>\<close>
  "oc_latch_eqFunction_105 rt s = Normal () (realVar_upd 9 (timeValue0 s) s)"

definition oc_latch_eqFunction_107 :: "runtime \<Rightarrow> state \<Rightarrow> unit result" where
  \<comment> \<open>\<^verbatim>\<open>combiTimeTable.y[1] = getTimeTableValueNoDer(combiTimeTable.tableID, 1, ...)\<close>\<close>
  "oc_latch_eqFunction_107 rt s =
     Normal () (realVar_upd 10
       (getTimeTableValueNoDer rt 1 (realVar s 9) (realVar s 57) (realPre s 57)) s)"

definition oc_latch_eqFunction_109 :: "runtime \<Rightarrow> state \<Rightarrow> unit result" where
  \<comment> \<open>\<^verbatim>\<open>opAmp1.vin = combiTimeTable.y[1] - resistor3.v\<close>\<close>
  "oc_latch_eqFunction_109 rt s = Normal () (realVar_upd 34 (realVar s 10 - realVar s 53) s)"

definition smooth_110 :: string where
  "smooth_110 = ''1.0 + opAmp1.absSlope * smooth(0, if opAmp1.f * opAmp1.vin < 0.0 then (-opAmp1.f) * opAmp1.vin else opAmp1.f * opAmp1.vin)''"

definition oc_latch_eqFunction_110 :: "runtime \<Rightarrow> state \<Rightarrow> unit result" where
  \<comment> \<open>\<^verbatim>\<open>potentialSensor1.phi = 0.5 * constantVoltage.V + opAmp1.absSlope * opAmp1.vin / (...)\<close>\<close>
  "oc_latch_eqFunction_110 rt s =
     (let tmp6 = (realVar s 31 * realVar s 34 < 0)
      in case DIVISION_SIM rt (realVar s 34)
                (1 + realVar s 30 * (if tmp6 then (- realVar s 31) * realVar s 34
                                     else realVar s 31 * realVar s 34))
                smooth_110 [1, 110] s of
           Abort e s' \<Rightarrow> Abort e s'
         | Normal q s' \<Rightarrow>
             Normal () (realVar_upd 38 ((1 / 2) * realParam s' 29 + realVar s' 30 * q) s'))"

definition oc_latch_eqFunction_111 :: "runtime \<Rightarrow> state \<Rightarrow> unit result" where
  \<comment> \<open>\<^verbatim>\<open>resistor1.v = constantVoltage.V - potentialSensor1.phi\<close>\<close>
  "oc_latch_eqFunction_111 rt s = Normal () (realVar_upd 46 (realParam s 29 - realVar s 38) s)"

definition oc_latch_eqFunction_112 :: "runtime \<Rightarrow> state \<Rightarrow> unit result" where
  \<comment> \<open>\<^verbatim>\<open>resistor1.i = resistor1.v / resistor1.R_actual\<close>\<close>
  "oc_latch_eqFunction_112 rt s =
     (case DIVISION_SIM rt (realVar s 46) (realVar s 44) ''resistor1.R_actual'' [1, 112] s of
        Abort e s' \<Rightarrow> Abort e s'
      | Normal q s' \<Rightarrow> Normal () (realVar_upd 45 q s'))"

definition oc_latch_eqFunction_113 :: "runtime \<Rightarrow> state \<Rightarrow> unit result" where
  \<comment> \<open>\<^verbatim>\<open>resistor1.LossPower = resistor1.v * resistor1.i\<close>\<close>
  "oc_latch_eqFunction_113 rt s = Normal () (realVar_upd 43 (realVar s 46 * realVar s 45) s)"

definition oc_latch_eqFunction_114 :: "runtime \<Rightarrow> state \<Rightarrow> unit result" where
  \<comment> \<open>\<^verbatim>\<open>greaterEqualThreshold1.y = potentialSensor1.phi >= greaterEqualThreshold1.threshold\<close>\<close>
  "oc_latch_eqFunction_114 rt s =
     (let tmp7 = relationhysteresis rt (storedRelations (info s)) (discreteCall (info s))
                   (realVar s 38) (realParam s 33) 1 GreaterEq_GreaterEqZC
      in Normal () (booleanVar_upd 3 tmp7 s))"

definition oc_latch_eqFunction_122 :: "runtime \<Rightarrow> state \<Rightarrow> unit result" where
  \<comment> \<open>\<^verbatim>\<open>R1.LossPower = R1.v * R2.i\<close>\<close>
  "oc_latch_eqFunction_122 rt s = Normal () (realVar_upd 0 (realVar s 2 * realVar s 5) s)"

definition oc_latch_eqFunction_123 :: "runtime \<Rightarrow> state \<Rightarrow> unit result" where
  \<comment> \<open>\<^verbatim>\<open>opAmp.vin = R2.v - combiTimeTable.y[1]\<close>\<close>
  "oc_latch_eqFunction_123 rt s = Normal () (realVar_upd 27 (realVar s 6 - realVar s 10) s)"

definition smooth_124 :: string where
  "smooth_124 = ''1.0 + opAmp.absSlope * smooth(0, if opAmp.f * opAmp.vin < 0.0 then (-opAmp.f) * opAmp.vin else opAmp.f * opAmp.vin)''"

definition oc_latch_eqFunction_124 :: "runtime \<Rightarrow> state \<Rightarrow> unit result" where
  \<comment> \<open>\<^verbatim>\<open>potentialSensor.phi = 0.5 * constantVoltage.V + opAmp.absSlope * opAmp.vin / (...)\<close>\<close>
  "oc_latch_eqFunction_124 rt s =
     (let tmp8 = (realVar s 24 * realVar s 27 < 0)
      in case DIVISION_SIM rt (realVar s 27)
                (1 + realVar s 23 * (if tmp8 then (- realVar s 24) * realVar s 27
                                     else realVar s 24 * realVar s 27))
                smooth_124 [1, 124] s of
           Abort e s' \<Rightarrow> Abort e s'
         | Normal q s' \<Rightarrow>
             Normal () (realVar_upd 36 ((1 / 2) * realParam s' 29 + realVar s' 23 * q) s'))"

definition oc_latch_eqFunction_125 :: "runtime \<Rightarrow> state \<Rightarrow> unit result" where
  \<comment> \<open>\<^verbatim>\<open>resistor.v = constantVoltage.V - potentialSensor.phi\<close>\<close>
  "oc_latch_eqFunction_125 rt s = Normal () (realVar_upd 42 (realParam s 29 - realVar s 36) s)"

definition oc_latch_eqFunction_126 :: "runtime \<Rightarrow> state \<Rightarrow> unit result" where
  \<comment> \<open>\<^verbatim>\<open>resistor.i = resistor.v / resistor.R_actual\<close>\<close>
  "oc_latch_eqFunction_126 rt s =
     (case DIVISION_SIM rt (realVar s 42) (realVar s 40) ''resistor.R_actual'' [1, 126] s of
        Abort e s' \<Rightarrow> Abort e s'
      | Normal q s' \<Rightarrow> Normal () (realVar_upd 41 q s'))"

definition oc_latch_eqFunction_127 :: "runtime \<Rightarrow> state \<Rightarrow> unit result" where
  \<comment> \<open>\<^verbatim>\<open>resistor.LossPower = resistor.v * resistor.i\<close>\<close>
  "oc_latch_eqFunction_127 rt s = Normal () (realVar_upd 39 (realVar s 42 * realVar s 41) s)"

definition oc_latch_eqFunction_128 :: "runtime \<Rightarrow> state \<Rightarrow> unit result" where
  \<comment> \<open>\<^verbatim>\<open>nand.u1 = potentialSensor.phi >= greaterEqualThreshold.threshold\<close>\<close>
  "oc_latch_eqFunction_128 rt s =
     (let tmp9 = relationhysteresis rt (storedRelations (info s)) (discreteCall (info s))
                   (realVar s 36) (realParam s 32) 0 GreaterEq_GreaterEqZC
      in Normal () (booleanVar_upd 4 tmp9 s))"

definition oc_latch_eqFunction_129 :: "runtime \<Rightarrow> state \<Rightarrow> unit result" where
  \<comment> \<open>\<^verbatim>\<open>nor3.u2 = not (nand.u1 and greaterEqualThreshold1.y)\<close>\<close>
  "oc_latch_eqFunction_129 rt s =
     Normal () (booleanVar_upd 6 (\<not> (booleanVar s 4 \<and> booleanVar s 3)) s)"

definition oc_latch_eqFunction_130 :: "runtime \<Rightarrow> state \<Rightarrow> unit result" where
  \<comment> \<open>\<^verbatim>\<open>nor3.y = not (pre11.y or nor3.u2)\<close>\<close>
  "oc_latch_eqFunction_130 rt s =
     Normal () (booleanVar_upd 7 (\<not> (booleanVar s 10 \<or> booleanVar s 6)) s)"

definition oc_latch_eqFunction_131 :: "runtime \<Rightarrow> state \<Rightarrow> unit result" where
  \<comment> \<open>\<^verbatim>\<open>pre11.u = not (nor3.y or reset)\<close>\<close>
  "oc_latch_eqFunction_131 rt s =
     Normal () (booleanVar_upd 9 (\<not> (booleanVar s 7 \<or> booleanVar s 11)) s)"

definition oc_latch_eqFunction_132 :: "runtime \<Rightarrow> state \<Rightarrow> unit result" where
  \<comment> \<open>\<^verbatim>\<open>R2.LossPower = R2.v * R2.i\<close>\<close>
  "oc_latch_eqFunction_132 rt s = Normal () (realVar_upd 3 (realVar s 6 * realVar s 5) s)"

definition oc_latch_eqFunction_133 :: "runtime \<Rightarrow> state \<Rightarrow> unit result" where
  \<comment> \<open>\<^verbatim>\<open>constantVoltage.i = (-resistor3.i) - resistor1.i - resistor.i - R2.i\<close>\<close>
  "oc_latch_eqFunction_133 rt s =
     Normal () (realVar_upd 11 ((- realVar s 52) - realVar s 45 - realVar s 41 - realVar s 5) s)"

text \<open>
  \<^verbatim>\<open>functionAlg_system0\<close> is a sequence of blocks
  \<^verbatim>\<open>{ oc_latch_eqFunction_N(data, threadData); threadData->lastEquationSolved = N; }\<close>;
  a throw inside an equation function leaves the sequence.
\<close>

primrec run_equations ::
  "(nat \<times> (runtime \<Rightarrow> state \<Rightarrow> unit result)) list \<Rightarrow> runtime \<Rightarrow> state \<Rightarrow> unit result" where
  "run_equations [] rt s = Normal () s"
| "run_equations (e # es) rt s =
     (case snd e rt s of
        Abort err s' \<Rightarrow> Abort err s'
      | Normal u s' \<Rightarrow> run_equations es rt (lastEquationSolved_upd (int (fst e)) s'))"

definition algebraic_equations :: "(nat \<times> (runtime \<Rightarrow> state \<Rightarrow> unit result)) list" where
  "algebraic_equations =
     [(89, oc_latch_eqFunction_89),
      (90, oc_latch_eqFunction_90),
      (91, oc_latch_eqFunction_91),
      (98, oc_latch_eqFunction_98),
      (99, oc_latch_eqFunction_99),
      (100, oc_latch_eqFunction_100),
      (101, oc_latch_eqFunction_101),
      (102, oc_latch_eqFunction_102),
      (103, oc_latch_eqFunction_103),
      (104, oc_latch_eqFunction_104),
      (105, oc_latch_eqFunction_105),
      (107, oc_latch_eqFunction_107),
      (109, oc_latch_eqFunction_109),
      (110, oc_latch_eqFunction_110),
      (111, oc_latch_eqFunction_111),
      (112, oc_latch_eqFunction_112),
      (113, oc_latch_eqFunction_113),
      (114, oc_latch_eqFunction_114),
      (121, oc_latch_eqFunction_121),
      (122, oc_latch_eqFunction_122),
      (123, oc_latch_eqFunction_123),
      (124, oc_latch_eqFunction_124),
      (125, oc_latch_eqFunction_125),
      (126, oc_latch_eqFunction_126),
      (127, oc_latch_eqFunction_127),
      (128, oc_latch_eqFunction_128),
      (129, oc_latch_eqFunction_129),
      (130, oc_latch_eqFunction_130),
      (131, oc_latch_eqFunction_131),
      (132, oc_latch_eqFunction_132),
      (133, oc_latch_eqFunction_133),
      (134, oc_latch_eqFunction_134),
      (135, oc_latch_eqFunction_135),
      (136, oc_latch_eqFunction_136),
      (137, oc_latch_eqFunction_137),
      (138, oc_latch_eqFunction_138),
      (139, oc_latch_eqFunction_139)]"

definition functionAlg_system0 :: "runtime \<Rightarrow> state \<Rightarrow> unit result" where
  "functionAlg_system0 rt s = run_equations algebraic_equations rt s"

definition oc_latch_function_savePreSynchronous :: "state \<Rightarrow> state" where
  \<comment> \<open>the body is empty\<close>
  "oc_latch_function_savePreSynchronous s = s"

definition oc_latch_functionAlgebraics :: "runtime \<Rightarrow> state \<Rightarrow> int result" where
  "oc_latch_functionAlgebraics rt s =
     (let s1 = callStatistics_upd (\<lambda>c. c\<lparr>functionAlgebraics := functionAlgebraics c + 1\<rparr>) s;
          s2 = oc_latch_function_savePreSynchronous s1
      in case functionAlg_system0 rt s2 of
           Abort e s' \<Rightarrow> Abort e s'
         | Normal u s' \<Rightarrow> Normal 0 s')"

text \<open>
  The footprint of an equation function.  A location is an entry of the two arrays of
  \<^verbatim>\<open>localData[0]\<close> that the pass assigns, or the \<^verbatim>\<open>needToReThrow\<close> flag; everything else
  in the store (the time, the older ring-buffer entries, and \<^verbatim>\<open>simulationInfo\<close> apart
  from that flag) is an input of the pass.  Two stores \<^emph>\<open>agree\<close> on a set of locations when
  they have the same inputs and the same values there; a store is \<^emph>\<open>framed\<close> by a set of
  locations against an earlier one when it differs from it at most there, the flag
  \<^verbatim>\<open>needToReThrow\<close> being raised at most.
\<close>

datatype location = RealVarAt nat | BooleanVarAt nat | NeedToReThrow

definition same_inputs :: "state \<Rightarrow> state \<Rightarrow> bool" where
  "same_inputs s t =
     (timeValue0 s = timeValue0 t \<and> localData_rest s = localData_rest t
      \<and> (info s)\<lparr>needToReThrow := False\<rparr> = (info t)\<lparr>needToReThrow := False\<rparr>)"

definition agree :: "location set \<Rightarrow> state \<Rightarrow> state \<Rightarrow> bool" where
  "agree L s t =
     (same_inputs s t
      \<and> (\<forall>i. RealVarAt i \<in> L \<longrightarrow> realVar s i = realVar t i)
      \<and> (\<forall>i. BooleanVarAt i \<in> L \<longrightarrow> booleanVar s i = booleanVar t i))"

definition framed :: "location set \<Rightarrow> state \<Rightarrow> state \<Rightarrow> bool" where
  "framed W s t =
     (same_inputs s t
      \<and> (\<forall>i. RealVarAt i \<notin> W \<longrightarrow> realVar t i = realVar s i)
      \<and> (\<forall>i. BooleanVarAt i \<notin> W \<longrightarrow> booleanVar t i = booleanVar s i)
      \<and> (needToReThrow (info s) \<longrightarrow> needToReThrow (info t))
      \<and> (NeedToReThrow \<notin> W \<longrightarrow> needToReThrow (info t) = needToReThrow (info s)))"

definition footprint ::
  "runtime \<Rightarrow> (runtime \<Rightarrow> state \<Rightarrow> unit result) \<Rightarrow> location set \<Rightarrow> location set \<Rightarrow> bool" where
  \<comment> \<open>\<^verbatim>\<open>f\<close> writes inside \<^verbatim>\<open>W\<close>; once it has returned, it changes nothing in a store that
      agrees on \<^verbatim>\<open>L\<close> with the one it left\<close>
  "footprint rt f L W =
     (\<forall>s. framed W s (state_of (f rt s))
        \<and> (\<forall>t u. f rt s = Normal () t \<longrightarrow> agree L t u
               \<longrightarrow> (needToReThrow (info t) \<longrightarrow> needToReThrow (info u))
               \<longrightarrow> (\<exists>u'. f rt u = Normal () u' \<and> data u' = data u)))"

primrec written :: "(location set \<times> location set) list \<Rightarrow> location set" where
  "written [] = {}"
| "written (p # ps) = snd p \<union> written ps"

primrec causal :: "(location set \<times> location set) list \<Rightarrow> bool" where
  \<comment> \<open>no equation of the sequence writes what an earlier one has read or written\<close>
  "causal [] = True"
| "causal (p # ps) = (fst p \<inter> written ps = {} \<and> causal ps)"

text \<open>
  The footprints of the equations of \<^verbatim>\<open>functionAlg_system0\<close>, in the order of the
  calls: what an equation function reads or writes in the two arrays, and what it writes.
\<close>

definition algebraic_footprints :: "(location set \<times> location set) list" where
  "algebraic_footprints =
     [({BooleanVarAt 0}, {BooleanVarAt 0}),
      ({BooleanVarAt 11}, {BooleanVarAt 11}),
      ({BooleanVarAt 2}, {BooleanVarAt 2}),
      ({RealVarAt 49, RealVarAt 52, RealVarAt 53, RealVarAt 48, RealVarAt 51}, {RealVarAt 49, RealVarAt 52, RealVarAt 53}),
      ({RealVarAt 47, RealVarAt 49, RealVarAt 52}, {RealVarAt 47}),
      ({RealVarAt 50, RealVarAt 53, RealVarAt 52}, {RealVarAt 50}),
      ({BooleanVarAt 10}, {BooleanVarAt 10}),
      ({BooleanVarAt 5}, {BooleanVarAt 5}),
      ({BooleanVarAt 1, BooleanVarAt 5, BooleanVarAt 10}, {BooleanVarAt 1}),
      ({BooleanVarAt 8, BooleanVarAt 1, BooleanVarAt 2}, {BooleanVarAt 8}),
      ({RealVarAt 9}, {RealVarAt 9}),
      ({RealVarAt 10, RealVarAt 9, RealVarAt 57}, {RealVarAt 10}),
      ({RealVarAt 34, RealVarAt 10, RealVarAt 53}, {RealVarAt 34}),
      ({RealVarAt 38, RealVarAt 31, RealVarAt 34, RealVarAt 30}, {RealVarAt 38}),
      ({RealVarAt 46, RealVarAt 38}, {RealVarAt 46}),
      ({RealVarAt 45, RealVarAt 46, RealVarAt 44}, {RealVarAt 45}),
      ({RealVarAt 43, RealVarAt 46, RealVarAt 45}, {RealVarAt 43}),
      ({BooleanVarAt 3, RealVarAt 38}, {BooleanVarAt 3}),
      ({RealVarAt 5, RealVarAt 2, RealVarAt 6, RealVarAt 1, RealVarAt 4}, {RealVarAt 5, RealVarAt 2, RealVarAt 6}),
      ({RealVarAt 0, RealVarAt 2, RealVarAt 5}, {RealVarAt 0}),
      ({RealVarAt 27, RealVarAt 6, RealVarAt 10}, {RealVarAt 27}),
      ({RealVarAt 36, RealVarAt 24, RealVarAt 27, RealVarAt 23}, {RealVarAt 36}),
      ({RealVarAt 42, RealVarAt 36}, {RealVarAt 42}),
      ({RealVarAt 41, RealVarAt 42, RealVarAt 40}, {RealVarAt 41}),
      ({RealVarAt 39, RealVarAt 42, RealVarAt 41}, {RealVarAt 39}),
      ({BooleanVarAt 4, RealVarAt 36}, {BooleanVarAt 4}),
      ({BooleanVarAt 6, BooleanVarAt 4, BooleanVarAt 3}, {BooleanVarAt 6}),
      ({BooleanVarAt 7, BooleanVarAt 10, BooleanVarAt 6}, {BooleanVarAt 7}),
      ({BooleanVarAt 9, BooleanVarAt 7, BooleanVarAt 11}, {BooleanVarAt 9}),
      ({RealVarAt 3, RealVarAt 6, RealVarAt 5}, {RealVarAt 3}),
      ({RealVarAt 11, RealVarAt 52, RealVarAt 45, RealVarAt 41, RealVarAt 5}, {RealVarAt 11}),
      ({}, {NeedToReThrow}),
      ({}, {NeedToReThrow}),
      ({}, {NeedToReThrow}),
      ({}, {NeedToReThrow}),
      ({}, {NeedToReThrow}),
      ({}, {NeedToReThrow})]"

section \<open>A worked instance\<close>

text \<open>
  The instance the theorems are exercised on: every resistor has an actual resistance of
  10 Ohm and the source has 1 V (the series divider of the specification's example
  scenario); all other members are zero or false.
\<close>

definition example_data :: SIMULATION_DATA where
  "example_data =
     \<lparr>timeValue = 0,
      realVars = (\<lambda>i. 0)(1 := 10, 4 := 10, 40 := 10, 44 := 10, 48 := 10, 51 := 10),
      booleanVars = (\<lambda>i. False)\<rparr>"

definition example_info :: SIMULATION_INFO where
  "example_info =
     \<lparr>realVarsPre = (\<lambda>i. 0), booleanVarsPre = (\<lambda>i. False),
      realParameter = (\<lambda>i. 0)(29 := 1), integerParameter = (\<lambda>i. 0),
      booleanParameter = (\<lambda>i. False), storedRelations = (\<lambda>i. False),
      relations = (\<lambda>i. False), discreteCall = False, needToIterate = False,
      noThrowAsserts = False, needToReThrow = False,
      callStatistics = \<lparr>functionZeroCrossings = 0, functionZeroCrossingsEquations = 0,
                         functionAlgebraics = 0, functionODE = 0\<rparr>\<rparr>"

definition example_state :: state where
  "example_state =
     \<lparr>data = \<lparr>localData = (\<lambda>k. example_data), simulationInfo = example_info\<rparr>,
      threadData = \<lparr>lastEquationSolved = 0\<rparr>,
      messages = [],
      warned = (\<lambda>i. False)\<rparr>"

definition example_state_at :: "real \<Rightarrow> state" where
  \<comment> \<open>the instance at simulated time \<^verbatim>\<open>t\<close>\<close>
  "example_state_at t = local0_upd (\<lambda>d. d\<lparr>timeValue := t\<rparr>) example_state"

definition out_of_scope_state :: state where
  \<comment> \<open>the instance with resistor3.alpha = 1, resistor3.T = 0 and resistor3.T_ref = 2, so that
      \<^verbatim>\<open>1.0 + resistor3.alpha * (resistor3.T - resistor3.T_ref)\<close> is -1; and R1.T_ref = -1\<close>
  "out_of_scope_state = realParam_upd 3 (- 1) (realParam_upd 59 2 (realParam_upd 60 1 example_state))"

definition zero_jacobian :: ANALYTIC_JACOBIAN where
  "zero_jacobian =
     \<lparr>sizeCols = 1, sizeRows = 1, sizeTmpVars = 3,
      seedVars = (\<lambda>i. 0), resultVars = (\<lambda>i. 0), tmpVars = (\<lambda>i. 0)\<rparr>"

text \<open>
  Modelled from the spec: the solver's steps.  "For this class of model, systems are
  linear, so one Newton/direct-solve iteration suffices if the Jacobian is exact"; a
  singular system is a failure.  The step evaluates the Jacobian column for the unit
  seed and the residual at the start value, and evaluates the residual once more at the
  solution so that the local constraints hold there.
\<close>

definition newton_step :: "nat \<Rightarrow> real \<Rightarrow> solver_prog" where
  "newton_step sysNumber x0 =
     JacobianColumn 1 (\<lambda>j.
       Residual x0 (\<lambda>r.
         if j = 0 then Return 1 x0
         else Residual (x0 - r / j) (\<lambda>r'. Return 0 (x0 - r / j))))"

text \<open>
  Modelled from the spec: a relation with hysteresis, "a small dead-band around a
  threshold comparison": the relation keeps its stored value while the operands are
  closer than the band.
\<close>

definition GreaterEqZC_band :: "real \<Rightarrow> real \<Rightarrow> real \<Rightarrow> bool \<Rightarrow> bool" where
  "GreaterEqZC_band tol a b direction = (if direction then a - b > - tol else a - b \<ge> tol)"

definition LessEqZC_band :: "real \<Rightarrow> real \<Rightarrow> real \<Rightarrow> bool \<Rightarrow> bool" where
  "LessEqZC_band tol a b direction = (if direction then a - b < tol else a - b \<le> - tol)"

definition relationhysteresis_band ::
  "real \<Rightarrow> (nat \<Rightarrow> bool) \<Rightarrow> bool \<Rightarrow> real \<Rightarrow> real \<Rightarrow> nat \<Rightarrow> relop \<Rightarrow> bool" where
  "relationhysteresis_band tol stored discrete a b i rel =
     (case rel of
        GreaterEq_GreaterEqZC \<Rightarrow> GreaterEqZC_band tol a b (stored i)
      | LessEq_LessEqZC \<Rightarrow> LessEqZC_band tol a b (stored i))"

definition example_runtime :: runtime where
  "example_runtime =
     \<lparr>ACTIVE_STREAM = (\<lambda>st. True),
      initial = (\<lambda>s. False),
      DIVISION_by_zero = (\<lambda>a b msg. Inl (DivisionError msg)),
      DIVISION_SIM_by_zero = (\<lambda>a b msg equationIndexes. Inl (DivisionError msg)),
      solver = newton_step,
      analyticJacobians = (\<lambda>i. zero_jacobian),
      relationhysteresis = relationhysteresis_band (1 / 10 ^ 10),
      GreaterEqZC = GreaterEqZC_band (1 / 10 ^ 10),
      LessEqZC = LessEqZC_band (1 / 10 ^ 10),
      getNextTimeEvent = (\<lambda>t. t + 1),
      getTimeTableValueNoDer = (\<lambda>icol t next_event pre_next_event. 0),
      modelica_real_to_modelica_string_format = (\<lambda>r fmt. ''?''),
      modelica_integer_to_modelica_string_format = (\<lambda>i fmt. ''?'')\<rparr>"

definition failing_runtime :: runtime where
  \<comment> \<open>a runtime whose solver gives up at once\<close>
  "failing_runtime = example_runtime\<lparr>solver := (\<lambda>sysNumber x0. Return 1 x0)\<rparr>"

definition singular_state :: state where
  \<comment> \<open>the instance with resistor2.R_actual = -8 and resistor3.R_actual = 8, so that the
      Jacobian of system 98 is 0, and with 3 in resistor2.v\<close>
  "singular_state = realVar_upd 49 3 (realVar_upd 51 8 (realVar_upd 48 (- 8) example_state))"

section \<open>Properties\<close>

subsection \<open>The store: reading after writing\<close>

lemmas store_defs =
  realVar_def
  booleanVar_def
  realVarOld_def
  realPre_def
  booleanPre_def
  realParam_def
  integerParam_def
  booleanParam_def
  storedRelation_def
  localData_rest_def
  timeValue0_def
  info_def
  realVar_upd_def
  booleanVar_upd_def
  realPre_upd_def
  booleanPre_upd_def
  put_def
  lastEquationSolved_upd_def
  needToReThrow_upd_def
  needToIterate_upd_def
  discreteCall_upd_def
  relations_upd_def
  callStatistics_upd_def
  warned_upd_def
  realParam_upd_def
  noThrowAsserts_upd_def
  info_upd_def
  local0_upd_def

lemma realVar_realVar_upd [simp]:
  "realVar (realVar_upd i v s) j = (if j = i then v else realVar s j)"
  by (simp add: store_defs)

lemma booleanVar_realVar_upd [simp]:
  "booleanVar (realVar_upd i v s) j = booleanVar s j"
  by (simp add: store_defs)

lemma realVarOld_realVar_upd [simp]:
  "realVarOld (realVar_upd i v s) j = realVarOld s j"
  by (simp add: store_defs)

lemma realPre_realVar_upd [simp]:
  "realPre (realVar_upd i v s) j = realPre s j"
  by (simp add: store_defs)

lemma booleanPre_realVar_upd [simp]:
  "booleanPre (realVar_upd i v s) j = booleanPre s j"
  by (simp add: store_defs)

lemma realParam_realVar_upd [simp]:
  "realParam (realVar_upd i v s) j = realParam s j"
  by (simp add: store_defs)

lemma integerParam_realVar_upd [simp]:
  "integerParam (realVar_upd i v s) j = integerParam s j"
  by (simp add: store_defs)

lemma booleanParam_realVar_upd [simp]:
  "booleanParam (realVar_upd i v s) j = booleanParam s j"
  by (simp add: store_defs)

lemma storedRelation_realVar_upd [simp]:
  "storedRelation (realVar_upd i v s) j = storedRelation s j"
  by (simp add: store_defs)

lemma localData_rest_realVar_upd [simp]:
  "localData_rest (realVar_upd i v s) j = localData_rest s j"
  by (simp add: store_defs)

lemma timeValue0_realVar_upd [simp]:
  "timeValue0 (realVar_upd i v s) = timeValue0 s"
  by (simp add: store_defs)

lemma info_realVar_upd [simp]:
  "info (realVar_upd i v s) = info s"
  by (simp add: store_defs)

lemma messages_realVar_upd [simp]:
  "messages (realVar_upd i v s) = messages s"
  by (simp add: store_defs)

lemma warned_realVar_upd [simp]:
  "warned (realVar_upd i v s) = warned s"
  by (simp add: store_defs)

lemma threadData_realVar_upd [simp]:
  "threadData (realVar_upd i v s) = threadData s"
  by (simp add: store_defs)

lemma realVar_booleanVar_upd [simp]:
  "realVar (booleanVar_upd i v s) j = realVar s j"
  by (simp add: store_defs)

lemma booleanVar_booleanVar_upd [simp]:
  "booleanVar (booleanVar_upd i v s) j = (if j = i then v else booleanVar s j)"
  by (simp add: store_defs)

lemma realVarOld_booleanVar_upd [simp]:
  "realVarOld (booleanVar_upd i v s) j = realVarOld s j"
  by (simp add: store_defs)

lemma realPre_booleanVar_upd [simp]:
  "realPre (booleanVar_upd i v s) j = realPre s j"
  by (simp add: store_defs)

lemma booleanPre_booleanVar_upd [simp]:
  "booleanPre (booleanVar_upd i v s) j = booleanPre s j"
  by (simp add: store_defs)

lemma realParam_booleanVar_upd [simp]:
  "realParam (booleanVar_upd i v s) j = realParam s j"
  by (simp add: store_defs)

lemma integerParam_booleanVar_upd [simp]:
  "integerParam (booleanVar_upd i v s) j = integerParam s j"
  by (simp add: store_defs)

lemma booleanParam_booleanVar_upd [simp]:
  "booleanParam (booleanVar_upd i v s) j = booleanParam s j"
  by (simp add: store_defs)

lemma storedRelation_booleanVar_upd [simp]:
  "storedRelation (booleanVar_upd i v s) j = storedRelation s j"
  by (simp add: store_defs)

lemma localData_rest_booleanVar_upd [simp]:
  "localData_rest (booleanVar_upd i v s) j = localData_rest s j"
  by (simp add: store_defs)

lemma timeValue0_booleanVar_upd [simp]:
  "timeValue0 (booleanVar_upd i v s) = timeValue0 s"
  by (simp add: store_defs)

lemma info_booleanVar_upd [simp]:
  "info (booleanVar_upd i v s) = info s"
  by (simp add: store_defs)

lemma messages_booleanVar_upd [simp]:
  "messages (booleanVar_upd i v s) = messages s"
  by (simp add: store_defs)

lemma warned_booleanVar_upd [simp]:
  "warned (booleanVar_upd i v s) = warned s"
  by (simp add: store_defs)

lemma threadData_booleanVar_upd [simp]:
  "threadData (booleanVar_upd i v s) = threadData s"
  by (simp add: store_defs)

lemma realVar_realPre_upd [simp]:
  "realVar (realPre_upd i v s) j = realVar s j"
  by (simp add: store_defs)

lemma booleanVar_realPre_upd [simp]:
  "booleanVar (realPre_upd i v s) j = booleanVar s j"
  by (simp add: store_defs)

lemma realVarOld_realPre_upd [simp]:
  "realVarOld (realPre_upd i v s) j = realVarOld s j"
  by (simp add: store_defs)

lemma realPre_realPre_upd [simp]:
  "realPre (realPre_upd i v s) j = (if j = i then v else realPre s j)"
  by (simp add: store_defs)

lemma booleanPre_realPre_upd [simp]:
  "booleanPre (realPre_upd i v s) j = booleanPre s j"
  by (simp add: store_defs)

lemma realParam_realPre_upd [simp]:
  "realParam (realPre_upd i v s) j = realParam s j"
  by (simp add: store_defs)

lemma integerParam_realPre_upd [simp]:
  "integerParam (realPre_upd i v s) j = integerParam s j"
  by (simp add: store_defs)

lemma booleanParam_realPre_upd [simp]:
  "booleanParam (realPre_upd i v s) j = booleanParam s j"
  by (simp add: store_defs)

lemma storedRelation_realPre_upd [simp]:
  "storedRelation (realPre_upd i v s) j = storedRelation s j"
  by (simp add: store_defs)

lemma localData_rest_realPre_upd [simp]:
  "localData_rest (realPre_upd i v s) j = localData_rest s j"
  by (simp add: store_defs)

lemma timeValue0_realPre_upd [simp]:
  "timeValue0 (realPre_upd i v s) = timeValue0 s"
  by (simp add: store_defs)

lemma info_realPre_upd [simp]:
  "info (realPre_upd i v s) = (info s)\<lparr>realVarsPre := (realVarsPre (info s))(i := v)\<rparr>"
  by (simp add: store_defs)

lemma messages_realPre_upd [simp]:
  "messages (realPre_upd i v s) = messages s"
  by (simp add: store_defs)

lemma warned_realPre_upd [simp]:
  "warned (realPre_upd i v s) = warned s"
  by (simp add: store_defs)

lemma threadData_realPre_upd [simp]:
  "threadData (realPre_upd i v s) = threadData s"
  by (simp add: store_defs)

lemma realVar_booleanPre_upd [simp]:
  "realVar (booleanPre_upd i v s) j = realVar s j"
  by (simp add: store_defs)

lemma booleanVar_booleanPre_upd [simp]:
  "booleanVar (booleanPre_upd i v s) j = booleanVar s j"
  by (simp add: store_defs)

lemma realVarOld_booleanPre_upd [simp]:
  "realVarOld (booleanPre_upd i v s) j = realVarOld s j"
  by (simp add: store_defs)

lemma realPre_booleanPre_upd [simp]:
  "realPre (booleanPre_upd i v s) j = realPre s j"
  by (simp add: store_defs)

lemma booleanPre_booleanPre_upd [simp]:
  "booleanPre (booleanPre_upd i v s) j = (if j = i then v else booleanPre s j)"
  by (simp add: store_defs)

lemma realParam_booleanPre_upd [simp]:
  "realParam (booleanPre_upd i v s) j = realParam s j"
  by (simp add: store_defs)

lemma integerParam_booleanPre_upd [simp]:
  "integerParam (booleanPre_upd i v s) j = integerParam s j"
  by (simp add: store_defs)

lemma booleanParam_booleanPre_upd [simp]:
  "booleanParam (booleanPre_upd i v s) j = booleanParam s j"
  by (simp add: store_defs)

lemma storedRelation_booleanPre_upd [simp]:
  "storedRelation (booleanPre_upd i v s) j = storedRelation s j"
  by (simp add: store_defs)

lemma localData_rest_booleanPre_upd [simp]:
  "localData_rest (booleanPre_upd i v s) j = localData_rest s j"
  by (simp add: store_defs)

lemma timeValue0_booleanPre_upd [simp]:
  "timeValue0 (booleanPre_upd i v s) = timeValue0 s"
  by (simp add: store_defs)

lemma info_booleanPre_upd [simp]:
  "info (booleanPre_upd i v s) = (info s)\<lparr>booleanVarsPre := (booleanVarsPre (info s))(i := v)\<rparr>"
  by (simp add: store_defs)

lemma messages_booleanPre_upd [simp]:
  "messages (booleanPre_upd i v s) = messages s"
  by (simp add: store_defs)

lemma warned_booleanPre_upd [simp]:
  "warned (booleanPre_upd i v s) = warned s"
  by (simp add: store_defs)

lemma threadData_booleanPre_upd [simp]:
  "threadData (booleanPre_upd i v s) = threadData s"
  by (simp add: store_defs)

lemma realVar_put [simp]:
  "realVar (put m s) j = realVar s j"
  by (simp add: store_defs)

lemma booleanVar_put [simp]:
  "booleanVar (put m s) j = booleanVar s j"
  by (simp add: store_defs)

lemma realVarOld_put [simp]:
  "realVarOld (put m s) j = realVarOld s j"
  by (simp add: store_defs)

lemma realPre_put [simp]:
  "realPre (put m s) j = realPre s j"
  by (simp add: store_defs)

lemma booleanPre_put [simp]:
  "booleanPre (put m s) j = booleanPre s j"
  by (simp add: store_defs)

lemma realParam_put [simp]:
  "realParam (put m s) j = realParam s j"
  by (simp add: store_defs)

lemma integerParam_put [simp]:
  "integerParam (put m s) j = integerParam s j"
  by (simp add: store_defs)

lemma booleanParam_put [simp]:
  "booleanParam (put m s) j = booleanParam s j"
  by (simp add: store_defs)

lemma storedRelation_put [simp]:
  "storedRelation (put m s) j = storedRelation s j"
  by (simp add: store_defs)

lemma localData_rest_put [simp]:
  "localData_rest (put m s) j = localData_rest s j"
  by (simp add: store_defs)

lemma timeValue0_put [simp]:
  "timeValue0 (put m s) = timeValue0 s"
  by (simp add: store_defs)

lemma info_put [simp]:
  "info (put m s) = info s"
  by (simp add: store_defs)

lemma messages_put [simp]:
  "messages (put m s) = messages s @ [m]"
  by (simp add: store_defs)

lemma warned_put [simp]:
  "warned (put m s) = warned s"
  by (simp add: store_defs)

lemma threadData_put [simp]:
  "threadData (put m s) = threadData s"
  by (simp add: store_defs)

lemma realVar_lastEquationSolved_upd [simp]:
  "realVar (lastEquationSolved_upd n s) j = realVar s j"
  by (simp add: store_defs)

lemma booleanVar_lastEquationSolved_upd [simp]:
  "booleanVar (lastEquationSolved_upd n s) j = booleanVar s j"
  by (simp add: store_defs)

lemma realVarOld_lastEquationSolved_upd [simp]:
  "realVarOld (lastEquationSolved_upd n s) j = realVarOld s j"
  by (simp add: store_defs)

lemma realPre_lastEquationSolved_upd [simp]:
  "realPre (lastEquationSolved_upd n s) j = realPre s j"
  by (simp add: store_defs)

lemma booleanPre_lastEquationSolved_upd [simp]:
  "booleanPre (lastEquationSolved_upd n s) j = booleanPre s j"
  by (simp add: store_defs)

lemma realParam_lastEquationSolved_upd [simp]:
  "realParam (lastEquationSolved_upd n s) j = realParam s j"
  by (simp add: store_defs)

lemma integerParam_lastEquationSolved_upd [simp]:
  "integerParam (lastEquationSolved_upd n s) j = integerParam s j"
  by (simp add: store_defs)

lemma booleanParam_lastEquationSolved_upd [simp]:
  "booleanParam (lastEquationSolved_upd n s) j = booleanParam s j"
  by (simp add: store_defs)

lemma storedRelation_lastEquationSolved_upd [simp]:
  "storedRelation (lastEquationSolved_upd n s) j = storedRelation s j"
  by (simp add: store_defs)

lemma localData_rest_lastEquationSolved_upd [simp]:
  "localData_rest (lastEquationSolved_upd n s) j = localData_rest s j"
  by (simp add: store_defs)

lemma timeValue0_lastEquationSolved_upd [simp]:
  "timeValue0 (lastEquationSolved_upd n s) = timeValue0 s"
  by (simp add: store_defs)

lemma info_lastEquationSolved_upd [simp]:
  "info (lastEquationSolved_upd n s) = info s"
  by (simp add: store_defs)

lemma messages_lastEquationSolved_upd [simp]:
  "messages (lastEquationSolved_upd n s) = messages s"
  by (simp add: store_defs)

lemma warned_lastEquationSolved_upd [simp]:
  "warned (lastEquationSolved_upd n s) = warned s"
  by (simp add: store_defs)

lemma threadData_lastEquationSolved_upd [simp]:
  "threadData (lastEquationSolved_upd n s) = (threadData s)\<lparr>lastEquationSolved := n\<rparr>"
  by (simp add: store_defs)

lemma realVar_needToReThrow_upd [simp]:
  "realVar (needToReThrow_upd b s) j = realVar s j"
  by (simp add: store_defs)

lemma booleanVar_needToReThrow_upd [simp]:
  "booleanVar (needToReThrow_upd b s) j = booleanVar s j"
  by (simp add: store_defs)

lemma realVarOld_needToReThrow_upd [simp]:
  "realVarOld (needToReThrow_upd b s) j = realVarOld s j"
  by (simp add: store_defs)

lemma realPre_needToReThrow_upd [simp]:
  "realPre (needToReThrow_upd b s) j = realPre s j"
  by (simp add: store_defs)

lemma booleanPre_needToReThrow_upd [simp]:
  "booleanPre (needToReThrow_upd b s) j = booleanPre s j"
  by (simp add: store_defs)

lemma realParam_needToReThrow_upd [simp]:
  "realParam (needToReThrow_upd b s) j = realParam s j"
  by (simp add: store_defs)

lemma integerParam_needToReThrow_upd [simp]:
  "integerParam (needToReThrow_upd b s) j = integerParam s j"
  by (simp add: store_defs)

lemma booleanParam_needToReThrow_upd [simp]:
  "booleanParam (needToReThrow_upd b s) j = booleanParam s j"
  by (simp add: store_defs)

lemma storedRelation_needToReThrow_upd [simp]:
  "storedRelation (needToReThrow_upd b s) j = storedRelation s j"
  by (simp add: store_defs)

lemma localData_rest_needToReThrow_upd [simp]:
  "localData_rest (needToReThrow_upd b s) j = localData_rest s j"
  by (simp add: store_defs)

lemma timeValue0_needToReThrow_upd [simp]:
  "timeValue0 (needToReThrow_upd b s) = timeValue0 s"
  by (simp add: store_defs)

lemma info_needToReThrow_upd [simp]:
  "info (needToReThrow_upd b s) = (info s)\<lparr>needToReThrow := b\<rparr>"
  by (simp add: store_defs)

lemma messages_needToReThrow_upd [simp]:
  "messages (needToReThrow_upd b s) = messages s"
  by (simp add: store_defs)

lemma warned_needToReThrow_upd [simp]:
  "warned (needToReThrow_upd b s) = warned s"
  by (simp add: store_defs)

lemma threadData_needToReThrow_upd [simp]:
  "threadData (needToReThrow_upd b s) = threadData s"
  by (simp add: store_defs)

lemma realVar_needToIterate_upd [simp]:
  "realVar (needToIterate_upd b s) j = realVar s j"
  by (simp add: store_defs)

lemma booleanVar_needToIterate_upd [simp]:
  "booleanVar (needToIterate_upd b s) j = booleanVar s j"
  by (simp add: store_defs)

lemma realVarOld_needToIterate_upd [simp]:
  "realVarOld (needToIterate_upd b s) j = realVarOld s j"
  by (simp add: store_defs)

lemma realPre_needToIterate_upd [simp]:
  "realPre (needToIterate_upd b s) j = realPre s j"
  by (simp add: store_defs)

lemma booleanPre_needToIterate_upd [simp]:
  "booleanPre (needToIterate_upd b s) j = booleanPre s j"
  by (simp add: store_defs)

lemma realParam_needToIterate_upd [simp]:
  "realParam (needToIterate_upd b s) j = realParam s j"
  by (simp add: store_defs)

lemma integerParam_needToIterate_upd [simp]:
  "integerParam (needToIterate_upd b s) j = integerParam s j"
  by (simp add: store_defs)

lemma booleanParam_needToIterate_upd [simp]:
  "booleanParam (needToIterate_upd b s) j = booleanParam s j"
  by (simp add: store_defs)

lemma storedRelation_needToIterate_upd [simp]:
  "storedRelation (needToIterate_upd b s) j = storedRelation s j"
  by (simp add: store_defs)

lemma localData_rest_needToIterate_upd [simp]:
  "localData_rest (needToIterate_upd b s) j = localData_rest s j"
  by (simp add: store_defs)

lemma timeValue0_needToIterate_upd [simp]:
  "timeValue0 (needToIterate_upd b s) = timeValue0 s"
  by (simp add: store_defs)

lemma info_needToIterate_upd [simp]:
  "info (needToIterate_upd b s) = (info s)\<lparr>needToIterate := b\<rparr>"
  by (simp add: store_defs)

lemma messages_needToIterate_upd [simp]:
  "messages (needToIterate_upd b s) = messages s"
  by (simp add: store_defs)

lemma warned_needToIterate_upd [simp]:
  "warned (needToIterate_upd b s) = warned s"
  by (simp add: store_defs)

lemma threadData_needToIterate_upd [simp]:
  "threadData (needToIterate_upd b s) = threadData s"
  by (simp add: store_defs)

lemma realVar_discreteCall_upd [simp]:
  "realVar (discreteCall_upd b s) j = realVar s j"
  by (simp add: store_defs)

lemma booleanVar_discreteCall_upd [simp]:
  "booleanVar (discreteCall_upd b s) j = booleanVar s j"
  by (simp add: store_defs)

lemma realVarOld_discreteCall_upd [simp]:
  "realVarOld (discreteCall_upd b s) j = realVarOld s j"
  by (simp add: store_defs)

lemma realPre_discreteCall_upd [simp]:
  "realPre (discreteCall_upd b s) j = realPre s j"
  by (simp add: store_defs)

lemma booleanPre_discreteCall_upd [simp]:
  "booleanPre (discreteCall_upd b s) j = booleanPre s j"
  by (simp add: store_defs)

lemma realParam_discreteCall_upd [simp]:
  "realParam (discreteCall_upd b s) j = realParam s j"
  by (simp add: store_defs)

lemma integerParam_discreteCall_upd [simp]:
  "integerParam (discreteCall_upd b s) j = integerParam s j"
  by (simp add: store_defs)

lemma booleanParam_discreteCall_upd [simp]:
  "booleanParam (discreteCall_upd b s) j = booleanParam s j"
  by (simp add: store_defs)

lemma storedRelation_discreteCall_upd [simp]:
  "storedRelation (discreteCall_upd b s) j = storedRelation s j"
  by (simp add: store_defs)

lemma localData_rest_discreteCall_upd [simp]:
  "localData_rest (discreteCall_upd b s) j = localData_rest s j"
  by (simp add: store_defs)

lemma timeValue0_discreteCall_upd [simp]:
  "timeValue0 (discreteCall_upd b s) = timeValue0 s"
  by (simp add: store_defs)

lemma info_discreteCall_upd [simp]:
  "info (discreteCall_upd b s) = (info s)\<lparr>discreteCall := b\<rparr>"
  by (simp add: store_defs)

lemma messages_discreteCall_upd [simp]:
  "messages (discreteCall_upd b s) = messages s"
  by (simp add: store_defs)

lemma warned_discreteCall_upd [simp]:
  "warned (discreteCall_upd b s) = warned s"
  by (simp add: store_defs)

lemma threadData_discreteCall_upd [simp]:
  "threadData (discreteCall_upd b s) = threadData s"
  by (simp add: store_defs)

lemma realVar_relations_upd [simp]:
  "realVar (relations_upd i v s) j = realVar s j"
  by (simp add: store_defs)

lemma booleanVar_relations_upd [simp]:
  "booleanVar (relations_upd i v s) j = booleanVar s j"
  by (simp add: store_defs)

lemma realVarOld_relations_upd [simp]:
  "realVarOld (relations_upd i v s) j = realVarOld s j"
  by (simp add: store_defs)

lemma realPre_relations_upd [simp]:
  "realPre (relations_upd i v s) j = realPre s j"
  by (simp add: store_defs)

lemma booleanPre_relations_upd [simp]:
  "booleanPre (relations_upd i v s) j = booleanPre s j"
  by (simp add: store_defs)

lemma realParam_relations_upd [simp]:
  "realParam (relations_upd i v s) j = realParam s j"
  by (simp add: store_defs)

lemma integerParam_relations_upd [simp]:
  "integerParam (relations_upd i v s) j = integerParam s j"
  by (simp add: store_defs)

lemma booleanParam_relations_upd [simp]:
  "booleanParam (relations_upd i v s) j = booleanParam s j"
  by (simp add: store_defs)

lemma storedRelation_relations_upd [simp]:
  "storedRelation (relations_upd i v s) j = storedRelation s j"
  by (simp add: store_defs)

lemma localData_rest_relations_upd [simp]:
  "localData_rest (relations_upd i v s) j = localData_rest s j"
  by (simp add: store_defs)

lemma timeValue0_relations_upd [simp]:
  "timeValue0 (relations_upd i v s) = timeValue0 s"
  by (simp add: store_defs)

lemma info_relations_upd [simp]:
  "info (relations_upd i v s) = (info s)\<lparr>relations := (relations (info s))(i := v)\<rparr>"
  by (simp add: store_defs)

lemma messages_relations_upd [simp]:
  "messages (relations_upd i v s) = messages s"
  by (simp add: store_defs)

lemma warned_relations_upd [simp]:
  "warned (relations_upd i v s) = warned s"
  by (simp add: store_defs)

lemma threadData_relations_upd [simp]:
  "threadData (relations_upd i v s) = threadData s"
  by (simp add: store_defs)

lemma realVar_callStatistics_upd [simp]:
  "realVar (callStatistics_upd g s) j = realVar s j"
  by (simp add: store_defs)

lemma booleanVar_callStatistics_upd [simp]:
  "booleanVar (callStatistics_upd g s) j = booleanVar s j"
  by (simp add: store_defs)

lemma realVarOld_callStatistics_upd [simp]:
  "realVarOld (callStatistics_upd g s) j = realVarOld s j"
  by (simp add: store_defs)

lemma realPre_callStatistics_upd [simp]:
  "realPre (callStatistics_upd g s) j = realPre s j"
  by (simp add: store_defs)

lemma booleanPre_callStatistics_upd [simp]:
  "booleanPre (callStatistics_upd g s) j = booleanPre s j"
  by (simp add: store_defs)

lemma realParam_callStatistics_upd [simp]:
  "realParam (callStatistics_upd g s) j = realParam s j"
  by (simp add: store_defs)

lemma integerParam_callStatistics_upd [simp]:
  "integerParam (callStatistics_upd g s) j = integerParam s j"
  by (simp add: store_defs)

lemma booleanParam_callStatistics_upd [simp]:
  "booleanParam (callStatistics_upd g s) j = booleanParam s j"
  by (simp add: store_defs)

lemma storedRelation_callStatistics_upd [simp]:
  "storedRelation (callStatistics_upd g s) j = storedRelation s j"
  by (simp add: store_defs)

lemma localData_rest_callStatistics_upd [simp]:
  "localData_rest (callStatistics_upd g s) j = localData_rest s j"
  by (simp add: store_defs)

lemma timeValue0_callStatistics_upd [simp]:
  "timeValue0 (callStatistics_upd g s) = timeValue0 s"
  by (simp add: store_defs)

lemma info_callStatistics_upd [simp]:
  "info (callStatistics_upd g s) = (info s)\<lparr>callStatistics := g (callStatistics (info s))\<rparr>"
  by (simp add: store_defs)

lemma messages_callStatistics_upd [simp]:
  "messages (callStatistics_upd g s) = messages s"
  by (simp add: store_defs)

lemma warned_callStatistics_upd [simp]:
  "warned (callStatistics_upd g s) = warned s"
  by (simp add: store_defs)

lemma threadData_callStatistics_upd [simp]:
  "threadData (callStatistics_upd g s) = threadData s"
  by (simp add: store_defs)

lemma realVar_warned_upd [simp]:
  "realVar (warned_upd i b s) j = realVar s j"
  by (simp add: store_defs)

lemma booleanVar_warned_upd [simp]:
  "booleanVar (warned_upd i b s) j = booleanVar s j"
  by (simp add: store_defs)

lemma realVarOld_warned_upd [simp]:
  "realVarOld (warned_upd i b s) j = realVarOld s j"
  by (simp add: store_defs)

lemma realPre_warned_upd [simp]:
  "realPre (warned_upd i b s) j = realPre s j"
  by (simp add: store_defs)

lemma booleanPre_warned_upd [simp]:
  "booleanPre (warned_upd i b s) j = booleanPre s j"
  by (simp add: store_defs)

lemma realParam_warned_upd [simp]:
  "realParam (warned_upd i b s) j = realParam s j"
  by (simp add: store_defs)

lemma integerParam_warned_upd [simp]:
  "integerParam (warned_upd i b s) j = integerParam s j"
  by (simp add: store_defs)

lemma booleanParam_warned_upd [simp]:
  "booleanParam (warned_upd i b s) j = booleanParam s j"
  by (simp add: store_defs)

lemma storedRelation_warned_upd [simp]:
  "storedRelation (warned_upd i b s) j = storedRelation s j"
  by (simp add: store_defs)

lemma localData_rest_warned_upd [simp]:
  "localData_rest (warned_upd i b s) j = localData_rest s j"
  by (simp add: store_defs)

lemma timeValue0_warned_upd [simp]:
  "timeValue0 (warned_upd i b s) = timeValue0 s"
  by (simp add: store_defs)

lemma info_warned_upd [simp]:
  "info (warned_upd i b s) = info s"
  by (simp add: store_defs)

lemma messages_warned_upd [simp]:
  "messages (warned_upd i b s) = messages s"
  by (simp add: store_defs)

lemma warned_warned_upd [simp]:
  "warned (warned_upd i b s) = (warned s)(i := b)"
  by (simp add: store_defs)

lemma threadData_warned_upd [simp]:
  "threadData (warned_upd i b s) = threadData s"
  by (simp add: store_defs)

lemma realVar_realParam_upd [simp]:
  "realVar (realParam_upd i v s) j = realVar s j"
  by (simp add: store_defs)

lemma booleanVar_realParam_upd [simp]:
  "booleanVar (realParam_upd i v s) j = booleanVar s j"
  by (simp add: store_defs)

lemma realVarOld_realParam_upd [simp]:
  "realVarOld (realParam_upd i v s) j = realVarOld s j"
  by (simp add: store_defs)

lemma realPre_realParam_upd [simp]:
  "realPre (realParam_upd i v s) j = realPre s j"
  by (simp add: store_defs)

lemma booleanPre_realParam_upd [simp]:
  "booleanPre (realParam_upd i v s) j = booleanPre s j"
  by (simp add: store_defs)

lemma realParam_realParam_upd [simp]:
  "realParam (realParam_upd i v s) j = (if j = i then v else realParam s j)"
  by (simp add: store_defs)

lemma integerParam_realParam_upd [simp]:
  "integerParam (realParam_upd i v s) j = integerParam s j"
  by (simp add: store_defs)

lemma booleanParam_realParam_upd [simp]:
  "booleanParam (realParam_upd i v s) j = booleanParam s j"
  by (simp add: store_defs)

lemma storedRelation_realParam_upd [simp]:
  "storedRelation (realParam_upd i v s) j = storedRelation s j"
  by (simp add: store_defs)

lemma localData_rest_realParam_upd [simp]:
  "localData_rest (realParam_upd i v s) j = localData_rest s j"
  by (simp add: store_defs)

lemma timeValue0_realParam_upd [simp]:
  "timeValue0 (realParam_upd i v s) = timeValue0 s"
  by (simp add: store_defs)

lemma info_realParam_upd [simp]:
  "info (realParam_upd i v s) = (info s)\<lparr>realParameter := (realParameter (info s))(i := v)\<rparr>"
  by (simp add: store_defs)

lemma messages_realParam_upd [simp]:
  "messages (realParam_upd i v s) = messages s"
  by (simp add: store_defs)

lemma warned_realParam_upd [simp]:
  "warned (realParam_upd i v s) = warned s"
  by (simp add: store_defs)

lemma threadData_realParam_upd [simp]:
  "threadData (realParam_upd i v s) = threadData s"
  by (simp add: store_defs)

lemma realVar_noThrowAsserts_upd [simp]:
  "realVar (noThrowAsserts_upd b s) j = realVar s j"
  by (simp add: store_defs)

lemma booleanVar_noThrowAsserts_upd [simp]:
  "booleanVar (noThrowAsserts_upd b s) j = booleanVar s j"
  by (simp add: store_defs)

lemma realVarOld_noThrowAsserts_upd [simp]:
  "realVarOld (noThrowAsserts_upd b s) j = realVarOld s j"
  by (simp add: store_defs)

lemma realPre_noThrowAsserts_upd [simp]:
  "realPre (noThrowAsserts_upd b s) j = realPre s j"
  by (simp add: store_defs)

lemma booleanPre_noThrowAsserts_upd [simp]:
  "booleanPre (noThrowAsserts_upd b s) j = booleanPre s j"
  by (simp add: store_defs)

lemma realParam_noThrowAsserts_upd [simp]:
  "realParam (noThrowAsserts_upd b s) j = realParam s j"
  by (simp add: store_defs)

lemma integerParam_noThrowAsserts_upd [simp]:
  "integerParam (noThrowAsserts_upd b s) j = integerParam s j"
  by (simp add: store_defs)

lemma booleanParam_noThrowAsserts_upd [simp]:
  "booleanParam (noThrowAsserts_upd b s) j = booleanParam s j"
  by (simp add: store_defs)

lemma storedRelation_noThrowAsserts_upd [simp]:
  "storedRelation (noThrowAsserts_upd b s) j = storedRelation s j"
  by (simp add: store_defs)

lemma localData_rest_noThrowAsserts_upd [simp]:
  "localData_rest (noThrowAsserts_upd b s) j = localData_rest s j"
  by (simp add: store_defs)

lemma timeValue0_noThrowAsserts_upd [simp]:
  "timeValue0 (noThrowAsserts_upd b s) = timeValue0 s"
  by (simp add: store_defs)

lemma info_noThrowAsserts_upd [simp]:
  "info (noThrowAsserts_upd b s) = (info s)\<lparr>noThrowAsserts := b\<rparr>"
  by (simp add: store_defs)

lemma messages_noThrowAsserts_upd [simp]:
  "messages (noThrowAsserts_upd b s) = messages s"
  by (simp add: store_defs)

lemma warned_noThrowAsserts_upd [simp]:
  "warned (noThrowAsserts_upd b s) = warned s"
  by (simp add: store_defs)

lemma threadData_noThrowAsserts_upd [simp]:
  "threadData (noThrowAsserts_upd b s) = threadData s"
  by (simp add: store_defs)

lemma info_fields:
  "realPre s j = realVarsPre (info s) j"
  "booleanPre s j = booleanVarsPre (info s) j"
  "realParam s j = realParameter (info s) j"
  "integerParam s j = integerParameter (info s) j"
  "booleanParam s j = booleanParameter (info s) j"
  "storedRelation s j = storedRelations (info s) j"
  by (simp_all add: store_defs)

lemma data_eqI:
  assumes "\<And>j. realVar s j = realVar t j"
    and "\<And>j. booleanVar s j = booleanVar t j"
    and "timeValue0 s = timeValue0 t"
    and "\<And>k. localData_rest s k = localData_rest t k"
    and "info s = info t"
  shows "data s = data t"
proof -
  have "localData (data s) k = localData (data t) k" for k
  proof (cases k)
    case 0
    have "realVars (localData (data s) 0) = realVars (localData (data t) 0)"
      using assms(1) by (auto simp add: realVar_def)
    moreover have "booleanVars (localData (data s) 0) = booleanVars (localData (data t) 0)"
      using assms(2) by (auto simp add: booleanVar_def)
    moreover have "timeValue (localData (data s) 0) = timeValue (localData (data t) 0)"
      using assms(3) by (simp add: timeValue0_def)
    ultimately show ?thesis using 0 by simp
  next
    case (Suc n)
    then show ?thesis using assms(4) [of n] by (simp add: localData_rest_def)
  qed
  then have "localData (data s) = localData (data t)" by (rule ext)
  moreover have "simulationInfo (data s) = simulationInfo (data t)"
    using assms(5) by (simp add: info_def)
  ultimately show ?thesis by simp
qed

subsection \<open>The worked instance, read back\<close>

lemma example_state_reads [simp]:
  "realVar example_state j = ((\<lambda>i. 0)(1 := 10, 4 := 10, 40 := 10, 44 := 10, 48 := 10, 51 := 10)) j"
  "realVarOld example_state j = ((\<lambda>i. 0)(1 := 10, 4 := 10, 40 := 10, 44 := 10, 48 := 10, 51 := 10)) j"
  "booleanVar example_state j = False"
  "timeValue0 example_state = 0"
  "realParam example_state j = ((\<lambda>i. 0)(29 := 1)) j"
  "realPre example_state j = 0"
  "booleanPre example_state j = False"
  "storedRelation example_state j = False"
  "info example_state = example_info"
  "messages example_state = []"
  "warned example_state = (\<lambda>i. False)"
  by (simp_all add: store_defs example_state_def example_data_def example_info_def)

lemma example_runtime_fields [simp]:
  "ACTIVE_STREAM example_runtime st = True"
  "initial example_runtime s = False"
  "DIVISION_by_zero example_runtime a b msg = Inl (DivisionError msg)"
  "DIVISION_SIM_by_zero example_runtime a b msg ixs = Inl (DivisionError msg)"
  "solver example_runtime = newton_step"
  "analyticJacobians example_runtime i = zero_jacobian"
  "getNextTimeEvent example_runtime t = t + 1"
  "getTimeTableValueNoDer example_runtime icol t n p = 0"
  by (simp_all add: example_runtime_def)

lemma failing_runtime_fields [simp]:
  "ACTIVE_STREAM failing_runtime st = True"
  "solver failing_runtime i x0 = Return 1 x0"
  "analyticJacobians failing_runtime i = zero_jacobian"
  by (simp_all add: failing_runtime_def example_runtime_def)

section \<open>Residuals of the torn systems\<close>

lemma residualFunc121_eq:
  "residualFunc121 rt s x =
     Normal (realParam s 29 + (- (realVar s 4 * x)) - realVar s 1 * x)
       (realVar_upd 6 (realVar s 4 * x) (realVar_upd 2 (realVar s 1 * x) (realVar_upd 5 x s)))"
  by (simp add: residualFunc121_def oc_latch_eqFunction_115_def oc_latch_eqFunction_116_def Let_def)

lemma residualFunc98_eq:
  "realVar s 48 \<noteq> 0 \<Longrightarrow>
   residualFunc98 rt s x =
     Normal (realParam s 29 + (- (realVar s 51 * (x / realVar s 48))) - x)
       (realVar_upd 53 (realVar s 51 * (x / realVar s 48))
         (realVar_upd 52 (x / realVar s 48) (realVar_upd 49 x s)))"
  by (simp add: residualFunc98_def oc_latch_eqFunction_92_def oc_latch_eqFunction_93_def
      DIVISION_SIM_def Let_def)

lemma residualFunc33_eq:
  "realVar s 51 \<noteq> 0 \<Longrightarrow>
   residualFunc33 rt s x =
     Normal (realParam s 29 + (- x) - realVar s 48 * (x / realVar s 51))
       (realVar_upd 49 (realVar s 48 * (x / realVar s 51))
         (realVar_upd 52 (x / realVar s 51) (realVar_upd 53 x s)))"
  by (simp add: residualFunc33_def oc_latch_eqFunction_27_def oc_latch_eqFunction_28_def
      DIVISION_SIM_def Let_def)

lemma residualFunc23_eq:
  "realVar s 4 \<noteq> 0 \<Longrightarrow>
   residualFunc23 rt s x =
     Normal (realParam s 29 + (- x) - realVar s 1 * (x / realVar s 4))
       (realVar_upd 2 (realVar s 1 * (x / realVar s 4))
         (realVar_upd 5 (x / realVar s 4) (realVar_upd 6 x s)))"
  by (simp add: residualFunc23_def oc_latch_eqFunction_17_def oc_latch_eqFunction_18_def
      DIVISION_SIM_def Let_def)



lemma residualFunc98_writes: "realVar (state_of (residualFunc98 rt s x)) 49 = x"
  by (simp add: residualFunc98_def oc_latch_eqFunction_92_def oc_latch_eqFunction_93_def
      DIVISION_SIM_def Let_def split: sum.splits)

lemma residualFunc33_writes: "realVar (state_of (residualFunc33 rt s x)) 53 = x"
  by (simp add: residualFunc33_def oc_latch_eqFunction_27_def oc_latch_eqFunction_28_def
      DIVISION_SIM_def Let_def split: sum.splits)

lemma residualFunc23_writes: "realVar (state_of (residualFunc23 rt s x)) 6 = x"
  by (simp add: residualFunc23_def oc_latch_eqFunction_17_def oc_latch_eqFunction_18_def
      DIVISION_SIM_def Let_def split: sum.splits)

text \<open>
  C10.  A residual callback works on the primary store.  After \<^verbatim>\<open>residualFunc121\<close> has
  returned, R2.i holds the trial value and R1.v, R2.v hold the values of the local
  constraints 115 and 116; \<^verbatim>\<open>residualFunc98\<close>, \<^verbatim>\<open>residualFunc33\<close> and \<^verbatim>\<open>residualFunc23\<close>
  leave the trial value in their torn variable (resistor2.v, resistor3.v, R2.v), also
  when a local constraint raises, and their local constraints' values when it does not.
  So a trial value other than the stored one changes \<^verbatim>\<open>DATA\<close>.
\<close>

theorem residual_evaluation_writes_the_store:
  "realVar (state_of (residualFunc121 rt s x)) 5 = x
   \<and> realVar (state_of (residualFunc121 rt s x)) 2 = realVar s 1 * x
   \<and> realVar (state_of (residualFunc121 rt s x)) 6 = realVar s 4 * x
   \<and> realVar (state_of (residualFunc98 rt s x)) 49 = x
   \<and> realVar (state_of (residualFunc33 rt s x)) 53 = x
   \<and> realVar (state_of (residualFunc23 rt s x)) 6 = x
   \<and> (realVar s 48 \<noteq> 0 \<longrightarrow>
        realVar (state_of (residualFunc98 rt s x)) 52 = x / realVar s 48
        \<and> realVar (state_of (residualFunc98 rt s x)) 53 = realVar s 51 * (x / realVar s 48))
   \<and> (realVar s 51 \<noteq> 0 \<longrightarrow>
        realVar (state_of (residualFunc33 rt s x)) 52 = x / realVar s 51
        \<and> realVar (state_of (residualFunc33 rt s x)) 49 = realVar s 48 * (x / realVar s 51))
   \<and> (realVar s 4 \<noteq> 0 \<longrightarrow>
        realVar (state_of (residualFunc23 rt s x)) 5 = x / realVar s 4
        \<and> realVar (state_of (residualFunc23 rt s x)) 2 = realVar s 1 * (x / realVar s 4))
   \<and> (x \<noteq> realVar s 5 \<longrightarrow> data (state_of (residualFunc121 rt s x)) \<noteq> data s)
   \<and> (x \<noteq> realVar s 49 \<longrightarrow> data (state_of (residualFunc98 rt s x)) \<noteq> data s)
   \<and> (x \<noteq> realVar s 53 \<longrightarrow> data (state_of (residualFunc33 rt s x)) \<noteq> data s)
   \<and> (x \<noteq> realVar s 6 \<longrightarrow> data (state_of (residualFunc23 rt s x)) \<noteq> data s)"
proof -
  have neq: "data t \<noteq> data s" if "realVar t i \<noteq> realVar s i" for t i
    using that by (auto simp add: realVar_def)
  have a: "x \<noteq> realVar s 5 \<longrightarrow> data (state_of (residualFunc121 rt s x)) \<noteq> data s"
    using neq [of "state_of (residualFunc121 rt s x)" 5] by (simp add: residualFunc121_eq)
  have b: "x \<noteq> realVar s 49 \<longrightarrow> data (state_of (residualFunc98 rt s x)) \<noteq> data s"
    using neq [of "state_of (residualFunc98 rt s x)" 49] by (simp add: residualFunc98_writes)
  have c: "x \<noteq> realVar s 53 \<longrightarrow> data (state_of (residualFunc33 rt s x)) \<noteq> data s"
    using neq [of "state_of (residualFunc33 rt s x)" 53] by (simp add: residualFunc33_writes)
  have d: "x \<noteq> realVar s 6 \<longrightarrow> data (state_of (residualFunc23 rt s x)) \<noteq> data s"
    using neq [of "state_of (residualFunc23 rt s x)" 6] by (simp add: residualFunc23_writes)
  show ?thesis
    using a b c d
    by (simp add: residualFunc121_eq residualFunc98_writes residualFunc33_writes
        residualFunc23_writes residualFunc98_eq residualFunc33_eq residualFunc23_eq)
qed

theorem residual_evaluation_writes_the_store_witness:
  "realVar example_state 48 \<noteq> 0 \<and> realVar example_state 51 \<noteq> 0 \<and> realVar example_state 4 \<noteq> 0
   \<and> (1::real) \<noteq> realVar example_state 5 \<and> (1::real) \<noteq> realVar example_state 49
   \<and> (1::real) \<noteq> realVar example_state 53 \<and> (1::real) \<noteq> realVar example_state 6
   \<and> realVar (state_of (residualFunc121 example_runtime example_state 1)) 5 = 1
   \<and> realVar (state_of (residualFunc121 example_runtime example_state 1)) 2 = 10
   \<and> realVar (state_of (residualFunc121 example_runtime example_state 1)) 6 = 10
   \<and> realVar (state_of (residualFunc98 example_runtime example_state 1)) 52 = 1 / 10
   \<and> realVar (state_of (residualFunc33 example_runtime example_state 1)) 49 = 1
   \<and> realVar (state_of (residualFunc23 example_runtime example_state 1)) 2 = 1
   \<and> data (state_of (residualFunc121 example_runtime example_state 1)) \<noteq> data example_state
   \<and> data (state_of (residualFunc98 example_runtime example_state 1)) \<noteq> data example_state
   \<and> data (state_of (residualFunc33 example_runtime example_state 1)) \<noteq> data example_state
   \<and> data (state_of (residualFunc23 example_runtime example_state 1)) \<noteq> data example_state"
  using residual_evaluation_writes_the_store [of example_runtime example_state 1]
  by simp

section \<open>Jacobian columns\<close>

lemma LSJac3_column_eq:
  "oc_latch_functionJacLSJac3_column rt jacobian s =
     Normal (0, resultVars_upd 0 ((- (realVar s 4 * seedVars jacobian 0)) - realVar s 1 * seedVars jacobian 0)
                  (tmpVars_upd 1 (realVar s 4 * seedVars jacobian 0)
                    (tmpVars_upd 0 (realVar s 1 * seedVars jacobian 0) jacobian))) s"
  by (simp add: oc_latch_functionJacLSJac3_column_def oc_latch_eqFunction_118_def
      oc_latch_eqFunction_119_def oc_latch_eqFunction_120_def tmpVars_upd_def resultVars_upd_def)

lemma LSJac0_column_eq:
  "realVar s 4 \<noteq> 0 \<Longrightarrow>
   oc_latch_functionJacLSJac0_column rt jacobian s =
     Normal (0, resultVars_upd 0 ((- seedVars jacobian 0) - realVar s 1 * (seedVars jacobian 0 / realVar s 4))
                  (tmpVars_upd 1 (realVar s 1 * (seedVars jacobian 0 / realVar s 4))
                    (tmpVars_upd 0 (seedVars jacobian 0 / realVar s 4) jacobian))) s"
  by (simp add: oc_latch_functionJacLSJac0_column_def oc_latch_eqFunction_20_def
      oc_latch_eqFunction_21_def oc_latch_eqFunction_22_def DIVISION_def
      tmpVars_upd_def resultVars_upd_def)

lemma LSJac1_column_eq:
  "realVar s 51 \<noteq> 0 \<Longrightarrow>
   oc_latch_functionJacLSJac1_column rt jacobian s =
     Normal (0, resultVars_upd 0 ((- seedVars jacobian 0) - realVar s 48 * (seedVars jacobian 0 / realVar s 51))
                  (tmpVars_upd 1 (realVar s 48 * (seedVars jacobian 0 / realVar s 51))
                    (tmpVars_upd 0 (seedVars jacobian 0 / realVar s 51) jacobian))) s"
  by (simp add: oc_latch_functionJacLSJac1_column_def oc_latch_eqFunction_30_def
      oc_latch_eqFunction_31_def oc_latch_eqFunction_32_def DIVISION_def
      tmpVars_upd_def resultVars_upd_def)

lemma LSJac2_column_eq:
  "realVar s 48 \<noteq> 0 \<Longrightarrow>
   oc_latch_functionJacLSJac2_column rt jacobian s =
     Normal (0, resultVars_upd 0 ((- (realVar s 51 * (seedVars jacobian 0 / realVar s 48))) - seedVars jacobian 0)
                  (tmpVars_upd 1 (realVar s 51 * (seedVars jacobian 0 / realVar s 48))
                    (tmpVars_upd 0 (seedVars jacobian 0 / realVar s 48) jacobian))) s"
  by (simp add: oc_latch_functionJacLSJac2_column_def oc_latch_eqFunction_95_def
      oc_latch_eqFunction_96_def oc_latch_eqFunction_97_def DIVISION_def
      tmpVars_upd_def resultVars_upd_def)

lemma jacobian_reads [simp]:
  "resultVars (resultVars_upd i v j) k = (if k = i then v else resultVars j k)"
  "resultVars (tmpVars_upd i v j) k = resultVars j k"
  "tmpVars (tmpVars_upd i v j) k = (if k = i then v else tmpVars j k)"
  "tmpVars (resultVars_upd i v j) k = tmpVars j k"
  "seedVars (tmpVars_upd i v j) = seedVars j"
  "seedVars (resultVars_upd i v j) = seedVars j"
  "sizeCols (tmpVars_upd i v j) = sizeCols j"
  "sizeCols (resultVars_upd i v j) = sizeCols j"
  "sizeRows (tmpVars_upd i v j) = sizeRows j"
  "sizeRows (resultVars_upd i v j) = sizeRows j"
  "sizeTmpVars (tmpVars_upd i v j) = sizeTmpVars j"
  "sizeTmpVars (resultVars_upd i v j) = sizeTmpVars j"
  "seedVars (unit_seed j) k = (if k = 0 then 1 else seedVars j k)"
  "resultVars (unit_seed j) = resultVars j"
  "tmpVars (unit_seed j) = tmpVars j"
  by (simp_all add: tmpVars_upd_def resultVars_upd_def unit_seed_def)





text \<open>
  C7.  A Jacobian column function hands the machine state back as it received it, whether
  it returns or raises, so no member of \<^verbatim>\<open>DATA\<close> (current or pre values, parameters) is
  written; and the \<^verbatim>\<open>ANALYTIC_JACOBIAN\<close> it returns differs from the one it was given
  in \<^verbatim>\<open>tmpVars\<close> and \<^verbatim>\<open>resultVars\<close> only.
\<close>

theorem jacobian_columns_write_side_buffers_only:
  "state_of (oc_latch_functionJacLSJac0_column rt jacobian s) = s
   \<and> state_of (oc_latch_functionJacLSJac1_column rt jacobian s) = s
   \<and> state_of (oc_latch_functionJacLSJac2_column rt jacobian s) = s
   \<and> state_of (oc_latch_functionJacLSJac3_column rt jacobian s) = s
   \<and> (\<forall>r j t. oc_latch_functionJacLSJac0_column rt jacobian s = Normal (r, j) t
         \<longrightarrow> r = 0 \<and> side_buffers_only jacobian j \<and> data t = data s)
   \<and> (\<forall>r j t. oc_latch_functionJacLSJac1_column rt jacobian s = Normal (r, j) t
         \<longrightarrow> r = 0 \<and> side_buffers_only jacobian j \<and> data t = data s)
   \<and> (\<forall>r j t. oc_latch_functionJacLSJac2_column rt jacobian s = Normal (r, j) t
         \<longrightarrow> r = 0 \<and> side_buffers_only jacobian j \<and> data t = data s)
   \<and> (\<forall>r j t. oc_latch_functionJacLSJac3_column rt jacobian s = Normal (r, j) t
         \<longrightarrow> r = 0 \<and> side_buffers_only jacobian j \<and> data t = data s)"
  by (auto simp add: oc_latch_functionJacLSJac0_column_def oc_latch_eqFunction_20_def
      oc_latch_eqFunction_21_def oc_latch_eqFunction_22_def
      oc_latch_functionJacLSJac1_column_def oc_latch_eqFunction_30_def
      oc_latch_eqFunction_31_def oc_latch_eqFunction_32_def
      oc_latch_functionJacLSJac2_column_def oc_latch_eqFunction_95_def
      oc_latch_eqFunction_96_def oc_latch_eqFunction_97_def
      oc_latch_functionJacLSJac3_column_def oc_latch_eqFunction_118_def
      oc_latch_eqFunction_119_def oc_latch_eqFunction_120_def
      DIVISION_def side_buffers_only_def tmpVars_upd_def resultVars_upd_def
      split: sum.splits)

theorem jacobian_columns_write_side_buffers_only_witness:
  "(\<exists>j. oc_latch_functionJacLSJac0_column example_runtime (unit_seed zero_jacobian) example_state
           = Normal (0, j) example_state \<and> side_buffers_only (unit_seed zero_jacobian) j)
   \<and> (\<exists>j. oc_latch_functionJacLSJac1_column example_runtime (unit_seed zero_jacobian) example_state
           = Normal (0, j) example_state \<and> side_buffers_only (unit_seed zero_jacobian) j)
   \<and> (\<exists>j. oc_latch_functionJacLSJac2_column example_runtime (unit_seed zero_jacobian) example_state
           = Normal (0, j) example_state \<and> side_buffers_only (unit_seed zero_jacobian) j)
   \<and> (\<exists>j. oc_latch_functionJacLSJac3_column example_runtime (unit_seed zero_jacobian) example_state
           = Normal (0, j) example_state \<and> side_buffers_only (unit_seed zero_jacobian) j)"
  using jacobian_columns_write_side_buffers_only [of example_runtime "unit_seed zero_jacobian" example_state]
  by (simp add: LSJac0_column_eq LSJac1_column_eq LSJac2_column_eq LSJac3_column_eq)

section \<open>The linear-system equations\<close>

lemma residual_timeValue0:
  "timeValue0 (state_of (residualFunc121 rt s x)) = timeValue0 s"
  "timeValue0 (state_of (residualFunc98 rt s x)) = timeValue0 s"
  "timeValue0 (state_of (residualFunc33 rt s x)) = timeValue0 s"
  "timeValue0 (state_of (residualFunc23 rt s x)) = timeValue0 s"
  by (simp_all add: residualFunc121_eq residualFunc98_def residualFunc33_def residualFunc23_def
      oc_latch_eqFunction_92_def oc_latch_eqFunction_93_def oc_latch_eqFunction_27_def
      oc_latch_eqFunction_28_def oc_latch_eqFunction_17_def oc_latch_eqFunction_18_def
      DIVISION_SIM_def Let_def split: sum.splits)

lemma column_state_of:
  "state_of (oc_latch_functionJacLSJac0_column rt jacobian s) = s"
  "state_of (oc_latch_functionJacLSJac1_column rt jacobian s) = s"
  "state_of (oc_latch_functionJacLSJac2_column rt jacobian s) = s"
  "state_of (oc_latch_functionJacLSJac3_column rt jacobian s) = s"
  by (simp_all add: oc_latch_functionJacLSJac0_column_def oc_latch_eqFunction_20_def
      oc_latch_eqFunction_21_def oc_latch_eqFunction_22_def
      oc_latch_functionJacLSJac1_column_def oc_latch_eqFunction_30_def
      oc_latch_eqFunction_31_def oc_latch_eqFunction_32_def
      oc_latch_functionJacLSJac2_column_def oc_latch_eqFunction_95_def
      oc_latch_eqFunction_96_def oc_latch_eqFunction_97_def
      oc_latch_functionJacLSJac3_column_def oc_latch_eqFunction_118_def
      oc_latch_eqFunction_119_def oc_latch_eqFunction_120_def
      DIVISION_def split: sum.splits)

lemma run_solver_timeValue0:
  assumes res: "\<And>s x. timeValue0 (state_of (res s x)) = timeValue0 s"
    and col: "\<And>j s. state_of (col j s) = s"
  shows "timeValue0 (state_of (run_solver res col prog jacobian s)) = timeValue0 s"
proof (induction prog arbitrary: jacobian s)
  case (Return r x)
  show ?case by simp
next
  case (Residual x k)
  show ?case
  proof (cases "res s x")
    case (Normal v t)
    then have "timeValue0 t = timeValue0 s" using res [of s x] by simp
    with Normal Residual show ?thesis by simp
  next
    case (Abort e t)
    then show ?thesis using res [of s x] by simp
  qed
next
  case (JacobianColumn seed k)
  show ?case
  proof (cases "col (jacobian\<lparr>seedVars := (seedVars jacobian)(0 := seed)\<rparr>) s")
    case (Normal rj t)
    then have "t = s" using col [of "jacobian\<lparr>seedVars := (seedVars jacobian)(0 := seed)\<rparr>" s] by simp
    with Normal JacobianColumn show ?thesis by simp
  next
    case (Abort e t)
    then show ?thesis using col [of "jacobian\<lparr>seedVars := (seedVars jacobian)(0 := seed)\<rparr>" s] by simp
  qed
qed

lemma solve_linear_system_timeValue0:
  "timeValue0 (state_of (solve_linear_system rt i x s)) = timeValue0 s"
  unfolding solve_linear_system_def Let_def
  by (rule run_solver_timeValue0)
     (simp_all add: oc_latch_initialLinearSystem_def residual_timeValue0 column_state_of)

lemma timeValue0_log_solving [simp]: "timeValue0 (log_solving rt fmt s) = timeValue0 s"
  by (simp add: log_solving_def)

lemma run_solver_torn:
  assumes res: "\<And>s x. realVar (state_of (res s x)) i = x"
    and col: "\<And>j s. state_of (col j s) = s"
  shows "realVar (state_of (run_solver res col prog jacobian s)) i
         = (if solver_trials res col prog jacobian s = [] then realVar s i
            else last (solver_trials res col prog jacobian s))"
proof (induction prog arbitrary: jacobian s)
  case (Return r x)
  show ?case by simp
next
  case (Residual x k)
  show ?case
  proof (cases "res s x")
    case (Normal v t)
    with res [of s x] have "realVar t i = x" by simp
    with Normal Residual [OF rangeI [of k v], where s = t and jacobian = jacobian]
    show ?thesis by simp
  next
    case (Abort e t)
    with res [of s x] show ?thesis by simp
  qed
next
  case (JacobianColumn seed k)
  let ?j = "jacobian\<lparr>seedVars := (seedVars jacobian)(0 := seed)\<rparr>"
  show ?case
  proof (cases "col ?j s")
    case (Normal rj t)
    with col [of ?j s] have "t = s" by simp
    with Normal JacobianColumn [OF rangeI [of k "resultVars (snd rj) 0"],
        where s = s and jacobian = "snd rj"]
    show ?thesis by simp
  next
    case (Abort e t)
    with col [of ?j s] show ?thesis by simp
  qed
qed

lemma residualFunc121_writes: "realVar (state_of (residualFunc121 rt s x)) 5 = x"
  by (simp add: residualFunc121_eq)

lemma solve_linear_system_torn:
  "realVar (state_of (solve_linear_system rt 2 x0 s)) 49
     = (if residual_trials rt 2 x0 s = [] then realVar s 49 else last (residual_trials rt 2 x0 s))"
  "realVar (state_of (solve_linear_system rt 3 x0 s)) 5
     = (if residual_trials rt 3 x0 s = [] then realVar s 5 else last (residual_trials rt 3 x0 s))"
  "realVar (state_of (solve_linear_system rt 0 x0 s)) 6
     = (if residual_trials rt 0 x0 s = [] then realVar s 6 else last (residual_trials rt 0 x0 s))"
  "realVar (state_of (solve_linear_system rt 1 x0 s)) 53
     = (if residual_trials rt 1 x0 s = [] then realVar s 53 else last (residual_trials rt 1 x0 s))"
  unfolding solve_linear_system_def residual_trials_def Let_def
  by (rule run_solver_torn;
      simp add: oc_latch_initialLinearSystem_def residualFunc98_writes residualFunc121_writes
        residualFunc23_writes residualFunc33_writes column_state_of)+

lemma linear_system_equation_cases:
  assumes def: "\<And>s. f rt s =
        (case solve_linear_system rt k (realVarOld s i) (log_solving rt fmt s) of
           Abort e s2 \<Rightarrow> Abort e s2
         | Normal rx s2 \<Rightarrow>
             if fst rx > 0 then Abort (StreamPrintWithEquationIndexes [1, n] failed [timeValue0 s2]) s2
             else Normal () (realVar_upd i (snd rx) s2))"
    and torn: "\<And>x0 s. realVar (state_of (solve_linear_system rt k x0 s)) i
                 = (if residual_trials rt k x0 s = [] then realVar s i
                    else last (residual_trials rt k x0 s))"
    and run: "solve_linear_system rt k (realVarOld s i) (log_solving rt fmt s) = Normal (r, x) t"
  shows "(0 < r \<longrightarrow>
            f rt s = Abort (StreamPrintWithEquationIndexes [1, n] failed [timeValue0 s]) t
          \<and> realVar (state_of (f rt s)) i
              = (if residual_trials rt k (realVarOld s i) (log_solving rt fmt s) = []
                 then realVar s i
                 else last (residual_trials rt k (realVarOld s i) (log_solving rt fmt s))))
       \<and> (r \<le> 0 \<longrightarrow>
            f rt s = Normal () (realVar_upd i x t) \<and> realVar (state_of (f rt s)) i = x)"
proof -
  have time: "timeValue0 t = timeValue0 s"
    using solve_linear_system_timeValue0 [of rt k "realVarOld s i" "log_solving rt fmt s"] run
    by simp
  have "realVar t i = (if residual_trials rt k (realVarOld s i) (log_solving rt fmt s) = []
                 then realVar s i
                 else last (residual_trials rt k (realVarOld s i) (log_solving rt fmt s)))"
    using torn [of "realVarOld s i" "log_solving rt fmt s"] run by (simp add: log_solving_def)
  then show ?thesis unfolding def [of s] run by (simp add: time)
qed

text \<open>
  C1 (as amended).  Each of the four linear-system equations (23, 33, 98, 121) takes
  the solver's answer as follows.  A return value above 0 raises through
  \<^verbatim>\<open>throwStreamPrintWithEquationIndexes\<close> with the indexes \<^verbatim>\<open>{1, n}\<close> of the equation, the
  message of equation \<^verbatim>\<open>n\<close> and the simulated time of the call; the solution is not
  written, and the torn unknown holds what the solver's residual calls left there: the
  last trial value, or its former value when the solver evaluated no residual.  A return
  value of 0 or less writes the solution \<^verbatim>\<open>aux_x[0]\<close> to the torn unknown in
  \<^verbatim>\<open>localData[0]\<close>, where it is read back.
\<close>

theorem linear_system_equations_check_the_solver:
  "(\<forall>r x t. solve_linear_system rt 2 (realVarOld s 49) (log_solving rt solving_98 s) = Normal (r, x) t
      \<longrightarrow> (0 < r \<longrightarrow>
             oc_latch_eqFunction_98 rt s
               = Abort (StreamPrintWithEquationIndexes [1, 98] failed_98 [timeValue0 s]) t
           \<and> realVar (state_of (oc_latch_eqFunction_98 rt s)) 49
               = (if residual_trials rt 2 (realVarOld s 49) (log_solving rt solving_98 s) = []
                  then realVar s 49
                  else last (residual_trials rt 2 (realVarOld s 49) (log_solving rt solving_98 s))))
        \<and> (r \<le> 0 \<longrightarrow>
             oc_latch_eqFunction_98 rt s = Normal () (realVar_upd 49 x t)
           \<and> realVar (state_of (oc_latch_eqFunction_98 rt s)) 49 = x))
   \<and> (\<forall>r x t. solve_linear_system rt 3 (realVarOld s 5) (log_solving rt solving_121 s) = Normal (r, x) t
      \<longrightarrow> (0 < r \<longrightarrow>
             oc_latch_eqFunction_121 rt s
               = Abort (StreamPrintWithEquationIndexes [1, 121] failed_121 [timeValue0 s]) t
           \<and> realVar (state_of (oc_latch_eqFunction_121 rt s)) 5
               = (if residual_trials rt 3 (realVarOld s 5) (log_solving rt solving_121 s) = []
                  then realVar s 5
                  else last (residual_trials rt 3 (realVarOld s 5) (log_solving rt solving_121 s))))
        \<and> (r \<le> 0 \<longrightarrow>
             oc_latch_eqFunction_121 rt s = Normal () (realVar_upd 5 x t)
           \<and> realVar (state_of (oc_latch_eqFunction_121 rt s)) 5 = x))
   \<and> (\<forall>r x t. solve_linear_system rt 0 (realVarOld s 6) (log_solving rt solving_23 s) = Normal (r, x) t
      \<longrightarrow> (0 < r \<longrightarrow>
             oc_latch_eqFunction_23 rt s
               = Abort (StreamPrintWithEquationIndexes [1, 23] failed_23 [timeValue0 s]) t
           \<and> realVar (state_of (oc_latch_eqFunction_23 rt s)) 6
               = (if residual_trials rt 0 (realVarOld s 6) (log_solving rt solving_23 s) = []
                  then realVar s 6
                  else last (residual_trials rt 0 (realVarOld s 6) (log_solving rt solving_23 s))))
        \<and> (r \<le> 0 \<longrightarrow>
             oc_latch_eqFunction_23 rt s = Normal () (realVar_upd 6 x t)
           \<and> realVar (state_of (oc_latch_eqFunction_23 rt s)) 6 = x))
   \<and> (\<forall>r x t. solve_linear_system rt 1 (realVarOld s 53) (log_solving rt solving_33 s) = Normal (r, x) t
      \<longrightarrow> (0 < r \<longrightarrow>
             oc_latch_eqFunction_33 rt s
               = Abort (StreamPrintWithEquationIndexes [1, 33] failed_33 [timeValue0 s]) t
           \<and> realVar (state_of (oc_latch_eqFunction_33 rt s)) 53
               = (if residual_trials rt 1 (realVarOld s 53) (log_solving rt solving_33 s) = []
                  then realVar s 53
                  else last (residual_trials rt 1 (realVarOld s 53) (log_solving rt solving_33 s))))
        \<and> (r \<le> 0 \<longrightarrow>
             oc_latch_eqFunction_33 rt s = Normal () (realVar_upd 53 x t)
           \<and> realVar (state_of (oc_latch_eqFunction_33 rt s)) 53 = x))"
proof (intro conjI allI impI)
  fix r x t
  assume "solve_linear_system rt 2 (realVarOld s 49) (log_solving rt solving_98 s) = Normal (r, x) t"
  note c = linear_system_equation_cases [where f = oc_latch_eqFunction_98 and n = 98
      and failed = failed_98, OF _ solve_linear_system_torn(1) this]
  have d: "oc_latch_eqFunction_98 rt s =
        (case solve_linear_system rt 2 (realVarOld s 49) (log_solving rt solving_98 s) of
           Abort e s2 \<Rightarrow> Abort e s2
         | Normal rx s2 \<Rightarrow>
             if fst rx > 0 then Abort (StreamPrintWithEquationIndexes [1, 98] failed_98 [timeValue0 s2]) s2
             else Normal () (realVar_upd 49 (snd rx) s2))" for s
    by (simp add: oc_latch_eqFunction_98_def Let_def)
  show "oc_latch_eqFunction_98 rt s
          = Abort (StreamPrintWithEquationIndexes [1, 98] failed_98 [timeValue0 s]) t"
    and "realVar (state_of (oc_latch_eqFunction_98 rt s)) 49
          = (if residual_trials rt 2 (realVarOld s 49) (log_solving rt solving_98 s) = []
             then realVar s 49
             else last (residual_trials rt 2 (realVarOld s 49) (log_solving rt solving_98 s)))"
    if "0 < r" using c [OF d] that by blast+
  show "oc_latch_eqFunction_98 rt s = Normal () (realVar_upd 49 x t)"
    and "realVar (state_of (oc_latch_eqFunction_98 rt s)) 49 = x"
    if "r \<le> 0" using c [OF d] that by blast+
next
  fix r x t
  assume "solve_linear_system rt 3 (realVarOld s 5) (log_solving rt solving_121 s) = Normal (r, x) t"
  note c = linear_system_equation_cases [where f = oc_latch_eqFunction_121 and n = 121
      and failed = failed_121, OF _ solve_linear_system_torn(2) this]
  have d: "oc_latch_eqFunction_121 rt s =
        (case solve_linear_system rt 3 (realVarOld s 5) (log_solving rt solving_121 s) of
           Abort e s2 \<Rightarrow> Abort e s2
         | Normal rx s2 \<Rightarrow>
             if fst rx > 0 then Abort (StreamPrintWithEquationIndexes [1, 121] failed_121 [timeValue0 s2]) s2
             else Normal () (realVar_upd 5 (snd rx) s2))" for s
    by (simp add: oc_latch_eqFunction_121_def Let_def)
  show "oc_latch_eqFunction_121 rt s
          = Abort (StreamPrintWithEquationIndexes [1, 121] failed_121 [timeValue0 s]) t"
    and "realVar (state_of (oc_latch_eqFunction_121 rt s)) 5
          = (if residual_trials rt 3 (realVarOld s 5) (log_solving rt solving_121 s) = []
             then realVar s 5
             else last (residual_trials rt 3 (realVarOld s 5) (log_solving rt solving_121 s)))"
    if "0 < r" using c [OF d] that by blast+
  show "oc_latch_eqFunction_121 rt s = Normal () (realVar_upd 5 x t)"
    and "realVar (state_of (oc_latch_eqFunction_121 rt s)) 5 = x"
    if "r \<le> 0" using c [OF d] that by blast+
next
  fix r x t
  assume "solve_linear_system rt 0 (realVarOld s 6) (log_solving rt solving_23 s) = Normal (r, x) t"
  note c = linear_system_equation_cases [where f = oc_latch_eqFunction_23 and n = 23
      and failed = failed_23, OF _ solve_linear_system_torn(3) this]
  have d: "oc_latch_eqFunction_23 rt s =
        (case solve_linear_system rt 0 (realVarOld s 6) (log_solving rt solving_23 s) of
           Abort e s2 \<Rightarrow> Abort e s2
         | Normal rx s2 \<Rightarrow>
             if fst rx > 0 then Abort (StreamPrintWithEquationIndexes [1, 23] failed_23 [timeValue0 s2]) s2
             else Normal () (realVar_upd 6 (snd rx) s2))" for s
    by (simp add: oc_latch_eqFunction_23_def Let_def)
  show "oc_latch_eqFunction_23 rt s
          = Abort (StreamPrintWithEquationIndexes [1, 23] failed_23 [timeValue0 s]) t"
    and "realVar (state_of (oc_latch_eqFunction_23 rt s)) 6
          = (if residual_trials rt 0 (realVarOld s 6) (log_solving rt solving_23 s) = []
             then realVar s 6
             else last (residual_trials rt 0 (realVarOld s 6) (log_solving rt solving_23 s)))"
    if "0 < r" using c [OF d] that by blast+
  show "oc_latch_eqFunction_23 rt s = Normal () (realVar_upd 6 x t)"
    and "realVar (state_of (oc_latch_eqFunction_23 rt s)) 6 = x"
    if "r \<le> 0" using c [OF d] that by blast+
next
  fix r x t
  assume "solve_linear_system rt 1 (realVarOld s 53) (log_solving rt solving_33 s) = Normal (r, x) t"
  note c = linear_system_equation_cases [where f = oc_latch_eqFunction_33 and n = 33
      and failed = failed_33, OF _ solve_linear_system_torn(4) this]
  have d: "oc_latch_eqFunction_33 rt s =
        (case solve_linear_system rt 1 (realVarOld s 53) (log_solving rt solving_33 s) of
           Abort e s2 \<Rightarrow> Abort e s2
         | Normal rx s2 \<Rightarrow>
             if fst rx > 0 then Abort (StreamPrintWithEquationIndexes [1, 33] failed_33 [timeValue0 s2]) s2
             else Normal () (realVar_upd 53 (snd rx) s2))" for s
    by (simp add: oc_latch_eqFunction_33_def Let_def)
  show "oc_latch_eqFunction_33 rt s
          = Abort (StreamPrintWithEquationIndexes [1, 33] failed_33 [timeValue0 s]) t"
    and "realVar (state_of (oc_latch_eqFunction_33 rt s)) 53
          = (if residual_trials rt 1 (realVarOld s 53) (log_solving rt solving_33 s) = []
             then realVar s 53
             else last (residual_trials rt 1 (realVarOld s 53) (log_solving rt solving_33 s)))"
    if "0 < r" using c [OF d] that by blast+
  show "oc_latch_eqFunction_33 rt s = Normal () (realVar_upd 53 x t)"
    and "realVar (state_of (oc_latch_eqFunction_33 rt s)) 53 = x"
    if "r \<le> 0" using c [OF d] that by blast+
qed

lemma solver_steps [simp]:
  "run_solver res col (newton_step i x0) jacobian s =
     (case col (jacobian\<lparr>seedVars := (seedVars jacobian)(0 := 1)\<rparr>) s of
        Abort e s' \<Rightarrow> Abort e s'
      | Normal rj s' \<Rightarrow>
          (case res s' x0 of
             Abort e s'' \<Rightarrow> Abort e s''
           | Normal r s'' \<Rightarrow>
               if resultVars (snd rj) 0 = 0 then Normal (1, x0) s''
               else (case res s'' (x0 - r / resultVars (snd rj) 0) of
                       Abort e t \<Rightarrow> Abort e t
                     | Normal r' t \<Rightarrow> Normal (0, x0 - r / resultVars (snd rj) 0) t)))"
  by (simp add: newton_step_def split: result.splits)

lemma log_solving_reads [simp]:
  "realVar (log_solving rt fmt s) j = realVar s j"
  "realVarOld (log_solving rt fmt s) j = realVarOld s j"
  "realParam (log_solving rt fmt s) j = realParam s j"
  by (simp_all add: log_solving_def)

lemma zero_jacobian_seed [simp]:
  "seedVars (zero_jacobian\<lparr>seedVars := (seedVars zero_jacobian)(0 := 1)\<rparr>) 0 = 1"
  by simp

lemma solver_trials_steps [simp]:
  "solver_trials res col (newton_step i x0) jacobian s =
     (case col (jacobian\<lparr>seedVars := (seedVars jacobian)(0 := 1)\<rparr>) s of
        Abort e s' \<Rightarrow> []
      | Normal rj s' \<Rightarrow>
          x0 # (case res s' x0 of
                  Abort e s'' \<Rightarrow> []
                | Normal r s'' \<Rightarrow>
                    if resultVars (snd rj) 0 = 0 then []
                    else [x0 - r / resultVars (snd rj) 0]))"
  by (simp add: newton_step_def split: result.splits)

lemma singular_state_reads [simp]:
  "realVar singular_state j = ((\<lambda>i. 0)(1 := 10, 4 := 10, 40 := 10, 44 := 10, 48 := - 8, 51 := 8, 49 := 3)) j"
  "realVarOld singular_state j = realVarOld example_state j"
  "realParam singular_state j = realParam example_state j"
  "timeValue0 singular_state = 0"
  by (simp_all add: singular_state_def)

theorem linear_system_equations_check_the_solver_witness:
  "realVar example_state 49 = 0
   \<and> (\<exists>F. oc_latch_eqFunction_98 example_runtime example_state = Normal () F \<and> realVar F 49 = 1 / 2)
   \<and> realVar example_state 5 = 0
   \<and> (\<exists>F. oc_latch_eqFunction_121 example_runtime example_state = Normal () F \<and> realVar F 5 = 1 / 20)
   \<and> realVar example_state 6 = 0
   \<and> (\<exists>F. oc_latch_eqFunction_23 example_runtime example_state = Normal () F \<and> realVar F 6 = 1 / 2)
   \<and> realVar example_state 53 = 0
   \<and> (\<exists>F. oc_latch_eqFunction_33 example_runtime example_state = Normal () F \<and> realVar F 53 = 1 / 2)
   \<and> realVar singular_state 49 = 3
   \<and> residual_trials example_runtime 2 (realVarOld singular_state 49)
        (log_solving example_runtime solving_98 singular_state) = [0]
   \<and> (\<exists>t. oc_latch_eqFunction_98 example_runtime singular_state
            = Abort (StreamPrintWithEquationIndexes [1, 98] failed_98 [0]) t
        \<and> realVar t 49 = 0)
   \<and> residual_trials failing_runtime 2 (realVarOld singular_state 49)
        (log_solving failing_runtime solving_98 singular_state) = []
   \<and> (\<exists>t. oc_latch_eqFunction_98 failing_runtime singular_state
            = Abort (StreamPrintWithEquationIndexes [1, 98] failed_98 [0]) t
        \<and> realVar t 49 = 3)
   \<and> (\<exists>t. oc_latch_eqFunction_121 failing_runtime example_state
            = Abort (StreamPrintWithEquationIndexes [1, 121] failed_121 [0]) t
        \<and> realVar t 5 = realVar example_state 5)
   \<and> (\<exists>t. oc_latch_eqFunction_23 failing_runtime example_state
            = Abort (StreamPrintWithEquationIndexes [1, 23] failed_23 [0]) t
        \<and> realVar t 6 = realVar example_state 6)
   \<and> (\<exists>t. oc_latch_eqFunction_33 failing_runtime example_state
            = Abort (StreamPrintWithEquationIndexes [1, 33] failed_33 [0]) t
        \<and> realVar t 53 = realVar example_state 53)"
proof -
  note ev = solve_linear_system_def residual_trials_def oc_latch_initialLinearSystem_def Let_def
      LSJac0_column_eq LSJac1_column_eq LSJac2_column_eq LSJac3_column_eq
      residualFunc23_eq residualFunc33_eq residualFunc98_eq residualFunc121_eq
  note checks = linear_system_equations_check_the_solver
  obtain t1 where "solve_linear_system example_runtime 2 (realVarOld example_state 49)
      (log_solving example_runtime solving_98 example_state) = Normal (0, 1 / 2) t1"
    by (simp add: ev)
  from checks [of example_runtime example_state, THEN conjunct1, rule_format, OF this]
  have 1: "\<exists>F. oc_latch_eqFunction_98 example_runtime example_state = Normal () F
             \<and> realVar F 49 = 1 / 2"
    by simp
  obtain t2 where "solve_linear_system example_runtime 3 (realVarOld example_state 5)
      (log_solving example_runtime solving_121 example_state) = Normal (0, 1 / 20) t2"
    by (simp add: ev)
  from checks [of example_runtime example_state, THEN conjunct2, THEN conjunct1, rule_format, OF this]
  have 2: "\<exists>F. oc_latch_eqFunction_121 example_runtime example_state = Normal () F
             \<and> realVar F 5 = 1 / 20"
    by simp
  obtain t3 where "solve_linear_system example_runtime 0 (realVarOld example_state 6)
      (log_solving example_runtime solving_23 example_state) = Normal (0, 1 / 2) t3"
    by (simp add: ev)
  from checks [of example_runtime example_state, THEN conjunct2, THEN conjunct2, THEN conjunct1,
      rule_format, OF this]
  have 3: "\<exists>F. oc_latch_eqFunction_23 example_runtime example_state = Normal () F
             \<and> realVar F 6 = 1 / 2"
    by simp
  obtain t4 where "solve_linear_system example_runtime 1 (realVarOld example_state 53)
      (log_solving example_runtime solving_33 example_state) = Normal (0, 1 / 2) t4"
    by (simp add: ev)
  from checks [of example_runtime example_state, THEN conjunct2, THEN conjunct2, THEN conjunct2,
      rule_format, OF this]
  have 4: "\<exists>F. oc_latch_eqFunction_33 example_runtime example_state = Normal () F
             \<and> realVar F 53 = 1 / 2"
    by simp
  have tr5: "residual_trials example_runtime 2 (realVarOld singular_state 49)
        (log_solving example_runtime solving_98 singular_state) = [0]"
    by (simp add: ev)
  obtain t5 where "solve_linear_system example_runtime 2 (realVarOld singular_state 49)
      (log_solving example_runtime solving_98 singular_state) = Normal (1, 0) t5"
    by (simp add: ev)
  from checks [of example_runtime singular_state, THEN conjunct1, rule_format, OF this]
  have 5: "\<exists>t. oc_latch_eqFunction_98 example_runtime singular_state
            = Abort (StreamPrintWithEquationIndexes [1, 98] failed_98 [0]) t
        \<and> realVar t 49 = 0"
    by (auto simp add: ev)
  have tr6: "residual_trials failing_runtime 2 (realVarOld singular_state 49)
        (log_solving failing_runtime solving_98 singular_state) = []"
    by (auto simp add: ev)
  obtain t6 where "solve_linear_system failing_runtime 2 (realVarOld singular_state 49)
      (log_solving failing_runtime solving_98 singular_state) = Normal (1, 0) t6"
    by (simp add: ev)
  from checks [of failing_runtime singular_state, THEN conjunct1, rule_format, OF this]
  have 6: "\<exists>t. oc_latch_eqFunction_98 failing_runtime singular_state
            = Abort (StreamPrintWithEquationIndexes [1, 98] failed_98 [0]) t
        \<and> realVar t 49 = 3"
    by (auto simp add: ev)
  have tr: "residual_trials failing_runtime k x0 s = []" for k x0 s
    by (simp add: residual_trials_def)
  obtain t7 where "solve_linear_system failing_runtime 3 (realVarOld example_state 5)
      (log_solving failing_runtime solving_121 example_state) = Normal (1, 0) t7"
    by (simp add: ev)
  from checks [of failing_runtime example_state, THEN conjunct2, THEN conjunct1, rule_format, OF this]
  have 7: "\<exists>t. oc_latch_eqFunction_121 failing_runtime example_state
            = Abort (StreamPrintWithEquationIndexes [1, 121] failed_121 [0]) t
        \<and> realVar t 5 = realVar example_state 5"
    by (auto simp add: tr)
  obtain t8 where "solve_linear_system failing_runtime 0 (realVarOld example_state 6)
      (log_solving failing_runtime solving_23 example_state) = Normal (1, 0) t8"
    by (simp add: ev)
  from checks [of failing_runtime example_state, THEN conjunct2, THEN conjunct2, THEN conjunct1,
      rule_format, OF this]
  have 8: "\<exists>t. oc_latch_eqFunction_23 failing_runtime example_state
            = Abort (StreamPrintWithEquationIndexes [1, 23] failed_23 [0]) t
        \<and> realVar t 6 = realVar example_state 6"
    by (auto simp add: tr)
  obtain t9 where "solve_linear_system failing_runtime 1 (realVarOld example_state 53)
      (log_solving failing_runtime solving_33 example_state) = Normal (1, 0) t9"
    by (simp add: ev)
  from checks [of failing_runtime example_state, THEN conjunct2, THEN conjunct2, THEN conjunct2,
      rule_format, OF this]
  have 9: "\<exists>t. oc_latch_eqFunction_33 failing_runtime example_state
            = Abort (StreamPrintWithEquationIndexes [1, 33] failed_33 [0]) t
        \<and> realVar t 53 = realVar example_state 53"
    by (auto simp add: tr)
  have v: "realVar example_state 49 = 0" "realVar example_state 5 = 0" "realVar example_state 6 = 0"
    "realVar example_state 53 = 0" "realVar singular_state 49 = 3"
    by simp_all
  from v 1 2 3 4 tr5 5 tr6 6 7 8 9 show ?thesis by blast
qed

text \<open>
  The claim as first stated leaves the torn unknown unchanged when the solver fails.
  System 98 with a singular Jacobian (resistor2.R_actual = -8, resistor3.R_actual = 8)
  and 3 in resistor2.v: the solver evaluates the residual at the start value 0 before it
  gives up, the residual call writes its trial value, and the equation raises with 0 in
  resistor2.v.
\<close>

theorem linear_system_failure_overwrites_torn_unknown_counterexample:
  "realVar singular_state 49 = 3
   \<and> aborted (oc_latch_eqFunction_98 example_runtime singular_state)
   \<and> realVar (state_of (oc_latch_eqFunction_98 example_runtime singular_state)) 49 = 0"
  by (simp add: oc_latch_eqFunction_98_def solve_linear_system_def oc_latch_initialLinearSystem_def
      Let_def LSJac2_column_eq residualFunc98_eq)

section \<open>When-clauses\<close>

lemma example_state_at_reads [simp]:
  "realVar (example_state_at t) j = realVar example_state j"
  "booleanVar (example_state_at t) j = False"
  "timeValue0 (example_state_at t) = t"
  "realParam (example_state_at t) j = realParam example_state j"
  "realPre (example_state_at t) j = 0"
  "booleanPre (example_state_at t) j = False"
  "storedRelation (example_state_at t) j = False"
  "info (example_state_at t) = example_info"
  by (simp_all add: example_state_at_def store_defs example_state_def example_data_def
      example_info_def)

text \<open>
  C4.  The when-equations 106 and 108 assign their variable
  (combiTimeTable.nextTimeEventScaled, index 57, and combiTimeTable.nextTimeEvent,
  index 56) exactly on a rising edge of \<^verbatim>\<open>$whenCondition1\<close>: when it is true and its
  pre-value false the call is that one assignment, and in every other case the call
  hands the state back unchanged.  So the variable has a new value only after an edge,
  and no other variable is ever written.
\<close>

theorem when_equations_fire_on_rising_edge:
  "(booleanVar s 0 \<and> \<not> booleanPre s 0 \<longrightarrow>
      oc_latch_eqFunction_106 rt s = realVar_upd 57 (getNextTimeEvent rt (realVar s 9)) s
      \<and> oc_latch_eqFunction_108 s
          = realVar_upd 56 (if realVar s 57 < 9999999999999999 * 10 ^ 44 then realVar s 57
                            else 9999999999999999 * 10 ^ 44) s)
   \<and> (\<not> (booleanVar s 0 \<and> \<not> booleanPre s 0) \<longrightarrow>
      oc_latch_eqFunction_106 rt s = s \<and> oc_latch_eqFunction_108 s = s)
   \<and> (realVar (oc_latch_eqFunction_106 rt s) 57 \<noteq> realVar s 57 \<longrightarrow>
      booleanVar s 0 \<and> \<not> booleanPre s 0)
   \<and> (realVar (oc_latch_eqFunction_108 s) 56 \<noteq> realVar s 56 \<longrightarrow>
      booleanVar s 0 \<and> \<not> booleanPre s 0)
   \<and> (\<forall>j. j \<noteq> 57 \<longrightarrow> realVar (oc_latch_eqFunction_106 rt s) j = realVar s j)
   \<and> (\<forall>j. j \<noteq> 56 \<longrightarrow> realVar (oc_latch_eqFunction_108 s) j = realVar s j)"
  by (simp add: oc_latch_eqFunction_106_def oc_latch_eqFunction_108_def Let_def)

theorem when_equations_fire_on_rising_edge_witness:
  "booleanVar (booleanVar_upd 0 True example_state) 0
   \<and> \<not> booleanPre (booleanVar_upd 0 True example_state) 0
   \<and> realVar (oc_latch_eqFunction_106 example_runtime (booleanVar_upd 0 True example_state)) 57 = 1
   \<and> realVar (oc_latch_eqFunction_108
                (oc_latch_eqFunction_106 example_runtime (booleanVar_upd 0 True example_state))) 56 = 1
   \<and> \<not> booleanVar example_state 0
   \<and> oc_latch_eqFunction_106 example_runtime example_state = example_state
   \<and> oc_latch_eqFunction_108 example_state = example_state
   \<and> booleanPre (booleanPre_upd 0 True (booleanVar_upd 0 True example_state)) 0
   \<and> oc_latch_eqFunction_106 example_runtime
        (booleanPre_upd 0 True (booleanVar_upd 0 True example_state))
      = booleanPre_upd 0 True (booleanVar_upd 0 True example_state)
   \<and> oc_latch_eqFunction_108 (booleanPre_upd 0 True (booleanVar_upd 0 True example_state))
      = booleanPre_upd 0 True (booleanVar_upd 0 True example_state)
   \<and> realVar (oc_latch_eqFunction_106 example_runtime (booleanVar_upd 0 True example_state)) 9
      = realVar example_state 9"
  using when_equations_fire_on_rising_edge [of "booleanVar_upd 0 True example_state" example_runtime]
    when_equations_fire_on_rising_edge [of example_state example_runtime]
    when_equations_fire_on_rising_edge
      [of "booleanPre_upd 0 True (booleanVar_upd 0 True example_state)" example_runtime]
    when_equations_fire_on_rising_edge
      [of "oc_latch_eqFunction_106 example_runtime (booleanVar_upd 0 True example_state)"]
  by simp

section \<open>Zero-crossing indicators\<close>

lemma ZeroCrossings_eq:
  "oc_latch_function_ZeroCrossings rt s gout =
     (0,
      gout(0 := if GreaterEqZC rt (realVar s 36) (realParam s 32) (storedRelation s 0) then 1 else - 1,
           1 := if GreaterEqZC rt (realVar s 38) (realParam s 33) (storedRelation s 1) then 1 else - 1,
           2 := if LessEqZC rt (timeValue0 s) (1 / 10) (storedRelation s 2)
                   \<or> GreaterEqZC rt (timeValue0 s) (9 / 10) (storedRelation s 3) then 1 else - 1,
           3 := if GreaterEqZC rt (timeValue0 s) (95 / 100) (storedRelation s 4)
                   \<and> LessEqZC rt (timeValue0 s) (96 / 100) (storedRelation s 5) then 1 else - 1,
           4 := if GreaterEqZC rt (timeValue0 s) (realPre s 56) (storedRelation s 6) then 1 else - 1),
      callStatistics_upd (\<lambda>c. c\<lparr>functionZeroCrossings := functionZeroCrossings c + 1\<rparr>) s)"
  by (simp add: oc_latch_function_ZeroCrossings_def Let_def)

lemma relation_holds_eq:
  "relation_holds rt s 0 = GreaterEqZC rt (realVar s 36) (realParam s 32) (storedRelation s 0)"
  "relation_holds rt s (Suc 0) = GreaterEqZC rt (realVar s 38) (realParam s 33) (storedRelation s 1)"
  "relation_holds rt s 2 = LessEqZC rt (timeValue0 s) (1 / 10) (storedRelation s 2)"
  "relation_holds rt s 3 = GreaterEqZC rt (timeValue0 s) (9 / 10) (storedRelation s 3)"
  "relation_holds rt s 4 = GreaterEqZC rt (timeValue0 s) (95 / 100) (storedRelation s 4)"
  "relation_holds rt s 5 = LessEqZC rt (timeValue0 s) (96 / 100) (storedRelation s 5)"
  "relation_holds rt s 6 = GreaterEqZC rt (timeValue0 s) (realPre s 56) (storedRelation s 6)"
  by (simp_all add: relation_holds_def oc_latch_function_updateRelations_def Let_def)

text \<open>
  C9 (as amended).  A call of \<^verbatim>\<open>oc_latch_function_ZeroCrossings\<close> returns 0, counts the
  call, and writes exactly the five entries 0..4 of \<^verbatim>\<open>gout\<close>, each +1 or -1.  Entry i is
  +1 exactly when the i-th zero-crossing condition holds; the five conditions are built
  from the seven registered relations: relation 0, relation 1, relation 2 or relation 3,
  relation 4 and relation 5, relation 6.
\<close>

theorem zero_crossing_indicators:
  "(case oc_latch_function_ZeroCrossings rt s gout of (r, g, t) \<Rightarrow>
      r = 0
      \<and> t = callStatistics_upd (\<lambda>c. c\<lparr>functionZeroCrossings := functionZeroCrossings c + 1\<rparr>) s
      \<and> (\<forall>i. 5 \<le> i \<longrightarrow> g i = gout i)
      \<and> (\<forall>i. i < 5 \<longrightarrow> g i = 1 \<or> g i = - 1)
      \<and> (g 0 = 1 \<longleftrightarrow> relation_holds rt s 0)
      \<and> (g 1 = 1 \<longleftrightarrow> relation_holds rt s 1)
      \<and> (g 2 = 1 \<longleftrightarrow> relation_holds rt s 2 \<or> relation_holds rt s 3)
      \<and> (g 3 = 1 \<longleftrightarrow> relation_holds rt s 4 \<and> relation_holds rt s 5)
      \<and> (g 4 = 1 \<longleftrightarrow> relation_holds rt s 6))"
  by (auto simp add: ZeroCrossings_eq relation_holds_eq)

lemma example_ZC [simp]:
  "GreaterEqZC example_runtime a b False = (a - b \<ge> 1 / 10 ^ 10)"
  "LessEqZC example_runtime a b False = (a - b \<le> - (1 / 10 ^ 10))"
  by (simp_all add: example_runtime_def GreaterEqZC_band_def LessEqZC_band_def)

theorem zero_crossing_indicators_witness:
  "(case oc_latch_function_ZeroCrossings example_runtime (example_state_at 1) (\<lambda>i. 7) of
      (r, g, t) \<Rightarrow>
        r = 0 \<and> g 0 = - 1 \<and> g 1 = - 1 \<and> g 2 = 1 \<and> g 3 = - 1 \<and> g 4 = 1 \<and> g 5 = 7 \<and> g 6 = 7
        \<and> functionZeroCrossings (callStatistics (info t)) = 1)"
  using zero_crossing_indicators
      [where rt = example_runtime and s = "example_state_at 1" and gout = "\<lambda>i. 7"]
  by (simp add: ZeroCrossings_eq example_info_def)

text \<open>
  The claim as first stated reads entry i against the i-th registered relation.  At
  simulated time 1 the relation registered under index 2, \<^verbatim>\<open>time <= 0.1\<close>, is false,
  and entry 2 is +1, because it stands for \<^verbatim>\<open>time <= 0.1 or time >= 0.9\<close>.
\<close>

theorem zero_crossing_indicator_2_counterexample:
  "fst (snd (oc_latch_function_ZeroCrossings example_runtime (example_state_at 1) (\<lambda>i. 0))) 2 = 1
   \<and> \<not> relation_holds example_runtime (example_state_at 1) 2"
  by (simp add: ZeroCrossings_eq relation_holds_eq)

section \<open>Assertions\<close>

lemma oc_latch_eqFunction_134_shape:
  "\<exists>finfo c msg. oc_latch_eqFunction_134 rt s
     = throwing_assertion 134 (1 / 10 ^ 15 \<le> 1 + realParam s 4 * (realParam s 1 - realParam s 3)) finfo c msg rt s"
  unfolding oc_latch_eqFunction_134_def throwing_assertion_def Let_def
  by (intro exI) (rule refl)

lemma oc_latch_eqFunction_135_shape:
  "\<exists>finfo c msg. oc_latch_eqFunction_135 rt s
     = throwing_assertion 135 (1 / 10 ^ 15 \<le> 1 + realParam s 10 * (realParam s 7 - realParam s 9)) finfo c msg rt s"
  unfolding oc_latch_eqFunction_135_def throwing_assertion_def Let_def
  by (intro exI) (rule refl)

lemma oc_latch_eqFunction_136_shape:
  "\<exists>finfo c msg. oc_latch_eqFunction_136 rt s
     = throwing_assertion 136 (1 / 10 ^ 15 \<le> 1 + realParam s 42 * (realParam s 39 - realParam s 41)) finfo c msg rt s"
  unfolding oc_latch_eqFunction_136_def throwing_assertion_def Let_def
  by (intro exI) (rule refl)

lemma oc_latch_eqFunction_137_shape:
  "\<exists>finfo c msg. oc_latch_eqFunction_137 rt s
     = throwing_assertion 137 (1 / 10 ^ 15 \<le> 1 + realParam s 48 * (realParam s 45 - realParam s 47)) finfo c msg rt s"
  unfolding oc_latch_eqFunction_137_def throwing_assertion_def Let_def
  by (intro exI) (rule refl)

lemma oc_latch_eqFunction_138_shape:
  "\<exists>finfo c msg. oc_latch_eqFunction_138 rt s
     = throwing_assertion 138 (1 / 10 ^ 15 \<le> 1 + realParam s 54 * (realParam s 51 - realParam s 53)) finfo c msg rt s"
  unfolding oc_latch_eqFunction_138_def throwing_assertion_def Let_def
  by (intro exI) (rule refl)

lemma oc_latch_eqFunction_139_shape:
  "\<exists>finfo c msg. oc_latch_eqFunction_139 rt s
     = throwing_assertion 139 (1 / 10 ^ 15 \<le> 1 + realParam s 60 * (realParam s 57 - realParam s 59)) finfo c msg rt s"
  unfolding oc_latch_eqFunction_139_def throwing_assertion_def Let_def
  by (intro exI) (rule refl)


lemma warning_violated_reads [simp]:
  "data (warning_violated rt finfo ix c msg s) = data s"
  "warned (warning_violated rt finfo ix c msg s) = warned s"
  "threadData (warning_violated rt finfo ix c msg s) = threadData s"
  "length (messages (warning_violated rt finfo ix c msg s)) = length (messages s) + 2"
  by (simp_all add: warning_violated_def put_def)

lemma data_warned_upd [simp]: "data (warned_upd n b s) = data s"
  by (simp add: warned_upd_def)

lemma assertion_violated_noThrow:
  "noThrowAsserts (info s) \<Longrightarrow>
   \<exists>t. assertion_violated rt finfo ix c msg s = Normal () t
       \<and> length (messages t) = length (messages s) + 2
       \<and> needToReThrow (info t) \<and> noThrowAsserts (info t)
       \<and> realParam t = realParam s
       \<and> data t = data (needToReThrow_upd True s)
       \<and> threadData t = threadData s"
  by (auto simp add: assertion_violated_def put_def needToReThrow_upd_def info_upd_def info_def
      realParam_def)

lemma assertion_violated_throw:
  "\<not> noThrowAsserts (info s) \<Longrightarrow>
   \<exists>t. assertion_violated rt finfo ix c msg s = Abort (AssertWithEquationIndexes finfo ix msg) t
       \<and> length (messages t) = length (messages s) + 1
       \<and> data t = data s"
  by (simp add: assertion_violated_def put_def)

subsection \<open>The assertions and their conditions\<close>

lemma assertion_condition_simps:
  "assertion_condition 83 s = (1 + realParam s 4 * (realParam s 1 - realParam s 3) \<ge> 1 / 10 ^ 15)"
  "assertion_condition 84 s = (1 + realParam s 10 * (realParam s 7 - realParam s 9) \<ge> 1 / 10 ^ 15)"
  "assertion_condition 85 s = (1 + realParam s 42 * (realParam s 39 - realParam s 41) \<ge> 1 / 10 ^ 15)"
  "assertion_condition 86 s = (1 + realParam s 48 * (realParam s 45 - realParam s 47) \<ge> 1 / 10 ^ 15)"
  "assertion_condition 87 s = (1 + realParam s 54 * (realParam s 51 - realParam s 53) \<ge> 1 / 10 ^ 15)"
  "assertion_condition 88 s = (1 + realParam s 60 * (realParam s 57 - realParam s 59) \<ge> 1 / 10 ^ 15)"
  "assertion_condition 134 s = (1 + realParam s 4 * (realParam s 1 - realParam s 3) \<ge> 1 / 10 ^ 15)"
  "assertion_condition 135 s = (1 + realParam s 10 * (realParam s 7 - realParam s 9) \<ge> 1 / 10 ^ 15)"
  "assertion_condition 136 s = (1 + realParam s 42 * (realParam s 39 - realParam s 41) \<ge> 1 / 10 ^ 15)"
  "assertion_condition 137 s = (1 + realParam s 48 * (realParam s 45 - realParam s 47) \<ge> 1 / 10 ^ 15)"
  "assertion_condition 138 s = (1 + realParam s 54 * (realParam s 51 - realParam s 53) \<ge> 1 / 10 ^ 15)"
  "assertion_condition 139 s = (1 + realParam s 60 * (realParam s 57 - realParam s 59) \<ge> 1 / 10 ^ 15)"
  "assertion_condition 216 s = (realParam s 3 \<ge> 0)"
  "assertion_condition 217 s = (realParam s 1 \<ge> 0)"
  "assertion_condition 218 s = (realParam s 2 \<ge> 0)"
  "assertion_condition 219 s = (realParam s 9 \<ge> 0)"
  "assertion_condition 220 s = (realParam s 7 \<ge> 0)"
  "assertion_condition 221 s = (realParam s 8 \<ge> 0)"
  "assertion_condition 222 s = (realParam s 41 \<ge> 0)"
  "assertion_condition 223 s = (realParam s 39 \<ge> 0)"
  "assertion_condition 224 s = (realParam s 40 \<ge> 0)"
  "assertion_condition 225 s = (realParam s 47 \<ge> 0)"
  "assertion_condition 226 s = (realParam s 45 \<ge> 0)"
  "assertion_condition 227 s = (realParam s 46 \<ge> 0)"
  "assertion_condition 228 s = (realParam s 53 \<ge> 0)"
  "assertion_condition 229 s = (realParam s 51 \<ge> 0)"
  "assertion_condition 230 s = (realParam s 52 \<ge> 0)"
  "assertion_condition 231 s = (realParam s 59 \<ge> 0)"
  "assertion_condition 232 s = (realParam s 57 \<ge> 0)"
  "assertion_condition 233 s = (realParam s 58 \<ge> 0)"
  "assertion_condition 234 s = (integerParam s 4 \<ge> 1 \<and> integerParam s 4 \<le> 3)"
  "assertion_condition 235 s = (realParam s 28 \<ge> 1 / 10 ^ 15)"
  "assertion_condition 236 s = (integerParam s 1 \<ge> 1 \<and> integerParam s 1 \<le> 4)"
  "assertion_condition 237 s = (integerParam s 3 \<ge> 1 \<and> integerParam s 3 \<le> 6)"
  "assertion_condition 238 s = (integerParam s 2 \<ge> 1)"
  "assertion_condition 239 s = (realParam s 11 \<ge> 0)"
  by (simp_all add: assertion_condition_def assertion_conditions_def)

lemma oc_latch_eqFunction_83_condition:
  "\<exists>finfo c msg. oc_latch_eqFunction_83 rt s
     = throwing_assertion 83 (assertion_condition 83 s) finfo c msg rt s"
  unfolding assertion_condition_simps oc_latch_eqFunction_83_def throwing_assertion_def Let_def
  by (intro exI) (rule refl)

lemma oc_latch_eqFunction_84_condition:
  "\<exists>finfo c msg. oc_latch_eqFunction_84 rt s
     = throwing_assertion 84 (assertion_condition 84 s) finfo c msg rt s"
  unfolding assertion_condition_simps oc_latch_eqFunction_84_def throwing_assertion_def Let_def
  by (intro exI) (rule refl)

lemma oc_latch_eqFunction_85_condition:
  "\<exists>finfo c msg. oc_latch_eqFunction_85 rt s
     = throwing_assertion 85 (assertion_condition 85 s) finfo c msg rt s"
  unfolding assertion_condition_simps oc_latch_eqFunction_85_def throwing_assertion_def Let_def
  by (intro exI) (rule refl)

lemma oc_latch_eqFunction_86_condition:
  "\<exists>finfo c msg. oc_latch_eqFunction_86 rt s
     = throwing_assertion 86 (assertion_condition 86 s) finfo c msg rt s"
  unfolding assertion_condition_simps oc_latch_eqFunction_86_def throwing_assertion_def Let_def
  by (intro exI) (rule refl)

lemma oc_latch_eqFunction_87_condition:
  "\<exists>finfo c msg. oc_latch_eqFunction_87 rt s
     = throwing_assertion 87 (assertion_condition 87 s) finfo c msg rt s"
  unfolding assertion_condition_simps oc_latch_eqFunction_87_def throwing_assertion_def Let_def
  by (intro exI) (rule refl)

lemma oc_latch_eqFunction_88_condition:
  "\<exists>finfo c msg. oc_latch_eqFunction_88 rt s
     = throwing_assertion 88 (assertion_condition 88 s) finfo c msg rt s"
  unfolding assertion_condition_simps oc_latch_eqFunction_88_def throwing_assertion_def Let_def
  by (intro exI) (rule refl)

lemma oc_latch_eqFunction_134_condition:
  "\<exists>finfo c msg. oc_latch_eqFunction_134 rt s
     = throwing_assertion 134 (assertion_condition 134 s) finfo c msg rt s"
  unfolding assertion_condition_simps oc_latch_eqFunction_134_def throwing_assertion_def Let_def
  by (intro exI) (rule refl)

lemma oc_latch_eqFunction_135_condition:
  "\<exists>finfo c msg. oc_latch_eqFunction_135 rt s
     = throwing_assertion 135 (assertion_condition 135 s) finfo c msg rt s"
  unfolding assertion_condition_simps oc_latch_eqFunction_135_def throwing_assertion_def Let_def
  by (intro exI) (rule refl)

lemma oc_latch_eqFunction_136_condition:
  "\<exists>finfo c msg. oc_latch_eqFunction_136 rt s
     = throwing_assertion 136 (assertion_condition 136 s) finfo c msg rt s"
  unfolding assertion_condition_simps oc_latch_eqFunction_136_def throwing_assertion_def Let_def
  by (intro exI) (rule refl)

lemma oc_latch_eqFunction_137_condition:
  "\<exists>finfo c msg. oc_latch_eqFunction_137 rt s
     = throwing_assertion 137 (assertion_condition 137 s) finfo c msg rt s"
  unfolding assertion_condition_simps oc_latch_eqFunction_137_def throwing_assertion_def Let_def
  by (intro exI) (rule refl)

lemma oc_latch_eqFunction_138_condition:
  "\<exists>finfo c msg. oc_latch_eqFunction_138 rt s
     = throwing_assertion 138 (assertion_condition 138 s) finfo c msg rt s"
  unfolding assertion_condition_simps oc_latch_eqFunction_138_def throwing_assertion_def Let_def
  by (intro exI) (rule refl)

lemma oc_latch_eqFunction_139_condition:
  "\<exists>finfo c msg. oc_latch_eqFunction_139 rt s
     = throwing_assertion 139 (assertion_condition 139 s) finfo c msg rt s"
  unfolding assertion_condition_simps oc_latch_eqFunction_139_def throwing_assertion_def Let_def
  by (intro exI) (rule refl)

lemma oc_latch_eqFunction_216_condition:
  "\<exists>finfo c msg. oc_latch_eqFunction_216 rt s
     = latched_warning 216 (assertion_condition 216 s) finfo c msg rt s"
  unfolding assertion_condition_simps oc_latch_eqFunction_216_def latched_warning_def Let_def
  by (intro exI) (rule refl)

lemma oc_latch_eqFunction_217_condition:
  "\<exists>finfo c msg. oc_latch_eqFunction_217 rt s
     = latched_warning 217 (assertion_condition 217 s) finfo c msg rt s"
  unfolding assertion_condition_simps oc_latch_eqFunction_217_def latched_warning_def Let_def
  by (intro exI) (rule refl)

lemma oc_latch_eqFunction_218_condition:
  "\<exists>finfo c msg. oc_latch_eqFunction_218 rt s
     = latched_warning 218 (assertion_condition 218 s) finfo c msg rt s"
  unfolding assertion_condition_simps oc_latch_eqFunction_218_def latched_warning_def Let_def
  by (intro exI) (rule refl)

lemma oc_latch_eqFunction_219_condition:
  "\<exists>finfo c msg. oc_latch_eqFunction_219 rt s
     = latched_warning 219 (assertion_condition 219 s) finfo c msg rt s"
  unfolding assertion_condition_simps oc_latch_eqFunction_219_def latched_warning_def Let_def
  by (intro exI) (rule refl)

lemma oc_latch_eqFunction_220_condition:
  "\<exists>finfo c msg. oc_latch_eqFunction_220 rt s
     = latched_warning 220 (assertion_condition 220 s) finfo c msg rt s"
  unfolding assertion_condition_simps oc_latch_eqFunction_220_def latched_warning_def Let_def
  by (intro exI) (rule refl)

lemma oc_latch_eqFunction_221_condition:
  "\<exists>finfo c msg. oc_latch_eqFunction_221 rt s
     = latched_warning 221 (assertion_condition 221 s) finfo c msg rt s"
  unfolding assertion_condition_simps oc_latch_eqFunction_221_def latched_warning_def Let_def
  by (intro exI) (rule refl)

lemma oc_latch_eqFunction_222_condition:
  "\<exists>finfo c msg. oc_latch_eqFunction_222 rt s
     = latched_warning 222 (assertion_condition 222 s) finfo c msg rt s"
  unfolding assertion_condition_simps oc_latch_eqFunction_222_def latched_warning_def Let_def
  by (intro exI) (rule refl)

lemma oc_latch_eqFunction_223_condition:
  "\<exists>finfo c msg. oc_latch_eqFunction_223 rt s
     = latched_warning 223 (assertion_condition 223 s) finfo c msg rt s"
  unfolding assertion_condition_simps oc_latch_eqFunction_223_def latched_warning_def Let_def
  by (intro exI) (rule refl)

lemma oc_latch_eqFunction_224_condition:
  "\<exists>finfo c msg. oc_latch_eqFunction_224 rt s
     = latched_warning 224 (assertion_condition 224 s) finfo c msg rt s"
  unfolding assertion_condition_simps oc_latch_eqFunction_224_def latched_warning_def Let_def
  by (intro exI) (rule refl)

lemma oc_latch_eqFunction_225_condition:
  "\<exists>finfo c msg. oc_latch_eqFunction_225 rt s
     = latched_warning 225 (assertion_condition 225 s) finfo c msg rt s"
  unfolding assertion_condition_simps oc_latch_eqFunction_225_def latched_warning_def Let_def
  by (intro exI) (rule refl)

lemma oc_latch_eqFunction_226_condition:
  "\<exists>finfo c msg. oc_latch_eqFunction_226 rt s
     = latched_warning 226 (assertion_condition 226 s) finfo c msg rt s"
  unfolding assertion_condition_simps oc_latch_eqFunction_226_def latched_warning_def Let_def
  by (intro exI) (rule refl)

lemma oc_latch_eqFunction_227_condition:
  "\<exists>finfo c msg. oc_latch_eqFunction_227 rt s
     = latched_warning 227 (assertion_condition 227 s) finfo c msg rt s"
  unfolding assertion_condition_simps oc_latch_eqFunction_227_def latched_warning_def Let_def
  by (intro exI) (rule refl)

lemma oc_latch_eqFunction_228_condition:
  "\<exists>finfo c msg. oc_latch_eqFunction_228 rt s
     = latched_warning 228 (assertion_condition 228 s) finfo c msg rt s"
  unfolding assertion_condition_simps oc_latch_eqFunction_228_def latched_warning_def Let_def
  by (intro exI) (rule refl)

lemma oc_latch_eqFunction_229_condition:
  "\<exists>finfo c msg. oc_latch_eqFunction_229 rt s
     = latched_warning 229 (assertion_condition 229 s) finfo c msg rt s"
  unfolding assertion_condition_simps oc_latch_eqFunction_229_def latched_warning_def Let_def
  by (intro exI) (rule refl)

lemma oc_latch_eqFunction_230_condition:
  "\<exists>finfo c msg. oc_latch_eqFunction_230 rt s
     = latched_warning 230 (assertion_condition 230 s) finfo c msg rt s"
  unfolding assertion_condition_simps oc_latch_eqFunction_230_def latched_warning_def Let_def
  by (intro exI) (rule refl)

lemma oc_latch_eqFunction_231_condition:
  "\<exists>finfo c msg. oc_latch_eqFunction_231 rt s
     = latched_warning 231 (assertion_condition 231 s) finfo c msg rt s"
  unfolding assertion_condition_simps oc_latch_eqFunction_231_def latched_warning_def Let_def
  by (intro exI) (rule refl)

lemma oc_latch_eqFunction_232_condition:
  "\<exists>finfo c msg. oc_latch_eqFunction_232 rt s
     = latched_warning 232 (assertion_condition 232 s) finfo c msg rt s"
  unfolding assertion_condition_simps oc_latch_eqFunction_232_def latched_warning_def Let_def
  by (intro exI) (rule refl)

lemma oc_latch_eqFunction_233_condition:
  "\<exists>finfo c msg. oc_latch_eqFunction_233 rt s
     = latched_warning 233 (assertion_condition 233 s) finfo c msg rt s"
  unfolding assertion_condition_simps oc_latch_eqFunction_233_def latched_warning_def Let_def
  by (intro exI) (rule refl)

lemma oc_latch_eqFunction_234_condition:
  "\<exists>finfo c msg. oc_latch_eqFunction_234 rt s
     = latched_warning 234 (assertion_condition 234 s) finfo c msg rt s"
  unfolding assertion_condition_simps oc_latch_eqFunction_234_def latched_warning_def Let_def
  by (intro exI) (rule refl)

lemma oc_latch_eqFunction_235_condition:
  "\<exists>finfo c msg. oc_latch_eqFunction_235 rt s
     = latched_warning 235 (assertion_condition 235 s) finfo c msg rt s"
  unfolding assertion_condition_simps oc_latch_eqFunction_235_def latched_warning_def Let_def
  by (intro exI) (rule refl)

lemma oc_latch_eqFunction_236_condition:
  "\<exists>finfo c msg. oc_latch_eqFunction_236 rt s
     = latched_warning 236 (assertion_condition 236 s) finfo c msg rt s"
  unfolding assertion_condition_simps oc_latch_eqFunction_236_def latched_warning_def Let_def
  by (intro exI) (rule refl)

lemma oc_latch_eqFunction_237_condition:
  "\<exists>finfo c msg. oc_latch_eqFunction_237 rt s
     = latched_warning 237 (assertion_condition 237 s) finfo c msg rt s"
  unfolding assertion_condition_simps oc_latch_eqFunction_237_def latched_warning_def Let_def
  by (intro exI) (rule refl)

lemma oc_latch_eqFunction_238_condition:
  "\<exists>finfo c msg. oc_latch_eqFunction_238 rt s
     = latched_warning 238 (assertion_condition 238 s) finfo c msg rt s"
  unfolding assertion_condition_simps oc_latch_eqFunction_238_def latched_warning_def Let_def
  by (intro exI) (rule refl)

lemma oc_latch_eqFunction_239_condition:
  "\<exists>finfo c msg. oc_latch_eqFunction_239 rt s
     = latched_warning 239 (assertion_condition 239 s) finfo c msg rt s"
  unfolding assertion_condition_simps oc_latch_eqFunction_239_def latched_warning_def Let_def
  by (intro exI) (rule refl)

lemma bound_parameter_assertions_condition:
  "\<forall>(n, f) \<in> set bound_parameter_assertions.
     \<forall>rt s. \<exists>finfo c msg. f rt s = latched_warning n (assertion_condition n s) finfo c msg rt s"
  unfolding bound_parameter_assertions_def
  by (simp add:
      oc_latch_eqFunction_216_condition oc_latch_eqFunction_217_condition
      oc_latch_eqFunction_218_condition oc_latch_eqFunction_219_condition
      oc_latch_eqFunction_220_condition oc_latch_eqFunction_221_condition
      oc_latch_eqFunction_222_condition oc_latch_eqFunction_223_condition
      oc_latch_eqFunction_224_condition oc_latch_eqFunction_225_condition
      oc_latch_eqFunction_226_condition oc_latch_eqFunction_227_condition
      oc_latch_eqFunction_228_condition oc_latch_eqFunction_229_condition
      oc_latch_eqFunction_230_condition oc_latch_eqFunction_231_condition
      oc_latch_eqFunction_232_condition oc_latch_eqFunction_233_condition
      oc_latch_eqFunction_234_condition oc_latch_eqFunction_235_condition
      oc_latch_eqFunction_236_condition oc_latch_eqFunction_237_condition
      oc_latch_eqFunction_238_condition oc_latch_eqFunction_239_condition)

lemma throwing_assertions_condition:
  "\<forall>(n, f) \<in> set (initial_assertions @ algebraic_assertions).
     \<forall>rt s. \<exists>finfo c msg. f rt s = throwing_assertion n (assertion_condition n s) finfo c msg rt s"
  unfolding initial_assertions_def algebraic_assertions_def
  by (simp add:
      oc_latch_eqFunction_83_condition oc_latch_eqFunction_84_condition
      oc_latch_eqFunction_85_condition oc_latch_eqFunction_86_condition
      oc_latch_eqFunction_87_condition oc_latch_eqFunction_88_condition
      oc_latch_eqFunction_134_condition oc_latch_eqFunction_135_condition
      oc_latch_eqFunction_136_condition oc_latch_eqFunction_137_condition
      oc_latch_eqFunction_138_condition oc_latch_eqFunction_139_condition)

lemma assertion_condition_needToReThrow:
  assumes "data t = data (needToReThrow_upd True s)"
  shows "assertion_condition n t = assertion_condition n s"
proof -
  have "realParam t j = realParam (needToReThrow_upd True s) j" for j
    unfolding realParam_def assms ..
  then have r: "realParam t = realParam s" by (simp add: fun_eq_iff)
  have "integerParam t j = integerParam (needToReThrow_upd True s) j" for j
    unfolding integerParam_def assms ..
  then have i: "integerParam t = integerParam s" by (simp add: fun_eq_iff)
  show ?thesis by (simp add: assertion_condition_def assertion_conditions_def r i)
qed

lemma latched_warning_cases:
  assumes shape: "\<And>rt s. \<exists>finfo c msg. f rt s = latched_warning n (holds s) finfo c msg rt s"
  shows "(warned s n \<or> holds s \<longrightarrow> f rt s = s)
     \<and> (\<not> warned s n \<and> \<not> holds s \<longrightarrow>
          warned (f rt s) n \<and> length (messages (f rt s)) = length (messages s) + 2
          \<and> f rt (f rt s) = f rt s)
     \<and> data (f rt s) = data s \<and> threadData (f rt s) = threadData s"
proof -
  obtain finfo c msg where 1: "f rt s = latched_warning n (holds s) finfo c msg rt s"
    using shape by blast
  have latched: "f rt u = u" if "warned u n" for u
  proof -
    obtain fi c' m where "f rt u = latched_warning n (holds u) fi c' m rt u" using shape by blast
    with that show ?thesis by (simp add: latched_warning_def)
  qed
  have a: "f rt s = s" if "warned s n \<or> holds s"
    using that 1 by (auto simp add: latched_warning_def)
  have b: "warned (f rt s) n \<and> length (messages (f rt s)) = length (messages s) + 2"
    if "\<not> warned s n" "\<not> holds s"
    using that 1 by (simp add: latched_warning_def)
  have c: "f rt (f rt s) = f rt s" if "\<not> warned s n" "\<not> holds s"
    using b [OF that] by (intro latched) simp
  have d: "data (f rt s) = data s \<and> threadData (f rt s) = threadData s"
    using 1 by (simp add: latched_warning_def)
  from a b c d show ?thesis by blast
qed

lemma throwing_assertion_cases:
  assumes shape: "\<And>rt s. \<exists>finfo c msg. f rt s = throwing_assertion n (holds s) finfo c msg rt s"
    and inv: "\<And>s t. data t = data (needToReThrow_upd True s) \<Longrightarrow> holds t = holds s"
  shows "(holds s \<longrightarrow> f rt s = Normal () s)
     \<and> (\<not> holds s \<and> noThrowAsserts (info s) \<longrightarrow>
          (\<exists>t. f rt s = Normal () t \<and> length (messages t) = length (messages s) + 2
               \<and> needToReThrow (info t) \<and> data t = data (needToReThrow_upd True s)
               \<and> (\<exists>u. f rt t = Normal () u \<and> length (messages u) = length (messages t) + 2
                      \<and> needToReThrow (info u))))
     \<and> (\<not> holds s \<and> \<not> noThrowAsserts (info s) \<longrightarrow>
          (\<exists>finfo msg t. f rt s = Abort (AssertWithEquationIndexes finfo [1, n] msg) t
               \<and> length (messages t) = length (messages s) + 1 \<and> data t = data s))"
proof -
  have logs: "\<exists>t. f rt s = Normal () t \<and> length (messages t) = length (messages s) + 2
               \<and> needToReThrow (info t) \<and> noThrowAsserts (info t)
               \<and> data t = data (needToReThrow_upd True s)"
    if "\<not> holds s" "noThrowAsserts (info s)" for s
  proof -
    obtain finfo c msg where "f rt s = throwing_assertion n (holds s) finfo c msg rt s"
      using shape by blast
    with that(1) have "f rt s = assertion_violated rt finfo [1, n] c msg s"
      by (simp add: throwing_assertion_def)
    with assertion_violated_noThrow [OF that(2), of rt finfo "[1, n]" c msg]
    show ?thesis by auto
  qed
  have a: "f rt s = Normal () s" if "holds s"
  proof -
    obtain finfo c msg where "f rt s = throwing_assertion n (holds s) finfo c msg rt s"
      using shape by blast
    with that show ?thesis by (simp add: throwing_assertion_def)
  qed
  have b: "\<exists>t. f rt s = Normal () t \<and> length (messages t) = length (messages s) + 2
               \<and> needToReThrow (info t) \<and> data t = data (needToReThrow_upd True s)
               \<and> (\<exists>u. f rt t = Normal () u \<and> length (messages u) = length (messages t) + 2
                      \<and> needToReThrow (info u))"
    if v: "\<not> holds s" and n: "noThrowAsserts (info s)"
  proof -
    from logs [OF v n] obtain t where t: "f rt s = Normal () t"
      "length (messages t) = length (messages s) + 2" "needToReThrow (info t)"
      "noThrowAsserts (info t)" "data t = data (needToReThrow_upd True s)"
      by blast
    from inv [OF t(5)] v have "\<not> holds t" by simp
    from logs [OF this t(4)] obtain u where "f rt t = Normal () u"
      "length (messages u) = length (messages t) + 2" "needToReThrow (info u)"
      by blast
    with t show ?thesis by blast
  qed
  have c: "\<exists>finfo msg t. f rt s = Abort (AssertWithEquationIndexes finfo [1, n] msg) t
               \<and> length (messages t) = length (messages s) + 1 \<and> data t = data s"
    if v: "\<not> holds s" and n: "\<not> noThrowAsserts (info s)"
  proof -
    obtain finfo c msg where "f rt s = throwing_assertion n (holds s) finfo c msg rt s"
      using shape by blast
    with v have "f rt s = assertion_violated rt finfo [1, n] c msg s"
      by (simp add: throwing_assertion_def)
    with assertion_violated_throw [OF n, of rt finfo "[1, n]" c msg]
    show ?thesis by auto
  qed
  from a b c show ?thesis by blast
qed

lemma bound_parameter_assertions_cases:
  "\<forall>(n, f) \<in> set bound_parameter_assertions.
       (warned s n \<or> assertion_condition n s \<longrightarrow> f rt s = s)
     \<and> (\<not> warned s n \<and> \<not> assertion_condition n s \<longrightarrow>
          warned (f rt s) n \<and> length (messages (f rt s)) = length (messages s) + 2
          \<and> f rt (f rt s) = f rt s)
     \<and> data (f rt s) = data s \<and> threadData (f rt s) = threadData s"
proof (rule ballI)
  fix x assume x: "x \<in> set bound_parameter_assertions"
  obtain n f where nf: "x = (n, f)" by (cases x)
  have sh: "\<And>rt s. \<exists>finfo c msg. f rt s = latched_warning n (assertion_condition n s) finfo c msg rt s"
    using bspec [OF bound_parameter_assertions_condition x] unfolding nf by simp
  have "(warned s n \<or> assertion_condition n s \<longrightarrow> f rt s = s)
     \<and> (\<not> warned s n \<and> \<not> assertion_condition n s \<longrightarrow>
          warned (f rt s) n \<and> length (messages (f rt s)) = length (messages s) + 2
          \<and> f rt (f rt s) = f rt s)
     \<and> data (f rt s) = data s \<and> threadData (f rt s) = threadData s"
    by (rule latched_warning_cases [OF sh])
  then show "case x of (n, f) \<Rightarrow>
       (warned s n \<or> assertion_condition n s \<longrightarrow> f rt s = s)
     \<and> (\<not> warned s n \<and> \<not> assertion_condition n s \<longrightarrow>
          warned (f rt s) n \<and> length (messages (f rt s)) = length (messages s) + 2
          \<and> f rt (f rt s) = f rt s)
     \<and> data (f rt s) = data s \<and> threadData (f rt s) = threadData s"
    unfolding nf prod.case .
qed

lemma throwing_assertions_cases:
  "\<forall>(n, f) \<in> set (initial_assertions @ algebraic_assertions).
       (assertion_condition n s \<longrightarrow> f rt s = Normal () s)
     \<and> (\<not> assertion_condition n s \<and> noThrowAsserts (info s) \<longrightarrow>
          (\<exists>t. f rt s = Normal () t \<and> length (messages t) = length (messages s) + 2
               \<and> needToReThrow (info t) \<and> data t = data (needToReThrow_upd True s)
               \<and> (\<exists>u. f rt t = Normal () u \<and> length (messages u) = length (messages t) + 2
                      \<and> needToReThrow (info u))))
     \<and> (\<not> assertion_condition n s \<and> \<not> noThrowAsserts (info s) \<longrightarrow>
          (\<exists>finfo msg t. f rt s = Abort (AssertWithEquationIndexes finfo [1, n] msg) t
               \<and> length (messages t) = length (messages s) + 1 \<and> data t = data s))"
proof (rule ballI)
  fix x assume x: "x \<in> set (initial_assertions @ algebraic_assertions)"
  obtain n f where nf: "x = (n, f)" by (cases x)
  have sh: "\<And>rt s. \<exists>finfo c msg. f rt s = throwing_assertion n (assertion_condition n s) finfo c msg rt s"
    using bspec [OF throwing_assertions_condition x] unfolding nf by simp
  have "(assertion_condition n s \<longrightarrow> f rt s = Normal () s)
     \<and> (\<not> assertion_condition n s \<and> noThrowAsserts (info s) \<longrightarrow>
          (\<exists>t. f rt s = Normal () t \<and> length (messages t) = length (messages s) + 2
               \<and> needToReThrow (info t) \<and> data t = data (needToReThrow_upd True s)
               \<and> (\<exists>u. f rt t = Normal () u \<and> length (messages u) = length (messages t) + 2
                      \<and> needToReThrow (info u))))
     \<and> (\<not> assertion_condition n s \<and> \<not> noThrowAsserts (info s) \<longrightarrow>
          (\<exists>finfo msg t. f rt s = Abort (AssertWithEquationIndexes finfo [1, n] msg) t
               \<and> length (messages t) = length (messages s) + 1 \<and> data t = data s))"
    by (rule throwing_assertion_cases [OF sh assertion_condition_needToReThrow])
  then show "case x of (n, f) \<Rightarrow>
       (assertion_condition n s \<longrightarrow> f rt s = Normal () s)
     \<and> (\<not> assertion_condition n s \<and> noThrowAsserts (info s) \<longrightarrow>
          (\<exists>t. f rt s = Normal () t \<and> length (messages t) = length (messages s) + 2
               \<and> needToReThrow (info t) \<and> data t = data (needToReThrow_upd True s)
               \<and> (\<exists>u. f rt t = Normal () u \<and> length (messages u) = length (messages t) + 2
                      \<and> needToReThrow (info u))))
     \<and> (\<not> assertion_condition n s \<and> \<not> noThrowAsserts (info s) \<longrightarrow>
          (\<exists>finfo msg t. f rt s = Abort (AssertWithEquationIndexes finfo [1, n] msg) t
               \<and> length (messages t) = length (messages s) + 1 \<and> data t = data s))"
    unfolding nf prod.case .
qed

lemma out_of_scope_state_reads [simp]:
  "realParam out_of_scope_state j = ((\<lambda>i. 0)(29 := 1, 60 := 1, 59 := 2, 3 := - 1)) j"
  "noThrowAsserts (info out_of_scope_state) = False"
  "needToReThrow (info out_of_scope_state) = False"
  "messages out_of_scope_state = []"
  "warned out_of_scope_state = (\<lambda>i. False)"
  "timeValue0 out_of_scope_state = 0"
  by (simp_all add: out_of_scope_state_def example_info_def)

text \<open>
  C5 (as amended).  The assertions on parameter bounds (equations 216 to 239) are
  latched.  A call whose flag is set, or whose condition holds, does nothing.  A call
  whose flag is clear and whose condition is violated makes two log calls and sets the
  flag, leaving the store as it is, so that the next call does nothing: the violation
  is logged once and evaluation continues.  The temperature assertions (equations 83 to
  88 and 134 to 139) have no latch.  A call whose condition holds does nothing.  Under
  \<^verbatim>\<open>noThrowAsserts\<close> a call whose condition is violated makes two log calls, sets
  \<^verbatim>\<open>needToReThrow\<close> and returns, and the next call does the same again.
\<close>

theorem assertions_latched_and_unlatched:
  "(\<forall>(n, f) \<in> set bound_parameter_assertions.
       (warned s n \<or> assertion_condition n s \<longrightarrow> f rt s = s)
     \<and> (\<not> warned s n \<and> \<not> assertion_condition n s \<longrightarrow>
          warned (f rt s) n \<and> length (messages (f rt s)) = length (messages s) + 2
          \<and> data (f rt s) = data s
          \<and> f rt (f rt s) = f rt s))
   \<and> (\<forall>(n, f) \<in> set (initial_assertions @ algebraic_assertions).
       (assertion_condition n s \<longrightarrow> f rt s = Normal () s)
     \<and> (\<not> assertion_condition n s \<and> noThrowAsserts (info s) \<longrightarrow>
          (\<exists>t. f rt s = Normal () t \<and> length (messages t) = length (messages s) + 2
               \<and> needToReThrow (info t)
               \<and> (\<exists>u. f rt t = Normal () u \<and> length (messages u) = length (messages t) + 2
                      \<and> needToReThrow (info u)))))"
proof (intro conjI ballI)
  fix x assume x: "x \<in> set bound_parameter_assertions"
  obtain n f where nf: "x = (n, f)" by (cases x)
  have "(warned s n \<or> assertion_condition n s \<longrightarrow> f rt s = s)
     \<and> (\<not> warned s n \<and> \<not> assertion_condition n s \<longrightarrow>
          warned (f rt s) n \<and> length (messages (f rt s)) = length (messages s) + 2
          \<and> f rt (f rt s) = f rt s)
     \<and> data (f rt s) = data s \<and> threadData (f rt s) = threadData s"
    using bspec [OF bound_parameter_assertions_cases x] unfolding nf prod.case .
  then show "case x of (n, f) \<Rightarrow>
       (warned s n \<or> assertion_condition n s \<longrightarrow> f rt s = s)
     \<and> (\<not> warned s n \<and> \<not> assertion_condition n s \<longrightarrow>
          warned (f rt s) n \<and> length (messages (f rt s)) = length (messages s) + 2
          \<and> data (f rt s) = data s
          \<and> f rt (f rt s) = f rt s)"
    unfolding nf prod.case by blast
next
  fix x assume x: "x \<in> set (initial_assertions @ algebraic_assertions)"
  obtain n f where nf: "x = (n, f)" by (cases x)
  have "(assertion_condition n s \<longrightarrow> f rt s = Normal () s)
     \<and> (\<not> assertion_condition n s \<and> noThrowAsserts (info s) \<longrightarrow>
          (\<exists>t. f rt s = Normal () t \<and> length (messages t) = length (messages s) + 2
               \<and> needToReThrow (info t) \<and> data t = data (needToReThrow_upd True s)
               \<and> (\<exists>u. f rt t = Normal () u \<and> length (messages u) = length (messages t) + 2
                      \<and> needToReThrow (info u))))
     \<and> (\<not> assertion_condition n s \<and> \<not> noThrowAsserts (info s) \<longrightarrow>
          (\<exists>finfo msg t. f rt s = Abort (AssertWithEquationIndexes finfo [1, n] msg) t
               \<and> length (messages t) = length (messages s) + 1 \<and> data t = data s))"
    using bspec [OF throwing_assertions_cases x] unfolding nf prod.case .
  then show "case x of (n, f) \<Rightarrow>
       (assertion_condition n s \<longrightarrow> f rt s = Normal () s)
     \<and> (\<not> assertion_condition n s \<and> noThrowAsserts (info s) \<longrightarrow>
          (\<exists>t. f rt s = Normal () t \<and> length (messages t) = length (messages s) + 2
               \<and> needToReThrow (info t)
               \<and> (\<exists>u. f rt t = Normal () u \<and> length (messages u) = length (messages t) + 2
                      \<and> needToReThrow (info u))))"
    unfolding nf prod.case by blast
qed

lemma oc_latch_eqFunction_139_out_of_scope:
  "noThrowAsserts (info s) \<Longrightarrow> realParam s 60 = 1 \<Longrightarrow> realParam s 57 = 0 \<Longrightarrow> realParam s 59 = 2 \<Longrightarrow>
   messages (state_of (oc_latch_eqFunction_139 rt s)) \<noteq> messages s
   \<and> noThrowAsserts (info (state_of (oc_latch_eqFunction_139 rt s)))
   \<and> realParam (state_of (oc_latch_eqFunction_139 rt s)) = realParam s
   \<and> length (messages (state_of (oc_latch_eqFunction_139 rt s))) = length (messages s) + 2"
  by (simp add: oc_latch_eqFunction_139_def Let_def assertion_violated_def fun_eq_iff)

theorem assertions_latched_and_unlatched_witness:
  "\<not> warned out_of_scope_state 216 \<and> \<not> assertion_condition 216 out_of_scope_state
   \<and> warned (oc_latch_eqFunction_216 example_runtime out_of_scope_state) 216
   \<and> length (messages (oc_latch_eqFunction_216 example_runtime out_of_scope_state)) = 2
   \<and> oc_latch_eqFunction_216 example_runtime (oc_latch_eqFunction_216 example_runtime out_of_scope_state)
      = oc_latch_eqFunction_216 example_runtime out_of_scope_state
   \<and> assertion_condition 217 out_of_scope_state
   \<and> oc_latch_eqFunction_217 example_runtime out_of_scope_state = out_of_scope_state
   \<and> \<not> assertion_condition 139 (noThrowAsserts_upd True out_of_scope_state)
   \<and> noThrowAsserts (info (noThrowAsserts_upd True out_of_scope_state))
   \<and> (\<exists>t u. oc_latch_eqFunction_139 example_runtime (noThrowAsserts_upd True out_of_scope_state)
              = Normal () t
          \<and> length (messages t) = 2 \<and> needToReThrow (info t)
          \<and> oc_latch_eqFunction_139 example_runtime t = Normal () u \<and> length (messages u) = 4)
   \<and> assertion_condition 134 out_of_scope_state
   \<and> oc_latch_eqFunction_134 example_runtime out_of_scope_state = Normal () out_of_scope_state"
proof -
  let ?s = "noThrowAsserts_upd True out_of_scope_state"
  note main = assertions_latched_and_unlatched
  have m216: "(216, oc_latch_eqFunction_216) \<in> set bound_parameter_assertions"
    and m217: "(217, oc_latch_eqFunction_217) \<in> set bound_parameter_assertions"
    by (simp_all add: bound_parameter_assertions_def)
  have m139: "(139, oc_latch_eqFunction_139) \<in> set (initial_assertions @ algebraic_assertions)"
    and m134: "(134, oc_latch_eqFunction_134) \<in> set (initial_assertions @ algebraic_assertions)"
    by (simp_all add: algebraic_assertions_def)
  have c: "\<not> warned out_of_scope_state 216" "\<not> assertion_condition 216 out_of_scope_state"
    "assertion_condition 217 out_of_scope_state" "\<not> assertion_condition 139 ?s"
    "noThrowAsserts (info ?s)" "assertion_condition 134 out_of_scope_state"
    "length (messages out_of_scope_state) = 0" "length (messages ?s) = 0"
    by (simp_all add: assertion_condition_simps)
  have 1: "warned (oc_latch_eqFunction_216 example_runtime out_of_scope_state) 216
     \<and> length (messages (oc_latch_eqFunction_216 example_runtime out_of_scope_state)) = 2
     \<and> oc_latch_eqFunction_216 example_runtime
          (oc_latch_eqFunction_216 example_runtime out_of_scope_state)
        = oc_latch_eqFunction_216 example_runtime out_of_scope_state"
    using conjunct1 [OF main [where s = out_of_scope_state and rt = example_runtime],
        THEN bspec, OF m216] c(1,2,7)
    by simp
  have 2: "oc_latch_eqFunction_217 example_runtime out_of_scope_state = out_of_scope_state"
    using conjunct1 [OF main [where s = out_of_scope_state and rt = example_runtime],
        THEN bspec, OF m217] c(3)
    by simp
  have 3: "\<exists>t u. oc_latch_eqFunction_139 example_runtime ?s = Normal () t
          \<and> length (messages t) = 2 \<and> needToReThrow (info t)
          \<and> oc_latch_eqFunction_139 example_runtime t = Normal () u \<and> length (messages u) = 4"
    using conjunct2 [OF main [where s = ?s and rt = example_runtime], THEN bspec, OF m139]
      c(4,5,8)
    by auto
  have 4: "oc_latch_eqFunction_134 example_runtime out_of_scope_state = Normal () out_of_scope_state"
    using conjunct2 [OF main [where s = out_of_scope_state and rt = example_runtime],
        THEN bspec, OF m134] c(6)
    by simp
  from c 1 2 3 4 show ?thesis by blast
qed

text \<open>
  The claim as first stated covers every assertion function.  Equation 139 under
  \<^verbatim>\<open>noThrowAsserts\<close>, its assertion violated: the first call leaves two log entries, the
  second call two more.
\<close>

theorem assertion_139_logs_again_counterexample:
  "length (messages (state_of (oc_latch_eqFunction_139 example_runtime
             (noThrowAsserts_upd True out_of_scope_state)))) = 2
   \<and> length (messages (state_of (oc_latch_eqFunction_139 example_runtime
             (state_of (oc_latch_eqFunction_139 example_runtime
                (noThrowAsserts_upd True out_of_scope_state)))))) = 4"
proof -
  let ?s = "noThrowAsserts_upd True out_of_scope_state"
  let ?t = "state_of (oc_latch_eqFunction_139 example_runtime ?s)"
  have 1: "noThrowAsserts (info ?t) \<and> realParam ?t = realParam ?s
           \<and> length (messages ?t) = length (messages ?s) + 2"
    using oc_latch_eqFunction_139_out_of_scope [of ?s example_runtime] by simp
  then have 2: "length (messages (state_of (oc_latch_eqFunction_139 example_runtime ?t)))
                = length (messages ?t) + 2"
    using oc_latch_eqFunction_139_out_of_scope [of ?t example_runtime] by simp
  show ?thesis using 1 2 by simp
qed

lemma oc_latch_eqFunction_88_out_of_scope:
  "realParam s 60 = 1 \<Longrightarrow> realParam s 57 = 0 \<Longrightarrow> realParam s 59 = 2 \<Longrightarrow>
   aborted (oc_latch_eqFunction_88 rt s) = (\<not> noThrowAsserts (info s))
   \<and> (noThrowAsserts (info s) \<longrightarrow>
        length (messages (state_of (oc_latch_eqFunction_88 rt s))) = length (messages s) + 2)"
  by (simp add: oc_latch_eqFunction_88_def Let_def assertion_violated_def)

text \<open>
  C6 (as amended).  The assertions of the bound-parameter pass (equations 216 to 239)
  never abort: each call returns and leaves the store and the thread data as they were;
  a call whose condition is violated and whose flag is clear makes two log calls and
  sets its flag, any other call does nothing.  The assertions of the initialization pass
  (equations 83 to 88) are fatal unless \<^verbatim>\<open>noThrowAsserts\<close> is set: a call whose
  condition holds returns with nothing changed; a call whose condition is violated
  makes two log calls, sets \<^verbatim>\<open>needToReThrow\<close> and returns when \<^verbatim>\<open>noThrowAsserts\<close> is set,
  and makes one log call and leaves through \<^verbatim>\<open>omc_assert_withEquationIndexes\<close> with its
  equation index when \<^verbatim>\<open>noThrowAsserts\<close> is clear.
\<close>

theorem initialization_assertions_abort_unless_noThrowAsserts:
  "(\<forall>(n, f) \<in> set bound_parameter_assertions.
       data (f rt s) = data s \<and> threadData (f rt s) = threadData s
     \<and> (warned s n \<or> assertion_condition n s \<longrightarrow> f rt s = s)
     \<and> (\<not> warned s n \<and> \<not> assertion_condition n s \<longrightarrow>
          length (messages (f rt s)) = length (messages s) + 2 \<and> warned (f rt s) n))
   \<and> (\<forall>(n, f) \<in> set initial_assertions.
       (assertion_condition n s \<longrightarrow> f rt s = Normal () s)
     \<and> (\<not> assertion_condition n s \<and> noThrowAsserts (info s) \<longrightarrow>
          (\<exists>t. f rt s = Normal () t \<and> length (messages t) = length (messages s) + 2
               \<and> needToReThrow (info t) \<and> data t = data (needToReThrow_upd True s)))
     \<and> (\<not> assertion_condition n s \<and> \<not> noThrowAsserts (info s) \<longrightarrow>
          (\<exists>finfo msg t. f rt s = Abort (AssertWithEquationIndexes finfo [1, n] msg) t
               \<and> length (messages t) = length (messages s) + 1 \<and> data t = data s)))"
proof (intro conjI ballI)
  fix x assume x: "x \<in> set bound_parameter_assertions"
  obtain n f where nf: "x = (n, f)" by (cases x)
  have "(warned s n \<or> assertion_condition n s \<longrightarrow> f rt s = s)
     \<and> (\<not> warned s n \<and> \<not> assertion_condition n s \<longrightarrow>
          warned (f rt s) n \<and> length (messages (f rt s)) = length (messages s) + 2
          \<and> f rt (f rt s) = f rt s)
     \<and> data (f rt s) = data s \<and> threadData (f rt s) = threadData s"
    using bspec [OF bound_parameter_assertions_cases x] unfolding nf prod.case .
  then show "case x of (n, f) \<Rightarrow>
       data (f rt s) = data s \<and> threadData (f rt s) = threadData s
     \<and> (warned s n \<or> assertion_condition n s \<longrightarrow> f rt s = s)
     \<and> (\<not> warned s n \<and> \<not> assertion_condition n s \<longrightarrow>
          length (messages (f rt s)) = length (messages s) + 2 \<and> warned (f rt s) n)"
    unfolding nf prod.case by blast
next
  fix x assume "x \<in> set initial_assertions"
  then have x: "x \<in> set (initial_assertions @ algebraic_assertions)" by simp
  obtain n f where nf: "x = (n, f)" by (cases x)
  have "(assertion_condition n s \<longrightarrow> f rt s = Normal () s)
     \<and> (\<not> assertion_condition n s \<and> noThrowAsserts (info s) \<longrightarrow>
          (\<exists>t. f rt s = Normal () t \<and> length (messages t) = length (messages s) + 2
               \<and> needToReThrow (info t) \<and> data t = data (needToReThrow_upd True s)
               \<and> (\<exists>u. f rt t = Normal () u \<and> length (messages u) = length (messages t) + 2
                      \<and> needToReThrow (info u))))
     \<and> (\<not> assertion_condition n s \<and> \<not> noThrowAsserts (info s) \<longrightarrow>
          (\<exists>finfo msg t. f rt s = Abort (AssertWithEquationIndexes finfo [1, n] msg) t
               \<and> length (messages t) = length (messages s) + 1 \<and> data t = data s))"
    using bspec [OF throwing_assertions_cases x] unfolding nf prod.case .
  then show "case x of (n, f) \<Rightarrow>
       (assertion_condition n s \<longrightarrow> f rt s = Normal () s)
     \<and> (\<not> assertion_condition n s \<and> noThrowAsserts (info s) \<longrightarrow>
          (\<exists>t. f rt s = Normal () t \<and> length (messages t) = length (messages s) + 2
               \<and> needToReThrow (info t) \<and> data t = data (needToReThrow_upd True s)))
     \<and> (\<not> assertion_condition n s \<and> \<not> noThrowAsserts (info s) \<longrightarrow>
          (\<exists>finfo msg t. f rt s = Abort (AssertWithEquationIndexes finfo [1, n] msg) t
               \<and> length (messages t) = length (messages s) + 1 \<and> data t = data s))"
    unfolding nf prod.case by blast
qed

theorem initialization_assertions_abort_unless_noThrowAsserts_witness:
  "\<not> warned out_of_scope_state 216 \<and> \<not> assertion_condition 216 out_of_scope_state
   \<and> data (oc_latch_eqFunction_216 example_runtime out_of_scope_state) = data out_of_scope_state
   \<and> length (messages (oc_latch_eqFunction_216 example_runtime out_of_scope_state)) = 2
   \<and> \<not> assertion_condition 88 out_of_scope_state
   \<and> noThrowAsserts (info out_of_scope_state) = False
   \<and> (\<exists>finfo msg t. oc_latch_eqFunction_88 example_runtime out_of_scope_state
          = Abort (AssertWithEquationIndexes finfo [1, 88] msg) t
        \<and> length (messages t) = 1 \<and> data t = data out_of_scope_state)
   \<and> noThrowAsserts (info (noThrowAsserts_upd True out_of_scope_state))
   \<and> (\<exists>t. oc_latch_eqFunction_88 example_runtime (noThrowAsserts_upd True out_of_scope_state)
          = Normal () t
        \<and> length (messages t) = 2 \<and> needToReThrow (info t))
   \<and> assertion_condition 83 out_of_scope_state
   \<and> oc_latch_eqFunction_83 example_runtime out_of_scope_state = Normal () out_of_scope_state"
proof -
  let ?s = "noThrowAsserts_upd True out_of_scope_state"
  note main = initialization_assertions_abort_unless_noThrowAsserts
  have m216: "(216, oc_latch_eqFunction_216) \<in> set bound_parameter_assertions"
    by (simp add: bound_parameter_assertions_def)
  have m88: "(88, oc_latch_eqFunction_88) \<in> set initial_assertions"
    and m83: "(83, oc_latch_eqFunction_83) \<in> set initial_assertions"
    by (simp_all add: initial_assertions_def)
  have c: "\<not> warned out_of_scope_state 216" "\<not> assertion_condition 216 out_of_scope_state"
    "\<not> assertion_condition 88 out_of_scope_state" "noThrowAsserts (info out_of_scope_state) = False"
    "\<not> assertion_condition 88 ?s" "noThrowAsserts (info ?s)"
    "assertion_condition 83 out_of_scope_state"
    "length (messages out_of_scope_state) = 0" "length (messages ?s) = 0"
    by (simp_all add: assertion_condition_simps)
  have 1: "data (oc_latch_eqFunction_216 example_runtime out_of_scope_state) = data out_of_scope_state
       \<and> length (messages (oc_latch_eqFunction_216 example_runtime out_of_scope_state)) = 2"
    using conjunct1 [OF main [where s = out_of_scope_state and rt = example_runtime],
        THEN bspec, OF m216] c(1,2,8)
    by simp
  have 2: "\<exists>finfo msg t. oc_latch_eqFunction_88 example_runtime out_of_scope_state
          = Abort (AssertWithEquationIndexes finfo [1, 88] msg) t
        \<and> length (messages t) = 1 \<and> data t = data out_of_scope_state"
    using conjunct2 [OF main [where s = out_of_scope_state and rt = example_runtime],
        THEN bspec, OF m88] c(3,4,8)
    by simp
  have 3: "\<exists>t. oc_latch_eqFunction_88 example_runtime ?s = Normal () t
        \<and> length (messages t) = 2 \<and> needToReThrow (info t)"
    using conjunct2 [OF main [where s = ?s and rt = example_runtime], THEN bspec, OF m88]
      c(5,6,9)
    by auto
  have 4: "oc_latch_eqFunction_83 example_runtime out_of_scope_state = Normal () out_of_scope_state"
    using conjunct2 [OF main [where s = out_of_scope_state and rt = example_runtime],
        THEN bspec, OF m83] c(7)
    by simp
  from c 1 2 3 4 show ?thesis by blast
qed

text \<open>
  The claim as first stated has every assertion of the initialization pass report
  without aborting unless configured otherwise.  Equation 88 in a state whose
  \<^verbatim>\<open>noThrowAsserts\<close> is clear, resistor3 out of the scope of the model: the call aborts.
\<close>

theorem oc_latch_eqFunction_88_aborts_counterexample:
  "aborted (oc_latch_eqFunction_88 example_runtime out_of_scope_state)
   \<and> noThrowAsserts (info out_of_scope_state) = False"
  using oc_latch_eqFunction_88_out_of_scope [where s = out_of_scope_state and rt = example_runtime]
  by simp

section \<open>The algebraic pass\<close>

subsection \<open>Agreement and frames\<close>

lemma data_put [simp]: "data (put m s) = data s"
  by (simp add: put_def)

lemma data_lastEquationSolved_upd [simp]: "data (lastEquationSolved_upd n s) = data s"
  by (simp add: lastEquationSolved_upd_def)

lemma data_cong:
  assumes "data u = data t"
  shows "realVar u = realVar t" "booleanVar u = booleanVar t" "timeValue0 u = timeValue0 t"
    "localData_rest u = localData_rest t" "info u = info t"
  using assms by (simp_all add: fun_eq_iff store_defs)

lemma same_inputs_refl [simp]: "same_inputs s s"
  by (simp add: same_inputs_def)

lemma same_inputs_sym: "same_inputs s t \<Longrightarrow> same_inputs t s"
  by (simp add: same_inputs_def)

lemma same_inputs_trans: "same_inputs s t \<Longrightarrow> same_inputs t u \<Longrightarrow> same_inputs s u"
  by (simp add: same_inputs_def)

lemma same_inputs_reads:
  assumes "same_inputs s t"
  shows "timeValue0 s = timeValue0 t" "realVarOld s = realVarOld t"
    "realPre s = realPre t" "booleanPre s = booleanPre t" "realParam s = realParam t"
    "storedRelations (info s) = storedRelations (info t)"
    "discreteCall (info s) = discreteCall (info t)"
    "noThrowAsserts (info s) = noThrowAsserts (info t)"
proof -
  from assms have e: "(info s)\<lparr>needToReThrow := False\<rparr> = (info t)\<lparr>needToReThrow := False\<rparr>"
    and r: "localData_rest s = localData_rest t" and "timeValue0 s = timeValue0 t"
    by (simp_all add: same_inputs_def)
  then show "timeValue0 s = timeValue0 t" by simp
  from fun_cong [OF r, of 0] show "realVarOld s = realVarOld t"
    by (simp add: fun_eq_iff realVarOld_def localData_rest_def)
  from arg_cong [OF e, of realVarsPre] show "realPre s = realPre t"
    by (simp add: fun_eq_iff info_fields)
  from arg_cong [OF e, of booleanVarsPre] show "booleanPre s = booleanPre t"
    by (simp add: fun_eq_iff info_fields)
  from arg_cong [OF e, of realParameter] show "realParam s = realParam t"
    by (simp add: fun_eq_iff info_fields)
  from arg_cong [OF e, of storedRelations] show "storedRelations (info s) = storedRelations (info t)"
    by simp
  from arg_cong [OF e, of discreteCall] show "discreteCall (info s) = discreteCall (info t)"
    by simp
  from arg_cong [OF e, of noThrowAsserts] show "noThrowAsserts (info s) = noThrowAsserts (info t)"
    by simp
qed

lemma same_inputs_info:
  "same_inputs s t \<Longrightarrow> needToReThrow (info s) = needToReThrow (info t) \<Longrightarrow> info s = info t"
proof -
  assume a: "same_inputs s t" and b: "needToReThrow (info s) = needToReThrow (info t)"
  from a have e: "(info s)\<lparr>needToReThrow := False\<rparr> = (info t)\<lparr>needToReThrow := False\<rparr>"
    by (simp add: same_inputs_def)
  have "info s = (info s)\<lparr>needToReThrow := False\<rparr>\<lparr>needToReThrow := needToReThrow (info s)\<rparr>"
    by simp
  also have "\<dots> = (info t)\<lparr>needToReThrow := False\<rparr>\<lparr>needToReThrow := needToReThrow (info t)\<rparr>"
    unfolding e b ..
  also have "\<dots> = info t" by simp
  finally show ?thesis .
qed

lemma agree_data: "data u = data t \<Longrightarrow> agree L s u = agree L s t"
  using data_cong [of u t] by (simp add: agree_def same_inputs_def)

lemma agree_mono: "agree L s t \<Longrightarrow> K \<subseteq> L \<Longrightarrow> agree K s t"
  by (auto simp add: agree_def)

lemma agree_sym: "agree L s t \<Longrightarrow> agree L t s"
  by (simp add: agree_def same_inputs_sym)

lemma agree_trans: "agree L s t \<Longrightarrow> agree L t u \<Longrightarrow> agree L s u"
  using same_inputs_trans [of s t u] by (simp add: agree_def)

lemma framed_refl [simp]: "framed W s s"
  by (simp add: framed_def)

lemma framed_data: "data t' = data t \<Longrightarrow> framed W t' F \<Longrightarrow> framed W t F"
  using data_cong [of t' t] by (simp add: framed_def same_inputs_def)

lemma framed_data2: "data F' = data F \<Longrightarrow> framed W t F' \<Longrightarrow> framed W t F"
  using data_cong [of F' F] by (simp add: framed_def same_inputs_def)

lemma framed_trans: "framed V s t \<Longrightarrow> framed W t u \<Longrightarrow> framed (V \<union> W) s u"
  using same_inputs_trans [of s t u] by (simp add: framed_def)

lemma framed_mono: "framed V s t \<Longrightarrow> V \<subseteq> W \<Longrightarrow> framed W s t"
  by (auto simp add: framed_def)

lemma framed_agree: "framed W s t \<Longrightarrow> L \<inter> W = {} \<Longrightarrow> agree L s t"
  by (auto simp add: framed_def agree_def)

lemma framed_raised: "framed W s t \<Longrightarrow> needToReThrow (info s) \<Longrightarrow> needToReThrow (info t)"
  by (simp add: framed_def)

lemma framed_pre:
  "framed W s t \<Longrightarrow> realPre t = realPre s \<and> booleanPre t = booleanPre s"
  using same_inputs_reads [of s t] by (simp add: framed_def)

lemma framed_realVar_upd [simp]: "framed {RealVarAt i} s (realVar_upd i v s)"
  by (simp add: framed_def same_inputs_def fun_eq_iff)

lemma framed_booleanVar_upd [simp]: "framed {BooleanVarAt i} s (booleanVar_upd i v s)"
  by (simp add: framed_def same_inputs_def fun_eq_iff)

lemma data_unchanged:
  assumes "framed W u u'"
    and "\<And>i. RealVarAt i \<in> W \<Longrightarrow> realVar u' i = realVar u i"
    and "\<And>i. BooleanVarAt i \<in> W \<Longrightarrow> booleanVar u' i = booleanVar u i"
    and "needToReThrow (info u') = needToReThrow (info u)"
  shows "data u' = data u"
proof (rule data_eqI)
  fix j
  show "realVar u' j = realVar u j"
    using assms(1,2) by (cases "RealVarAt j \<in> W") (simp_all add: framed_def)
  show "booleanVar u' j = booleanVar u j"
    using assms(1,3) by (cases "BooleanVarAt j \<in> W") (simp_all add: framed_def)
next
  from assms(1) have s: "same_inputs u u'" by (simp add: framed_def)
  then show "timeValue0 u' = timeValue0 u" by (simp add: same_inputs_def)
  from s show "localData_rest u' k = localData_rest u k" for k by (simp add: same_inputs_def)
  from same_inputs_info [OF s] assms(4) show "info u' = info u" by simp
qed

subsection \<open>A sequence of equations with causal footprints\<close>

lemma footprint_framed: "footprint rt f L W \<Longrightarrow> framed W s (state_of (f rt s))"
  by (simp add: footprint_def)

lemma footprint_settled:
  assumes "footprint rt f L W" and "f rt s = Normal () t" and "agree L t u"
    and "needToReThrow (info t) \<Longrightarrow> needToReThrow (info u)"
  shows "\<exists>u'. f rt u = Normal () u' \<and> data u' = data u"
proof -
  from assms(1) have "\<forall>t u. f rt s = Normal () t \<longrightarrow> agree L t u
               \<longrightarrow> (needToReThrow (info t) \<longrightarrow> needToReThrow (info u))
               \<longrightarrow> (\<exists>u'. f rt u = Normal () u' \<and> data u' = data u)"
    unfolding footprint_def by (rule allE) (erule conjunct2)
  with assms(2,3,4) show ?thesis by blast
qed

lemma run_equations_framed:
  assumes "list_all2 (\<lambda>e p. footprint rt (snd e) (fst p) (snd p)) es ps"
  shows "framed (written ps) s (state_of (run_equations es rt s))"
  using assms
proof (induction es ps arbitrary: s rule: list_all2_induct)
  case Nil
  show ?case by simp
next
  case (Cons e es p ps)
  from Cons.hyps(1) have f: "framed (snd p) s (state_of (snd e rt s))"
    by (rule footprint_framed)
  show ?case
  proof (cases "snd e rt s")
    case (Abort err t)
    with f have "framed (snd p) s t" by simp
    then have "framed (snd p \<union> written ps) s t" by (rule framed_mono) simp
    with Abort show ?thesis by simp
  next
    case (Normal u t)
    let ?t = "lastEquationSolved_upd (int (fst e)) t"
    from Normal f have "framed (snd p) s t" by simp
    moreover have "framed (written ps) t (state_of (run_equations es rt ?t))"
      using Cons.IH [of ?t] by (rule framed_data [rotated]) simp
    ultimately have "framed (snd p \<union> written ps) s (state_of (run_equations es rt ?t))"
      by (rule framed_trans)
    with Normal show ?thesis by simp
  qed
qed

lemma run_equations_settled:
  assumes "list_all2 (\<lambda>e p. footprint rt (snd e) (fst p) (snd p)) es ps"
    and "causal ps"
    and "run_equations es rt s = Normal () F"
    and "data u = data F"
  shows "\<exists>u'. run_equations es rt u = Normal () u' \<and> data u' = data F"
  using assms
proof (induction es ps arbitrary: s u rule: list_all2_induct)
  case Nil
  then show ?case by simp
next
  case (Cons e es p ps)
  from Cons.prems(2) obtain t where t: "snd e rt s = Normal () t"
    and run: "run_equations es rt (lastEquationSolved_upd (int (fst e)) t) = Normal () F"
    by (cases "snd e rt s") simp_all
  let ?t = "lastEquationSolved_upd (int (fst e)) t"
  from Cons.prems(1) have c: "fst p \<inter> written ps = {}" and cs: "causal ps" by simp_all
  have "framed (written ps) ?t (state_of (run_equations es rt ?t))"
    using Cons.hyps(2) by (rule run_equations_framed)
  with run have "framed (written ps) ?t F" by simp
  then have fr: "framed (written ps) t F" by (rule framed_data [rotated]) simp
  from framed_agree [OF fr c] have "agree (fst p) t F" .
  then have a: "agree (fst p) t u" unfolding agree_data [OF Cons.prems(3)] .
  have i: "info u = info F" using Cons.prems(3) by (rule data_cong(5))
  have r: "needToReThrow (info u)" if "needToReThrow (info t)"
    using framed_raised [OF fr that] unfolding i .
  from footprint_settled [OF Cons.hyps(1) t a r]
  obtain u1 where u1: "snd e rt u = Normal () u1" "data u1 = data u" by blast
  let ?u = "lastEquationSolved_upd (int (fst e)) u1"
  have "data ?u = data F" using u1(2) Cons.prems(3) by simp
  from Cons.IH [OF cs run this] obtain u' where
    "run_equations es rt ?u = Normal () u'" "data u' = data F" by blast
  with u1 show ?case by simp
qed

subsection \<open>Footprints of the kinds of equation\<close>

lemma data_realVar_upd_same: "data (realVar_upd i (realVar u i) u) = data u"
  by (rule data_eqI) simp_all

lemma data_booleanVar_upd_same: "data (booleanVar_upd i (booleanVar u i) u) = data u"
  by (rule data_eqI) simp_all

lemma agree_at:
  "agree L s t \<Longrightarrow> RealVarAt i \<in> L \<Longrightarrow> realVar s i = realVar t i"
  "agree L s t \<Longrightarrow> BooleanVarAt j \<in> L \<Longrightarrow> booleanVar s j = booleanVar t j"
  by (simp_all add: agree_def)

lemma real_assignment_footprint:
  assumes shape: "\<And>s. f rt s = (case f rt s of Abort e t \<Rightarrow> Abort e s
                     | Normal u t \<Rightarrow> Normal () (realVar_upd i (realVar t i) s))"
    and dep: "\<And>s t. agree L s t \<Longrightarrow>
                (case f rt s of Abort e s' \<Rightarrow> Inl e | Normal u s' \<Rightarrow> Inr (realVar s' i))
              = (case f rt t of Abort e t' \<Rightarrow> Inl e | Normal u t' \<Rightarrow> Inr (realVar t' i))"
    and i: "RealVarAt i \<notin> L"
  shows "footprint rt f (insert (RealVarAt i) L) {RealVarAt i}"
  unfolding footprint_def
proof (intro allI conjI impI)
  fix s
  show "framed {RealVarAt i} s (state_of (f rt s))"
  proof (cases "f rt s")
    case (Normal v t)
    with shape [of s] have "f rt s = Normal () (realVar_upd i (realVar t i) s)" by simp
    then show ?thesis by simp
  next
    case (Abort e t)
    with shape [of s] have "f rt s = Abort e s" by simp
    then show ?thesis by simp
  qed
next
  fix s t u
  assume t: "f rt s = Normal () t" and a: "agree (insert (RealVarAt i) L) t u"
  from t shape [of s] have t': "t = realVar_upd i (realVar t i) s" by simp
  have "framed {RealVarAt i} s t" by (subst t') (rule framed_realVar_upd)
  then have "agree L s t" by (rule framed_agree) (use i in simp)
  moreover from a have "agree L t u" by (rule agree_mono) auto
  ultimately have "agree L s u" by (rule agree_trans)
  from dep [OF this] t obtain u1 where u1: "f rt u = Normal () u1" "realVar u1 i = realVar t i"
    by (cases "f rt u") auto
  from a have "realVar t i = realVar u i" by (rule agree_at) simp
  with u1 shape [of u] have "f rt u = Normal () (realVar_upd i (realVar u i) u)" by simp
  then show "\<exists>u'. f rt u = Normal () u' \<and> data u' = data u"
    by (simp add: data_realVar_upd_same)
qed

lemma boolean_assignment_footprint:
  assumes shape: "\<And>s. f rt s = (case f rt s of Abort e t \<Rightarrow> Abort e s
                     | Normal u t \<Rightarrow> Normal () (booleanVar_upd i (booleanVar t i) s))"
    and dep: "\<And>s t. agree L s t \<Longrightarrow>
                (case f rt s of Abort e s' \<Rightarrow> Inl e | Normal u s' \<Rightarrow> Inr (booleanVar s' i))
              = (case f rt t of Abort e t' \<Rightarrow> Inl e | Normal u t' \<Rightarrow> Inr (booleanVar t' i))"
    and i: "BooleanVarAt i \<notin> L"
  shows "footprint rt f (insert (BooleanVarAt i) L) {BooleanVarAt i}"
  unfolding footprint_def
proof (intro allI conjI impI)
  fix s
  show "framed {BooleanVarAt i} s (state_of (f rt s))"
  proof (cases "f rt s")
    case (Normal v t)
    with shape [of s] have "f rt s = Normal () (booleanVar_upd i (booleanVar t i) s)" by simp
    then show ?thesis by simp
  next
    case (Abort e t)
    with shape [of s] have "f rt s = Abort e s" by simp
    then show ?thesis by simp
  qed
next
  fix s t u
  assume t: "f rt s = Normal () t" and a: "agree (insert (BooleanVarAt i) L) t u"
  from t shape [of s] have t': "t = booleanVar_upd i (booleanVar t i) s" by simp
  have "framed {BooleanVarAt i} s t" by (subst t') (rule framed_booleanVar_upd)
  then have "agree L s t" by (rule framed_agree) (use i in simp)
  moreover from a have "agree L t u" by (rule agree_mono) auto
  ultimately have "agree L s u" by (rule agree_trans)
  from dep [OF this] t obtain u1 where u1: "f rt u = Normal () u1" "booleanVar u1 i = booleanVar t i"
    by (cases "f rt u") auto
  from a have "booleanVar t i = booleanVar u i" by (rule agree_at) simp
  with u1 shape [of u] have "f rt u = Normal () (booleanVar_upd i (booleanVar u i) u)" by simp
  then show "\<exists>u'. f rt u = Normal () u' \<and> data u' = data u"
    by (simp add: data_booleanVar_upd_same)
qed

lemma throwing_assertion_footprint:
  assumes shape: "\<And>rt s. \<exists>finfo c msg. f rt s = throwing_assertion n (p (realParam s)) finfo c msg rt s"
  shows "footprint rt f {} {NeedToReThrow}"
  unfolding footprint_def
proof (intro allI conjI impI)
  fix s
  obtain finfo c msg where f: "f rt s = throwing_assertion n (p (realParam s)) finfo c msg rt s"
    using shape by blast
  show "framed {NeedToReThrow} s (state_of (f rt s))"
    unfolding f
    by (simp add: throwing_assertion_def assertion_violated_def framed_def same_inputs_def
        fun_eq_iff)
next
  fix s t u
  assume t: "f rt s = Normal () t" and a: "agree {} t u"
    and r: "needToReThrow (info t) \<longrightarrow> needToReThrow (info u)"
  obtain finfo c msg where f: "f rt s = throwing_assertion n (p (realParam s)) finfo c msg rt s"
    using shape by blast
  obtain finfo' c' msg' where
    g: "f rt u = throwing_assertion n (p (realParam u)) finfo' c' msg' rt u"
    using shape by blast
  have "framed {NeedToReThrow} s t"
    using t f
    by (auto simp add: throwing_assertion_def assertion_violated_def framed_def same_inputs_def
        fun_eq_iff split: if_splits)
  then have st: "same_inputs s t" by (simp add: framed_def)
  from a have tu: "same_inputs t u" by (simp add: agree_def)
  note su = same_inputs_trans [OF st tu]
  have P: "realParam u = realParam s" and N: "noThrowAsserts (info u) = noThrowAsserts (info s)"
    using same_inputs_reads [OF su] by simp_all
  show "\<exists>u'. f rt u = Normal () u' \<and> data u' = data u"
  proof (cases "p (realParam s)")
    case True
    then show ?thesis unfolding g P by (simp add: throwing_assertion_def)
  next
    case False
    with t f have n: "noThrowAsserts (info s)" and "needToReThrow (info t)"
      by (auto simp add: throwing_assertion_def assertion_violated_def split: if_splits)
    with r have "needToReThrow (info u)" by simp
    then have "(info u)\<lparr>needToReThrow := True\<rparr> = info u" by simp
    then have "data (needToReThrow_upd True u) = data u"
      by (intro data_eqI) simp_all
    moreover have "f rt u = Normal () (needToReThrow_upd True
            (put (InfoStreamPrint LOG_ASSERT 0 ''%s'' [StringArg msg'])
              (put (InfoStreamPrintWithEquationIndexes LOG_ASSERT 0 [1, n]
                      (violated_text c') (violation_args rt u)) u)))"
      unfolding g P using False n N by (simp add: throwing_assertion_def assertion_violated_def)
    moreover have "data (needToReThrow_upd True
            (put (InfoStreamPrint LOG_ASSERT 0 ''%s'' [StringArg msg'])
              (put (InfoStreamPrintWithEquationIndexes LOG_ASSERT 0 [1, n]
                      (violated_text c') (violation_args rt u)) u))) = data (needToReThrow_upd True u)"
      by (intro data_eqI) simp_all
    ultimately show ?thesis by simp
  qed
qed

subsection \<open>Footprints of the equations of the pass\<close>

lemma oc_latch_eqFunction_89_footprint:
  "footprint rt oc_latch_eqFunction_89 {BooleanVarAt 0} {BooleanVarAt 0}"
proof (rule boolean_assignment_footprint)
  show "oc_latch_eqFunction_89 rt s = (case oc_latch_eqFunction_89 rt s of Abort e t \<Rightarrow> Abort e s
          | Normal u t \<Rightarrow> Normal () (booleanVar_upd 0 (booleanVar t 0) s))" for s
    by (simp add: oc_latch_eqFunction_89_def DIVISION_SIM_def Let_def split: sum.splits)
  show "(case oc_latch_eqFunction_89 rt s of Abort e s' \<Rightarrow> Inl e | Normal u s' \<Rightarrow> Inr (booleanVar s' 0))
      = (case oc_latch_eqFunction_89 rt t of Abort e t' \<Rightarrow> Inl e | Normal u t' \<Rightarrow> Inr (booleanVar t' 0))"
    if "agree {} s t" for s t
    using that same_inputs_reads [of s t]
    by (simp add: agree_def oc_latch_eqFunction_89_def DIVISION_SIM_def Let_def split: sum.splits)
  show "BooleanVarAt 0 \<notin> {}" by simp
qed

lemma oc_latch_eqFunction_90_footprint:
  "footprint rt oc_latch_eqFunction_90 {BooleanVarAt 11} {BooleanVarAt 11}"
proof (rule boolean_assignment_footprint)
  show "oc_latch_eqFunction_90 rt s = (case oc_latch_eqFunction_90 rt s of Abort e t \<Rightarrow> Abort e s
          | Normal u t \<Rightarrow> Normal () (booleanVar_upd 11 (booleanVar t 11) s))" for s
    by (simp add: oc_latch_eqFunction_90_def DIVISION_SIM_def Let_def split: sum.splits)
  show "(case oc_latch_eqFunction_90 rt s of Abort e s' \<Rightarrow> Inl e | Normal u s' \<Rightarrow> Inr (booleanVar s' 11))
      = (case oc_latch_eqFunction_90 rt t of Abort e t' \<Rightarrow> Inl e | Normal u t' \<Rightarrow> Inr (booleanVar t' 11))"
    if "agree {} s t" for s t
    using that same_inputs_reads [of s t]
    by (simp add: agree_def oc_latch_eqFunction_90_def DIVISION_SIM_def Let_def split: sum.splits)
  show "BooleanVarAt 11 \<notin> {}" by simp
qed

lemma oc_latch_eqFunction_91_footprint:
  "footprint rt oc_latch_eqFunction_91 {BooleanVarAt 2} {BooleanVarAt 2}"
proof (rule boolean_assignment_footprint)
  show "oc_latch_eqFunction_91 rt s = (case oc_latch_eqFunction_91 rt s of Abort e t \<Rightarrow> Abort e s
          | Normal u t \<Rightarrow> Normal () (booleanVar_upd 2 (booleanVar t 2) s))" for s
    by (simp add: oc_latch_eqFunction_91_def DIVISION_SIM_def Let_def split: sum.splits)
  show "(case oc_latch_eqFunction_91 rt s of Abort e s' \<Rightarrow> Inl e | Normal u s' \<Rightarrow> Inr (booleanVar s' 2))
      = (case oc_latch_eqFunction_91 rt t of Abort e t' \<Rightarrow> Inl e | Normal u t' \<Rightarrow> Inr (booleanVar t' 2))"
    if "agree {} s t" for s t
    using that same_inputs_reads [of s t]
    by (simp add: agree_def oc_latch_eqFunction_91_def DIVISION_SIM_def Let_def split: sum.splits)
  show "BooleanVarAt 2 \<notin> {}" by simp
qed

lemma oc_latch_eqFunction_99_footprint:
  "footprint rt oc_latch_eqFunction_99 {RealVarAt 47, RealVarAt 49, RealVarAt 52} {RealVarAt 47}"
proof (rule real_assignment_footprint)
  show "oc_latch_eqFunction_99 rt s = (case oc_latch_eqFunction_99 rt s of Abort e t \<Rightarrow> Abort e s
          | Normal u t \<Rightarrow> Normal () (realVar_upd 47 (realVar t 47) s))" for s
    by (simp add: oc_latch_eqFunction_99_def DIVISION_SIM_def Let_def split: sum.splits)
  show "(case oc_latch_eqFunction_99 rt s of Abort e s' \<Rightarrow> Inl e | Normal u s' \<Rightarrow> Inr (realVar s' 47))
      = (case oc_latch_eqFunction_99 rt t of Abort e t' \<Rightarrow> Inl e | Normal u t' \<Rightarrow> Inr (realVar t' 47))"
    if "agree {RealVarAt 49, RealVarAt 52} s t" for s t
    using that same_inputs_reads [of s t]
    by (simp add: agree_def oc_latch_eqFunction_99_def DIVISION_SIM_def Let_def split: sum.splits)
  show "RealVarAt 47 \<notin> {RealVarAt 49, RealVarAt 52}" by simp
qed

lemma oc_latch_eqFunction_100_footprint:
  "footprint rt oc_latch_eqFunction_100 {RealVarAt 50, RealVarAt 53, RealVarAt 52} {RealVarAt 50}"
proof (rule real_assignment_footprint)
  show "oc_latch_eqFunction_100 rt s = (case oc_latch_eqFunction_100 rt s of Abort e t \<Rightarrow> Abort e s
          | Normal u t \<Rightarrow> Normal () (realVar_upd 50 (realVar t 50) s))" for s
    by (simp add: oc_latch_eqFunction_100_def DIVISION_SIM_def Let_def split: sum.splits)
  show "(case oc_latch_eqFunction_100 rt s of Abort e s' \<Rightarrow> Inl e | Normal u s' \<Rightarrow> Inr (realVar s' 50))
      = (case oc_latch_eqFunction_100 rt t of Abort e t' \<Rightarrow> Inl e | Normal u t' \<Rightarrow> Inr (realVar t' 50))"
    if "agree {RealVarAt 53, RealVarAt 52} s t" for s t
    using that same_inputs_reads [of s t]
    by (simp add: agree_def oc_latch_eqFunction_100_def DIVISION_SIM_def Let_def split: sum.splits)
  show "RealVarAt 50 \<notin> {RealVarAt 53, RealVarAt 52}" by simp
qed

lemma oc_latch_eqFunction_101_footprint:
  "footprint rt oc_latch_eqFunction_101 {BooleanVarAt 10} {BooleanVarAt 10}"
proof (rule boolean_assignment_footprint)
  show "oc_latch_eqFunction_101 rt s = (case oc_latch_eqFunction_101 rt s of Abort e t \<Rightarrow> Abort e s
          | Normal u t \<Rightarrow> Normal () (booleanVar_upd 10 (booleanVar t 10) s))" for s
    by (simp add: oc_latch_eqFunction_101_def DIVISION_SIM_def Let_def split: sum.splits)
  show "(case oc_latch_eqFunction_101 rt s of Abort e s' \<Rightarrow> Inl e | Normal u s' \<Rightarrow> Inr (booleanVar s' 10))
      = (case oc_latch_eqFunction_101 rt t of Abort e t' \<Rightarrow> Inl e | Normal u t' \<Rightarrow> Inr (booleanVar t' 10))"
    if "agree {} s t" for s t
    using that same_inputs_reads [of s t]
    by (simp add: agree_def oc_latch_eqFunction_101_def DIVISION_SIM_def Let_def split: sum.splits)
  show "BooleanVarAt 10 \<notin> {}" by simp
qed

lemma oc_latch_eqFunction_102_footprint:
  "footprint rt oc_latch_eqFunction_102 {BooleanVarAt 5} {BooleanVarAt 5}"
proof (rule boolean_assignment_footprint)
  show "oc_latch_eqFunction_102 rt s = (case oc_latch_eqFunction_102 rt s of Abort e t \<Rightarrow> Abort e s
          | Normal u t \<Rightarrow> Normal () (booleanVar_upd 5 (booleanVar t 5) s))" for s
    by (simp add: oc_latch_eqFunction_102_def DIVISION_SIM_def Let_def split: sum.splits)
  show "(case oc_latch_eqFunction_102 rt s of Abort e s' \<Rightarrow> Inl e | Normal u s' \<Rightarrow> Inr (booleanVar s' 5))
      = (case oc_latch_eqFunction_102 rt t of Abort e t' \<Rightarrow> Inl e | Normal u t' \<Rightarrow> Inr (booleanVar t' 5))"
    if "agree {} s t" for s t
    using that same_inputs_reads [of s t]
    by (simp add: agree_def oc_latch_eqFunction_102_def DIVISION_SIM_def Let_def split: sum.splits)
  show "BooleanVarAt 5 \<notin> {}" by simp
qed

lemma oc_latch_eqFunction_103_footprint:
  "footprint rt oc_latch_eqFunction_103 {BooleanVarAt 1, BooleanVarAt 5, BooleanVarAt 10} {BooleanVarAt 1}"
proof (rule boolean_assignment_footprint)
  show "oc_latch_eqFunction_103 rt s = (case oc_latch_eqFunction_103 rt s of Abort e t \<Rightarrow> Abort e s
          | Normal u t \<Rightarrow> Normal () (booleanVar_upd 1 (booleanVar t 1) s))" for s
    by (simp add: oc_latch_eqFunction_103_def DIVISION_SIM_def Let_def split: sum.splits)
  show "(case oc_latch_eqFunction_103 rt s of Abort e s' \<Rightarrow> Inl e | Normal u s' \<Rightarrow> Inr (booleanVar s' 1))
      = (case oc_latch_eqFunction_103 rt t of Abort e t' \<Rightarrow> Inl e | Normal u t' \<Rightarrow> Inr (booleanVar t' 1))"
    if "agree {BooleanVarAt 5, BooleanVarAt 10} s t" for s t
    using that same_inputs_reads [of s t]
    by (simp add: agree_def oc_latch_eqFunction_103_def DIVISION_SIM_def Let_def split: sum.splits)
  show "BooleanVarAt 1 \<notin> {BooleanVarAt 5, BooleanVarAt 10}" by simp
qed

lemma oc_latch_eqFunction_104_footprint:
  "footprint rt oc_latch_eqFunction_104 {BooleanVarAt 8, BooleanVarAt 1, BooleanVarAt 2} {BooleanVarAt 8}"
proof (rule boolean_assignment_footprint)
  show "oc_latch_eqFunction_104 rt s = (case oc_latch_eqFunction_104 rt s of Abort e t \<Rightarrow> Abort e s
          | Normal u t \<Rightarrow> Normal () (booleanVar_upd 8 (booleanVar t 8) s))" for s
    by (simp add: oc_latch_eqFunction_104_def DIVISION_SIM_def Let_def split: sum.splits)
  show "(case oc_latch_eqFunction_104 rt s of Abort e s' \<Rightarrow> Inl e | Normal u s' \<Rightarrow> Inr (booleanVar s' 8))
      = (case oc_latch_eqFunction_104 rt t of Abort e t' \<Rightarrow> Inl e | Normal u t' \<Rightarrow> Inr (booleanVar t' 8))"
    if "agree {BooleanVarAt 1, BooleanVarAt 2} s t" for s t
    using that same_inputs_reads [of s t]
    by (simp add: agree_def oc_latch_eqFunction_104_def DIVISION_SIM_def Let_def split: sum.splits)
  show "BooleanVarAt 8 \<notin> {BooleanVarAt 1, BooleanVarAt 2}" by simp
qed

lemma oc_latch_eqFunction_105_footprint:
  "footprint rt oc_latch_eqFunction_105 {RealVarAt 9} {RealVarAt 9}"
proof (rule real_assignment_footprint)
  show "oc_latch_eqFunction_105 rt s = (case oc_latch_eqFunction_105 rt s of Abort e t \<Rightarrow> Abort e s
          | Normal u t \<Rightarrow> Normal () (realVar_upd 9 (realVar t 9) s))" for s
    by (simp add: oc_latch_eqFunction_105_def DIVISION_SIM_def Let_def split: sum.splits)
  show "(case oc_latch_eqFunction_105 rt s of Abort e s' \<Rightarrow> Inl e | Normal u s' \<Rightarrow> Inr (realVar s' 9))
      = (case oc_latch_eqFunction_105 rt t of Abort e t' \<Rightarrow> Inl e | Normal u t' \<Rightarrow> Inr (realVar t' 9))"
    if "agree {} s t" for s t
    using that same_inputs_reads [of s t]
    by (simp add: agree_def oc_latch_eqFunction_105_def DIVISION_SIM_def Let_def split: sum.splits)
  show "RealVarAt 9 \<notin> {}" by simp
qed

lemma oc_latch_eqFunction_107_footprint:
  "footprint rt oc_latch_eqFunction_107 {RealVarAt 10, RealVarAt 9, RealVarAt 57} {RealVarAt 10}"
proof (rule real_assignment_footprint)
  show "oc_latch_eqFunction_107 rt s = (case oc_latch_eqFunction_107 rt s of Abort e t \<Rightarrow> Abort e s
          | Normal u t \<Rightarrow> Normal () (realVar_upd 10 (realVar t 10) s))" for s
    by (simp add: oc_latch_eqFunction_107_def DIVISION_SIM_def Let_def split: sum.splits)
  show "(case oc_latch_eqFunction_107 rt s of Abort e s' \<Rightarrow> Inl e | Normal u s' \<Rightarrow> Inr (realVar s' 10))
      = (case oc_latch_eqFunction_107 rt t of Abort e t' \<Rightarrow> Inl e | Normal u t' \<Rightarrow> Inr (realVar t' 10))"
    if "agree {RealVarAt 9, RealVarAt 57} s t" for s t
    using that same_inputs_reads [of s t]
    by (simp add: agree_def oc_latch_eqFunction_107_def DIVISION_SIM_def Let_def split: sum.splits)
  show "RealVarAt 10 \<notin> {RealVarAt 9, RealVarAt 57}" by simp
qed

lemma oc_latch_eqFunction_109_footprint:
  "footprint rt oc_latch_eqFunction_109 {RealVarAt 34, RealVarAt 10, RealVarAt 53} {RealVarAt 34}"
proof (rule real_assignment_footprint)
  show "oc_latch_eqFunction_109 rt s = (case oc_latch_eqFunction_109 rt s of Abort e t \<Rightarrow> Abort e s
          | Normal u t \<Rightarrow> Normal () (realVar_upd 34 (realVar t 34) s))" for s
    by (simp add: oc_latch_eqFunction_109_def DIVISION_SIM_def Let_def split: sum.splits)
  show "(case oc_latch_eqFunction_109 rt s of Abort e s' \<Rightarrow> Inl e | Normal u s' \<Rightarrow> Inr (realVar s' 34))
      = (case oc_latch_eqFunction_109 rt t of Abort e t' \<Rightarrow> Inl e | Normal u t' \<Rightarrow> Inr (realVar t' 34))"
    if "agree {RealVarAt 10, RealVarAt 53} s t" for s t
    using that same_inputs_reads [of s t]
    by (simp add: agree_def oc_latch_eqFunction_109_def DIVISION_SIM_def Let_def split: sum.splits)
  show "RealVarAt 34 \<notin> {RealVarAt 10, RealVarAt 53}" by simp
qed

lemma oc_latch_eqFunction_110_footprint:
  "footprint rt oc_latch_eqFunction_110 {RealVarAt 38, RealVarAt 31, RealVarAt 34, RealVarAt 30} {RealVarAt 38}"
proof (rule real_assignment_footprint)
  show "oc_latch_eqFunction_110 rt s = (case oc_latch_eqFunction_110 rt s of Abort e t \<Rightarrow> Abort e s
          | Normal u t \<Rightarrow> Normal () (realVar_upd 38 (realVar t 38) s))" for s
    by (simp add: oc_latch_eqFunction_110_def DIVISION_SIM_def Let_def split: sum.splits)
  show "(case oc_latch_eqFunction_110 rt s of Abort e s' \<Rightarrow> Inl e | Normal u s' \<Rightarrow> Inr (realVar s' 38))
      = (case oc_latch_eqFunction_110 rt t of Abort e t' \<Rightarrow> Inl e | Normal u t' \<Rightarrow> Inr (realVar t' 38))"
    if "agree {RealVarAt 31, RealVarAt 34, RealVarAt 30} s t" for s t
    using that same_inputs_reads [of s t]
    by (simp add: agree_def oc_latch_eqFunction_110_def DIVISION_SIM_def Let_def split: sum.splits)
  show "RealVarAt 38 \<notin> {RealVarAt 31, RealVarAt 34, RealVarAt 30}" by simp
qed

lemma oc_latch_eqFunction_111_footprint:
  "footprint rt oc_latch_eqFunction_111 {RealVarAt 46, RealVarAt 38} {RealVarAt 46}"
proof (rule real_assignment_footprint)
  show "oc_latch_eqFunction_111 rt s = (case oc_latch_eqFunction_111 rt s of Abort e t \<Rightarrow> Abort e s
          | Normal u t \<Rightarrow> Normal () (realVar_upd 46 (realVar t 46) s))" for s
    by (simp add: oc_latch_eqFunction_111_def DIVISION_SIM_def Let_def split: sum.splits)
  show "(case oc_latch_eqFunction_111 rt s of Abort e s' \<Rightarrow> Inl e | Normal u s' \<Rightarrow> Inr (realVar s' 46))
      = (case oc_latch_eqFunction_111 rt t of Abort e t' \<Rightarrow> Inl e | Normal u t' \<Rightarrow> Inr (realVar t' 46))"
    if "agree {RealVarAt 38} s t" for s t
    using that same_inputs_reads [of s t]
    by (simp add: agree_def oc_latch_eqFunction_111_def DIVISION_SIM_def Let_def split: sum.splits)
  show "RealVarAt 46 \<notin> {RealVarAt 38}" by simp
qed

lemma oc_latch_eqFunction_112_footprint:
  "footprint rt oc_latch_eqFunction_112 {RealVarAt 45, RealVarAt 46, RealVarAt 44} {RealVarAt 45}"
proof (rule real_assignment_footprint)
  show "oc_latch_eqFunction_112 rt s = (case oc_latch_eqFunction_112 rt s of Abort e t \<Rightarrow> Abort e s
          | Normal u t \<Rightarrow> Normal () (realVar_upd 45 (realVar t 45) s))" for s
    by (simp add: oc_latch_eqFunction_112_def DIVISION_SIM_def Let_def split: sum.splits)
  show "(case oc_latch_eqFunction_112 rt s of Abort e s' \<Rightarrow> Inl e | Normal u s' \<Rightarrow> Inr (realVar s' 45))
      = (case oc_latch_eqFunction_112 rt t of Abort e t' \<Rightarrow> Inl e | Normal u t' \<Rightarrow> Inr (realVar t' 45))"
    if "agree {RealVarAt 46, RealVarAt 44} s t" for s t
    using that same_inputs_reads [of s t]
    by (simp add: agree_def oc_latch_eqFunction_112_def DIVISION_SIM_def Let_def split: sum.splits)
  show "RealVarAt 45 \<notin> {RealVarAt 46, RealVarAt 44}" by simp
qed

lemma oc_latch_eqFunction_113_footprint:
  "footprint rt oc_latch_eqFunction_113 {RealVarAt 43, RealVarAt 46, RealVarAt 45} {RealVarAt 43}"
proof (rule real_assignment_footprint)
  show "oc_latch_eqFunction_113 rt s = (case oc_latch_eqFunction_113 rt s of Abort e t \<Rightarrow> Abort e s
          | Normal u t \<Rightarrow> Normal () (realVar_upd 43 (realVar t 43) s))" for s
    by (simp add: oc_latch_eqFunction_113_def DIVISION_SIM_def Let_def split: sum.splits)
  show "(case oc_latch_eqFunction_113 rt s of Abort e s' \<Rightarrow> Inl e | Normal u s' \<Rightarrow> Inr (realVar s' 43))
      = (case oc_latch_eqFunction_113 rt t of Abort e t' \<Rightarrow> Inl e | Normal u t' \<Rightarrow> Inr (realVar t' 43))"
    if "agree {RealVarAt 46, RealVarAt 45} s t" for s t
    using that same_inputs_reads [of s t]
    by (simp add: agree_def oc_latch_eqFunction_113_def DIVISION_SIM_def Let_def split: sum.splits)
  show "RealVarAt 43 \<notin> {RealVarAt 46, RealVarAt 45}" by simp
qed

lemma oc_latch_eqFunction_114_footprint:
  "footprint rt oc_latch_eqFunction_114 {BooleanVarAt 3, RealVarAt 38} {BooleanVarAt 3}"
proof (rule boolean_assignment_footprint)
  show "oc_latch_eqFunction_114 rt s = (case oc_latch_eqFunction_114 rt s of Abort e t \<Rightarrow> Abort e s
          | Normal u t \<Rightarrow> Normal () (booleanVar_upd 3 (booleanVar t 3) s))" for s
    by (simp add: oc_latch_eqFunction_114_def DIVISION_SIM_def Let_def split: sum.splits)
  show "(case oc_latch_eqFunction_114 rt s of Abort e s' \<Rightarrow> Inl e | Normal u s' \<Rightarrow> Inr (booleanVar s' 3))
      = (case oc_latch_eqFunction_114 rt t of Abort e t' \<Rightarrow> Inl e | Normal u t' \<Rightarrow> Inr (booleanVar t' 3))"
    if "agree {RealVarAt 38} s t" for s t
    using that same_inputs_reads [of s t]
    by (simp add: agree_def oc_latch_eqFunction_114_def DIVISION_SIM_def Let_def split: sum.splits)
  show "BooleanVarAt 3 \<notin> {RealVarAt 38}" by simp
qed

lemma oc_latch_eqFunction_122_footprint:
  "footprint rt oc_latch_eqFunction_122 {RealVarAt 0, RealVarAt 2, RealVarAt 5} {RealVarAt 0}"
proof (rule real_assignment_footprint)
  show "oc_latch_eqFunction_122 rt s = (case oc_latch_eqFunction_122 rt s of Abort e t \<Rightarrow> Abort e s
          | Normal u t \<Rightarrow> Normal () (realVar_upd 0 (realVar t 0) s))" for s
    by (simp add: oc_latch_eqFunction_122_def DIVISION_SIM_def Let_def split: sum.splits)
  show "(case oc_latch_eqFunction_122 rt s of Abort e s' \<Rightarrow> Inl e | Normal u s' \<Rightarrow> Inr (realVar s' 0))
      = (case oc_latch_eqFunction_122 rt t of Abort e t' \<Rightarrow> Inl e | Normal u t' \<Rightarrow> Inr (realVar t' 0))"
    if "agree {RealVarAt 2, RealVarAt 5} s t" for s t
    using that same_inputs_reads [of s t]
    by (simp add: agree_def oc_latch_eqFunction_122_def DIVISION_SIM_def Let_def split: sum.splits)
  show "RealVarAt 0 \<notin> {RealVarAt 2, RealVarAt 5}" by simp
qed

lemma oc_latch_eqFunction_123_footprint:
  "footprint rt oc_latch_eqFunction_123 {RealVarAt 27, RealVarAt 6, RealVarAt 10} {RealVarAt 27}"
proof (rule real_assignment_footprint)
  show "oc_latch_eqFunction_123 rt s = (case oc_latch_eqFunction_123 rt s of Abort e t \<Rightarrow> Abort e s
          | Normal u t \<Rightarrow> Normal () (realVar_upd 27 (realVar t 27) s))" for s
    by (simp add: oc_latch_eqFunction_123_def DIVISION_SIM_def Let_def split: sum.splits)
  show "(case oc_latch_eqFunction_123 rt s of Abort e s' \<Rightarrow> Inl e | Normal u s' \<Rightarrow> Inr (realVar s' 27))
      = (case oc_latch_eqFunction_123 rt t of Abort e t' \<Rightarrow> Inl e | Normal u t' \<Rightarrow> Inr (realVar t' 27))"
    if "agree {RealVarAt 6, RealVarAt 10} s t" for s t
    using that same_inputs_reads [of s t]
    by (simp add: agree_def oc_latch_eqFunction_123_def DIVISION_SIM_def Let_def split: sum.splits)
  show "RealVarAt 27 \<notin> {RealVarAt 6, RealVarAt 10}" by simp
qed

lemma oc_latch_eqFunction_124_footprint:
  "footprint rt oc_latch_eqFunction_124 {RealVarAt 36, RealVarAt 24, RealVarAt 27, RealVarAt 23} {RealVarAt 36}"
proof (rule real_assignment_footprint)
  show "oc_latch_eqFunction_124 rt s = (case oc_latch_eqFunction_124 rt s of Abort e t \<Rightarrow> Abort e s
          | Normal u t \<Rightarrow> Normal () (realVar_upd 36 (realVar t 36) s))" for s
    by (simp add: oc_latch_eqFunction_124_def DIVISION_SIM_def Let_def split: sum.splits)
  show "(case oc_latch_eqFunction_124 rt s of Abort e s' \<Rightarrow> Inl e | Normal u s' \<Rightarrow> Inr (realVar s' 36))
      = (case oc_latch_eqFunction_124 rt t of Abort e t' \<Rightarrow> Inl e | Normal u t' \<Rightarrow> Inr (realVar t' 36))"
    if "agree {RealVarAt 24, RealVarAt 27, RealVarAt 23} s t" for s t
    using that same_inputs_reads [of s t]
    by (simp add: agree_def oc_latch_eqFunction_124_def DIVISION_SIM_def Let_def split: sum.splits)
  show "RealVarAt 36 \<notin> {RealVarAt 24, RealVarAt 27, RealVarAt 23}" by simp
qed

lemma oc_latch_eqFunction_125_footprint:
  "footprint rt oc_latch_eqFunction_125 {RealVarAt 42, RealVarAt 36} {RealVarAt 42}"
proof (rule real_assignment_footprint)
  show "oc_latch_eqFunction_125 rt s = (case oc_latch_eqFunction_125 rt s of Abort e t \<Rightarrow> Abort e s
          | Normal u t \<Rightarrow> Normal () (realVar_upd 42 (realVar t 42) s))" for s
    by (simp add: oc_latch_eqFunction_125_def DIVISION_SIM_def Let_def split: sum.splits)
  show "(case oc_latch_eqFunction_125 rt s of Abort e s' \<Rightarrow> Inl e | Normal u s' \<Rightarrow> Inr (realVar s' 42))
      = (case oc_latch_eqFunction_125 rt t of Abort e t' \<Rightarrow> Inl e | Normal u t' \<Rightarrow> Inr (realVar t' 42))"
    if "agree {RealVarAt 36} s t" for s t
    using that same_inputs_reads [of s t]
    by (simp add: agree_def oc_latch_eqFunction_125_def DIVISION_SIM_def Let_def split: sum.splits)
  show "RealVarAt 42 \<notin> {RealVarAt 36}" by simp
qed

lemma oc_latch_eqFunction_126_footprint:
  "footprint rt oc_latch_eqFunction_126 {RealVarAt 41, RealVarAt 42, RealVarAt 40} {RealVarAt 41}"
proof (rule real_assignment_footprint)
  show "oc_latch_eqFunction_126 rt s = (case oc_latch_eqFunction_126 rt s of Abort e t \<Rightarrow> Abort e s
          | Normal u t \<Rightarrow> Normal () (realVar_upd 41 (realVar t 41) s))" for s
    by (simp add: oc_latch_eqFunction_126_def DIVISION_SIM_def Let_def split: sum.splits)
  show "(case oc_latch_eqFunction_126 rt s of Abort e s' \<Rightarrow> Inl e | Normal u s' \<Rightarrow> Inr (realVar s' 41))
      = (case oc_latch_eqFunction_126 rt t of Abort e t' \<Rightarrow> Inl e | Normal u t' \<Rightarrow> Inr (realVar t' 41))"
    if "agree {RealVarAt 42, RealVarAt 40} s t" for s t
    using that same_inputs_reads [of s t]
    by (simp add: agree_def oc_latch_eqFunction_126_def DIVISION_SIM_def Let_def split: sum.splits)
  show "RealVarAt 41 \<notin> {RealVarAt 42, RealVarAt 40}" by simp
qed

lemma oc_latch_eqFunction_127_footprint:
  "footprint rt oc_latch_eqFunction_127 {RealVarAt 39, RealVarAt 42, RealVarAt 41} {RealVarAt 39}"
proof (rule real_assignment_footprint)
  show "oc_latch_eqFunction_127 rt s = (case oc_latch_eqFunction_127 rt s of Abort e t \<Rightarrow> Abort e s
          | Normal u t \<Rightarrow> Normal () (realVar_upd 39 (realVar t 39) s))" for s
    by (simp add: oc_latch_eqFunction_127_def DIVISION_SIM_def Let_def split: sum.splits)
  show "(case oc_latch_eqFunction_127 rt s of Abort e s' \<Rightarrow> Inl e | Normal u s' \<Rightarrow> Inr (realVar s' 39))
      = (case oc_latch_eqFunction_127 rt t of Abort e t' \<Rightarrow> Inl e | Normal u t' \<Rightarrow> Inr (realVar t' 39))"
    if "agree {RealVarAt 42, RealVarAt 41} s t" for s t
    using that same_inputs_reads [of s t]
    by (simp add: agree_def oc_latch_eqFunction_127_def DIVISION_SIM_def Let_def split: sum.splits)
  show "RealVarAt 39 \<notin> {RealVarAt 42, RealVarAt 41}" by simp
qed

lemma oc_latch_eqFunction_128_footprint:
  "footprint rt oc_latch_eqFunction_128 {BooleanVarAt 4, RealVarAt 36} {BooleanVarAt 4}"
proof (rule boolean_assignment_footprint)
  show "oc_latch_eqFunction_128 rt s = (case oc_latch_eqFunction_128 rt s of Abort e t \<Rightarrow> Abort e s
          | Normal u t \<Rightarrow> Normal () (booleanVar_upd 4 (booleanVar t 4) s))" for s
    by (simp add: oc_latch_eqFunction_128_def DIVISION_SIM_def Let_def split: sum.splits)
  show "(case oc_latch_eqFunction_128 rt s of Abort e s' \<Rightarrow> Inl e | Normal u s' \<Rightarrow> Inr (booleanVar s' 4))
      = (case oc_latch_eqFunction_128 rt t of Abort e t' \<Rightarrow> Inl e | Normal u t' \<Rightarrow> Inr (booleanVar t' 4))"
    if "agree {RealVarAt 36} s t" for s t
    using that same_inputs_reads [of s t]
    by (simp add: agree_def oc_latch_eqFunction_128_def DIVISION_SIM_def Let_def split: sum.splits)
  show "BooleanVarAt 4 \<notin> {RealVarAt 36}" by simp
qed

lemma oc_latch_eqFunction_129_footprint:
  "footprint rt oc_latch_eqFunction_129 {BooleanVarAt 6, BooleanVarAt 4, BooleanVarAt 3} {BooleanVarAt 6}"
proof (rule boolean_assignment_footprint)
  show "oc_latch_eqFunction_129 rt s = (case oc_latch_eqFunction_129 rt s of Abort e t \<Rightarrow> Abort e s
          | Normal u t \<Rightarrow> Normal () (booleanVar_upd 6 (booleanVar t 6) s))" for s
    by (simp add: oc_latch_eqFunction_129_def DIVISION_SIM_def Let_def split: sum.splits)
  show "(case oc_latch_eqFunction_129 rt s of Abort e s' \<Rightarrow> Inl e | Normal u s' \<Rightarrow> Inr (booleanVar s' 6))
      = (case oc_latch_eqFunction_129 rt t of Abort e t' \<Rightarrow> Inl e | Normal u t' \<Rightarrow> Inr (booleanVar t' 6))"
    if "agree {BooleanVarAt 4, BooleanVarAt 3} s t" for s t
    using that same_inputs_reads [of s t]
    by (simp add: agree_def oc_latch_eqFunction_129_def DIVISION_SIM_def Let_def split: sum.splits)
  show "BooleanVarAt 6 \<notin> {BooleanVarAt 4, BooleanVarAt 3}" by simp
qed

lemma oc_latch_eqFunction_130_footprint:
  "footprint rt oc_latch_eqFunction_130 {BooleanVarAt 7, BooleanVarAt 10, BooleanVarAt 6} {BooleanVarAt 7}"
proof (rule boolean_assignment_footprint)
  show "oc_latch_eqFunction_130 rt s = (case oc_latch_eqFunction_130 rt s of Abort e t \<Rightarrow> Abort e s
          | Normal u t \<Rightarrow> Normal () (booleanVar_upd 7 (booleanVar t 7) s))" for s
    by (simp add: oc_latch_eqFunction_130_def DIVISION_SIM_def Let_def split: sum.splits)
  show "(case oc_latch_eqFunction_130 rt s of Abort e s' \<Rightarrow> Inl e | Normal u s' \<Rightarrow> Inr (booleanVar s' 7))
      = (case oc_latch_eqFunction_130 rt t of Abort e t' \<Rightarrow> Inl e | Normal u t' \<Rightarrow> Inr (booleanVar t' 7))"
    if "agree {BooleanVarAt 10, BooleanVarAt 6} s t" for s t
    using that same_inputs_reads [of s t]
    by (simp add: agree_def oc_latch_eqFunction_130_def DIVISION_SIM_def Let_def split: sum.splits)
  show "BooleanVarAt 7 \<notin> {BooleanVarAt 10, BooleanVarAt 6}" by simp
qed

lemma oc_latch_eqFunction_131_footprint:
  "footprint rt oc_latch_eqFunction_131 {BooleanVarAt 9, BooleanVarAt 7, BooleanVarAt 11} {BooleanVarAt 9}"
proof (rule boolean_assignment_footprint)
  show "oc_latch_eqFunction_131 rt s = (case oc_latch_eqFunction_131 rt s of Abort e t \<Rightarrow> Abort e s
          | Normal u t \<Rightarrow> Normal () (booleanVar_upd 9 (booleanVar t 9) s))" for s
    by (simp add: oc_latch_eqFunction_131_def DIVISION_SIM_def Let_def split: sum.splits)
  show "(case oc_latch_eqFunction_131 rt s of Abort e s' \<Rightarrow> Inl e | Normal u s' \<Rightarrow> Inr (booleanVar s' 9))
      = (case oc_latch_eqFunction_131 rt t of Abort e t' \<Rightarrow> Inl e | Normal u t' \<Rightarrow> Inr (booleanVar t' 9))"
    if "agree {BooleanVarAt 7, BooleanVarAt 11} s t" for s t
    using that same_inputs_reads [of s t]
    by (simp add: agree_def oc_latch_eqFunction_131_def DIVISION_SIM_def Let_def split: sum.splits)
  show "BooleanVarAt 9 \<notin> {BooleanVarAt 7, BooleanVarAt 11}" by simp
qed

lemma oc_latch_eqFunction_132_footprint:
  "footprint rt oc_latch_eqFunction_132 {RealVarAt 3, RealVarAt 6, RealVarAt 5} {RealVarAt 3}"
proof (rule real_assignment_footprint)
  show "oc_latch_eqFunction_132 rt s = (case oc_latch_eqFunction_132 rt s of Abort e t \<Rightarrow> Abort e s
          | Normal u t \<Rightarrow> Normal () (realVar_upd 3 (realVar t 3) s))" for s
    by (simp add: oc_latch_eqFunction_132_def DIVISION_SIM_def Let_def split: sum.splits)
  show "(case oc_latch_eqFunction_132 rt s of Abort e s' \<Rightarrow> Inl e | Normal u s' \<Rightarrow> Inr (realVar s' 3))
      = (case oc_latch_eqFunction_132 rt t of Abort e t' \<Rightarrow> Inl e | Normal u t' \<Rightarrow> Inr (realVar t' 3))"
    if "agree {RealVarAt 6, RealVarAt 5} s t" for s t
    using that same_inputs_reads [of s t]
    by (simp add: agree_def oc_latch_eqFunction_132_def DIVISION_SIM_def Let_def split: sum.splits)
  show "RealVarAt 3 \<notin> {RealVarAt 6, RealVarAt 5}" by simp
qed

lemma oc_latch_eqFunction_133_footprint:
  "footprint rt oc_latch_eqFunction_133 {RealVarAt 11, RealVarAt 52, RealVarAt 45, RealVarAt 41, RealVarAt 5} {RealVarAt 11}"
proof (rule real_assignment_footprint)
  show "oc_latch_eqFunction_133 rt s = (case oc_latch_eqFunction_133 rt s of Abort e t \<Rightarrow> Abort e s
          | Normal u t \<Rightarrow> Normal () (realVar_upd 11 (realVar t 11) s))" for s
    by (simp add: oc_latch_eqFunction_133_def DIVISION_SIM_def Let_def split: sum.splits)
  show "(case oc_latch_eqFunction_133 rt s of Abort e s' \<Rightarrow> Inl e | Normal u s' \<Rightarrow> Inr (realVar s' 11))
      = (case oc_latch_eqFunction_133 rt t of Abort e t' \<Rightarrow> Inl e | Normal u t' \<Rightarrow> Inr (realVar t' 11))"
    if "agree {RealVarAt 52, RealVarAt 45, RealVarAt 41, RealVarAt 5} s t" for s t
    using that same_inputs_reads [of s t]
    by (simp add: agree_def oc_latch_eqFunction_133_def DIVISION_SIM_def Let_def split: sum.splits)
  show "RealVarAt 11 \<notin> {RealVarAt 52, RealVarAt 45, RealVarAt 41, RealVarAt 5}" by simp
qed

lemma oc_latch_eqFunction_134_footprint:
  "footprint rt oc_latch_eqFunction_134 {} {NeedToReThrow}"
  by (rule throwing_assertion_footprint [where p = "\<lambda>P. 1 / 10 ^ 15 \<le> 1 + P 4 * (P 1 - P 3)"])
     (rule oc_latch_eqFunction_134_shape)

lemma oc_latch_eqFunction_135_footprint:
  "footprint rt oc_latch_eqFunction_135 {} {NeedToReThrow}"
  by (rule throwing_assertion_footprint [where p = "\<lambda>P. 1 / 10 ^ 15 \<le> 1 + P 10 * (P 7 - P 9)"])
     (rule oc_latch_eqFunction_135_shape)

lemma oc_latch_eqFunction_136_footprint:
  "footprint rt oc_latch_eqFunction_136 {} {NeedToReThrow}"
  by (rule throwing_assertion_footprint [where p = "\<lambda>P. 1 / 10 ^ 15 \<le> 1 + P 42 * (P 39 - P 41)"])
     (rule oc_latch_eqFunction_136_shape)

lemma oc_latch_eqFunction_137_footprint:
  "footprint rt oc_latch_eqFunction_137 {} {NeedToReThrow}"
  by (rule throwing_assertion_footprint [where p = "\<lambda>P. 1 / 10 ^ 15 \<le> 1 + P 48 * (P 45 - P 47)"])
     (rule oc_latch_eqFunction_137_shape)

lemma oc_latch_eqFunction_138_footprint:
  "footprint rt oc_latch_eqFunction_138 {} {NeedToReThrow}"
  by (rule throwing_assertion_footprint [where p = "\<lambda>P. 1 / 10 ^ 15 \<le> 1 + P 54 * (P 51 - P 53)"])
     (rule oc_latch_eqFunction_138_shape)

lemma oc_latch_eqFunction_139_footprint:
  "footprint rt oc_latch_eqFunction_139 {} {NeedToReThrow}"
  by (rule throwing_assertion_footprint [where p = "\<lambda>P. 1 / 10 ^ 15 \<le> 1 + P 60 * (P 57 - P 59)"])
     (rule oc_latch_eqFunction_139_shape)

subsection \<open>Footprints of the linear-system equations\<close>

lemma agree_data_left: "data s' = data s \<Longrightarrow> agree L s' u = agree L s u"
  using data_cong [of s' s] by (simp add: agree_def same_inputs_def)

lemma run_solver_framed:
  assumes res: "\<And>s x. framed W s (state_of (res s x))"
    and col: "\<And>j s. state_of (col j s) = s"
  shows "framed W s (state_of (run_solver res col prog jacobian s))"
proof (induction prog arbitrary: jacobian s)
  case (Return r x)
  show ?case by simp
next
  case (Residual x k)
  show ?case
  proof (cases "res s x")
    case (Normal v t)
    with res [of s x] have "framed W s t" by simp
    from framed_trans [OF this Residual [OF rangeI [of k v], where s = t and jacobian = jacobian]] Normal
    show ?thesis by simp
  next
    case (Abort e t)
    with res [of s x] show ?thesis by simp
  qed
next
  case (JacobianColumn seed k)
  let ?j = "jacobian\<lparr>seedVars := (seedVars jacobian)(0 := seed)\<rparr>"
  show ?case
  proof (cases "col ?j s")
    case (Normal rj t)
    with col [of ?j s] have "t = s" by simp
    with Normal JacobianColumn [OF rangeI [of k "resultVars (snd rj) 0"], where s = s and jacobian = "snd rj"]
    show ?thesis by simp
  next
    case (Abort e t)
    with col [of ?j s] show ?thesis by simp
  qed
qed

lemma run_solver_settled:
  assumes fr: "\<And>s x. framed W s (state_of (res s x))"
    and res: "\<And>s u x r s'. res s x = Normal r s' \<Longrightarrow> agree K s u
                \<Longrightarrow> \<exists>u'. res u x = Normal r u' \<and> agree W s' u'"
    and col: "\<And>j s. state_of (col j s) = s"
    and cold: "\<And>j s u rj s'. col j s = Normal rj s' \<Longrightarrow> agree K s u
                \<Longrightarrow> col j u = Normal rj u"
    and KW: "K \<inter> W = {}"
    and run: "run_solver res col prog jacobian s = Normal rx t"
    and a: "agree K s u"
  shows "\<exists>u'. run_solver res col prog jacobian u = Normal rx u'
              \<and> ((t = s \<and> u' = u) \<or> agree W t u')"
  using run a
proof (induction prog arbitrary: jacobian s u)
  case (Return r x)
  then show ?case by simp
next
  case (Residual x k)
  from Residual.prems(1) obtain r s1 where s1: "res s x = Normal r s1"
    and run1: "run_solver res col (k r) jacobian s1 = Normal rx t"
    by (cases "res s x") simp_all
  from res [OF s1 Residual.prems(2)] obtain u1 where u1: "res u x = Normal r u1"
    and w: "agree W s1 u1" by blast
  from fr [of s x] s1 have "framed W s s1" by simp
  then have 1: "agree K s s1" by (rule framed_agree) (rule KW)
  from fr [of u x] u1 have "framed W u u1" by simp
  then have 2: "agree K u u1" by (rule framed_agree) (rule KW)
  have "agree K s1 u1"
    by (rule agree_trans [OF agree_sym [OF 1] agree_trans [OF Residual.prems(2) 2]])
  from Residual.IH [OF rangeI run1 this] obtain u' where
    u': "run_solver res col (k r) jacobian u1 = Normal rx u'"
    and d: "(t = s1 \<and> u' = u1) \<or> agree W t u'" by blast
  from d w have "agree W t u'" by blast
  with u1 u' show ?case by simp
next
  case (JacobianColumn seed k)
  let ?j = "jacobian\<lparr>seedVars := (seedVars jacobian)(0 := seed)\<rparr>"
  from JacobianColumn.prems(1) obtain rj s1 where s1: "col ?j s = Normal rj s1"
    and run1: "run_solver res col (k (resultVars (snd rj) 0)) (snd rj) s1 = Normal rx t"
    by (cases "col ?j s") simp_all
  from col [of ?j s] s1 have e: "s1 = s" by simp
  from cold [OF s1 JacobianColumn.prems(2)] have u1: "col ?j u = Normal rj u" .
  from JacobianColumn.IH [OF rangeI run1 [unfolded e] JacobianColumn.prems(2)] u1
  show ?case by simp
qed

lemma linear_system_equation_footprint:
  assumes def: "\<And>s. f rt s =
        (case run_solver res col (prog (realVarOld s i)) jac (log_solving rt fmt s) of
           Abort e s2 \<Rightarrow> Abort e s2
         | Normal rx s2 \<Rightarrow>
             if fst rx > 0 then Abort (err s2) s2
             else Normal () (realVar_upd i (snd rx) s2))"
    and fr: "\<And>s x. framed W s (state_of (res s x))"
    and res: "\<And>s u x r s'. res s x = Normal r s' \<Longrightarrow> agree K s u
                \<Longrightarrow> \<exists>u'. res u x = Normal r u' \<and> agree W s' u'"
    and col: "\<And>j s. state_of (col j s) = s"
    and cold: "\<And>j s u rj s'. col j s = Normal rj s' \<Longrightarrow> agree K s u
                \<Longrightarrow> col j u = Normal rj u"
    and KW: "K \<inter> W = {}"
    and iW: "RealVarAt i \<in> W"
    and NW: "NeedToReThrow \<notin> W"
  shows "footprint rt f (W \<union> K) W"
  unfolding footprint_def
proof (intro allI conjI impI)
  fix s
  let ?s1 = "log_solving rt fmt s"
  let ?r = "run_solver res col (prog (realVarOld s i)) jac ?s1"
  have d: "data ?s1 = data s" by (simp add: log_solving_def)
  have "framed W ?s1 (state_of ?r)" by (rule run_solver_framed) (rule fr, rule col)
  with d have f1: "framed W s (state_of ?r)" by (rule framed_data)
  show "framed W s (state_of (f rt s))"
  proof (cases ?r)
    case (Abort e s2)
    with f1 show ?thesis by (simp add: def)
  next
    case (Normal rx s2)
    with f1 have f2: "framed W s s2" by simp
    have "framed (W \<union> {RealVarAt i}) s (realVar_upd i (snd rx) s2)"
      using f2 framed_realVar_upd by (rule framed_trans)
    moreover have "W \<union> {RealVarAt i} = W" using iW by auto
    ultimately show ?thesis using Normal f2 by (simp add: def)
  qed
next
  fix s t u
  assume t: "f rt s = Normal () t" and a: "agree (W \<union> K) t u"
  let ?s1 = "log_solving rt fmt s"
  let ?u1 = "log_solving rt fmt u"
  have ds: "data ?s1 = data s" and du: "data ?u1 = data u" by (simp_all add: log_solving_def)
  from t obtain rx s2 where
    r: "run_solver res col (prog (realVarOld s i)) jac ?s1 = Normal rx s2"
    and ok: "\<not> fst rx > 0" and t': "t = realVar_upd i (snd rx) s2"
    unfolding def [of s]
    by (cases "run_solver res col (prog (realVarOld s i)) jac ?s1")
       (auto split: if_splits)
  have "framed W ?s1 (state_of (run_solver res col (prog (realVarOld s i)) jac ?s1))"
    by (rule run_solver_framed) (rule fr, rule col)
  with r have "framed W ?s1 s2" by simp
  with ds have f2: "framed W s s2" by (rule framed_data)
  have "framed (W \<union> {RealVarAt i}) s t"
    unfolding t' using f2 framed_realVar_upd by (rule framed_trans)
  moreover have Wi: "W \<union> {RealVarAt i} = W" using iW by auto
  ultimately have ft: "framed W s t" by simp
  then have "agree K s t" by (rule framed_agree) (rule KW)
  moreover from a have "agree K t u" by (rule agree_mono) simp
  ultimately have su: "agree K s u" by (rule agree_trans)
  then have "same_inputs s u" by (simp add: agree_def)
  from same_inputs_reads(2) [OF this] have old: "realVarOld u i = realVarOld s i" by simp
  have a1: "agree K ?s1 ?u1"
    using su unfolding agree_data_left [OF ds] agree_data [OF du] .
  from r a1 have "\<exists>u2. run_solver res col (prog (realVarOld s i)) jac ?u1 = Normal rx u2
                \<and> ((s2 = ?s1 \<and> u2 = ?u1) \<or> agree W s2 u2)"
  proof (rule run_solver_settled [rotated 5])
    show "framed W s (state_of (res s x))" for s x by (rule fr)
    show "\<exists>u'. res u x = Normal r u' \<and> agree W s' u'"
      if "res s x = Normal r s'" "agree K s u" for s u x r s'
      using that by (rule res)
    show "state_of (col j s) = s" for j s by (rule col)
    show "col j u = Normal rj u" if "col j s = Normal rj s'" "agree K s u" for j s u rj s'
      using that by (rule cold)
    show "K \<inter> W = {}" by (rule KW)
  qed
  then obtain u2 where u2: "run_solver res col (prog (realVarOld s i)) jac ?u1 = Normal rx u2"
    and d: "(s2 = ?s1 \<and> u2 = ?u1) \<or> agree W s2 u2" by blast
  let ?u' = "realVar_upd i (snd rx) u2"
  have fu: "f rt u = Normal () ?u'" unfolding def [of u] old using u2 ok by simp
  have "framed W ?u1 (state_of (run_solver res col (prog (realVarOld s i)) jac ?u1))"
    by (rule run_solver_framed) (rule fr, rule col)
  with u2 have "framed W ?u1 u2" by simp
  with du have g2: "framed W u u2" by (rule framed_data)
  have "framed (W \<union> {RealVarAt i}) u ?u'"
    using g2 framed_realVar_upd by (rule framed_trans)
  with Wi have g: "framed W u ?u'" by simp
  have "data ?u' = data u"
  proof (rule data_unchanged [OF g])
    fix j assume j: "RealVarAt j \<in> W"
    show "realVar ?u' j = realVar u j"
    proof (cases "j = i")
      case True
      have "realVar t i = realVar u i" using a by (rule agree_at) (use iW in simp)
      then show ?thesis using True by (simp add: t')
    next
      case False
      have tu: "realVar t j = realVar u j" using a by (rule agree_at) (use j in simp)
      from d show ?thesis
      proof
        assume "s2 = ?s1 \<and> u2 = ?u1"
        then show ?thesis using False data_cong(1) [OF du] by simp
      next
        assume "agree W s2 u2"
        then have "realVar s2 j = realVar u2 j" using j by (rule agree_at)
        with tu False show ?thesis by (simp add: t')
      qed
    qed
  next
    fix j assume j: "BooleanVarAt j \<in> W"
    have tu: "booleanVar t j = booleanVar u j" using a by (rule agree_at) (use j in simp)
    from d show "booleanVar ?u' j = booleanVar u j"
    proof
      assume "s2 = ?s1 \<and> u2 = ?u1"
      then show ?thesis using data_cong(2) [OF du] by simp
    next
      assume "agree W s2 u2"
      then have "booleanVar s2 j = booleanVar u2 j" using j by (rule agree_at)
      with tu show ?thesis by (simp add: t')
    qed
  next
    from g NW show "needToReThrow (info ?u') = needToReThrow (info u)"
      by (simp add: framed_def)
  qed
  with fu show "\<exists>u'. f rt u = Normal () u' \<and> data u' = data u" by blast
qed

lemma oc_latch_eqFunction_98_footprint:
  "footprint rt oc_latch_eqFunction_98
     {RealVarAt 49, RealVarAt 52, RealVarAt 53, RealVarAt 48, RealVarAt 51}
     {RealVarAt 49, RealVarAt 52, RealVarAt 53}"
proof -
  have "footprint rt oc_latch_eqFunction_98
     ({RealVarAt 49, RealVarAt 52, RealVarAt 53} \<union> {RealVarAt 48, RealVarAt 51})
     {RealVarAt 49, RealVarAt 52, RealVarAt 53}"
  proof (rule linear_system_equation_footprint
      [where res = "residualFunc98 rt" and col = "oc_latch_functionJacLSJac2_column rt"
         and prog = "solver rt 2" and jac = "analyticJacobians rt 2" and fmt = solving_98
         and err = "\<lambda>s2. StreamPrintWithEquationIndexes [1, 98] failed_98 [timeValue0 s2]"
         and i = 49])
    show "oc_latch_eqFunction_98 rt s =
        (case run_solver (residualFunc98 rt) (oc_latch_functionJacLSJac2_column rt)
                (solver rt 2 (realVarOld s 49)) (analyticJacobians rt 2)
                (log_solving rt solving_98 s) of
           Abort e s2 \<Rightarrow> Abort e s2
         | Normal rx s2 \<Rightarrow>
             if fst rx > 0
             then Abort (StreamPrintWithEquationIndexes [1, 98] failed_98 [timeValue0 s2]) s2
             else Normal () (realVar_upd 49 (snd rx) s2))" for s
      by (simp add: oc_latch_eqFunction_98_def solve_linear_system_def Let_def
          oc_latch_initialLinearSystem_def)
    show "framed {RealVarAt 49, RealVarAt 52, RealVarAt 53} s (state_of (residualFunc98 rt s x))"
      for s x
      by (simp add: residualFunc98_def oc_latch_eqFunction_92_def oc_latch_eqFunction_93_def
          DIVISION_SIM_def Let_def framed_def same_inputs_def fun_eq_iff split: sum.splits)
    show "\<exists>u'. residualFunc98 rt u x = Normal r u'
            \<and> agree {RealVarAt 49, RealVarAt 52, RealVarAt 53} s' u'"
      if "residualFunc98 rt s x = Normal r s'" "agree {RealVarAt 48, RealVarAt 51} s u"
      for s u x r s'
      using that same_inputs_reads [of s u]
      by (auto simp add: residualFunc98_def oc_latch_eqFunction_92_def oc_latch_eqFunction_93_def
          DIVISION_SIM_def Let_def agree_def same_inputs_def fun_eq_iff
          split: sum.splits if_splits)
    show "state_of (oc_latch_functionJacLSJac2_column rt j s) = s" for j s
      by (rule column_state_of)
    show "oc_latch_functionJacLSJac2_column rt j u = Normal rj u"
      if "oc_latch_functionJacLSJac2_column rt j s = Normal rj s'"
        "agree {RealVarAt 48, RealVarAt 51} s u" for j s u rj s'
      using that
      by (auto simp add: oc_latch_functionJacLSJac2_column_def oc_latch_eqFunction_95_def
          oc_latch_eqFunction_96_def oc_latch_eqFunction_97_def DIVISION_def agree_def
          split: sum.splits if_splits)
  qed simp_all
  then show ?thesis by (simp add: insert_commute)
qed

lemma oc_latch_eqFunction_121_footprint:
  "footprint rt oc_latch_eqFunction_121
     {RealVarAt 5, RealVarAt 2, RealVarAt 6, RealVarAt 1, RealVarAt 4}
     {RealVarAt 5, RealVarAt 2, RealVarAt 6}"
proof -
  have "footprint rt oc_latch_eqFunction_121
     ({RealVarAt 5, RealVarAt 2, RealVarAt 6} \<union> {RealVarAt 1, RealVarAt 4})
     {RealVarAt 5, RealVarAt 2, RealVarAt 6}"
  proof (rule linear_system_equation_footprint
      [where res = "residualFunc121 rt" and col = "oc_latch_functionJacLSJac3_column rt"
         and prog = "solver rt 3" and jac = "analyticJacobians rt 3" and fmt = solving_121
         and err = "\<lambda>s2. StreamPrintWithEquationIndexes [1, 121] failed_121 [timeValue0 s2]"
         and i = 5])
    show "oc_latch_eqFunction_121 rt s =
        (case run_solver (residualFunc121 rt) (oc_latch_functionJacLSJac3_column rt)
                (solver rt 3 (realVarOld s 5)) (analyticJacobians rt 3)
                (log_solving rt solving_121 s) of
           Abort e s2 \<Rightarrow> Abort e s2
         | Normal rx s2 \<Rightarrow>
             if fst rx > 0
             then Abort (StreamPrintWithEquationIndexes [1, 121] failed_121 [timeValue0 s2]) s2
             else Normal () (realVar_upd 5 (snd rx) s2))" for s
      by (simp add: oc_latch_eqFunction_121_def solve_linear_system_def Let_def
          oc_latch_initialLinearSystem_def)
    show "framed {RealVarAt 5, RealVarAt 2, RealVarAt 6} s (state_of (residualFunc121 rt s x))"
      for s x
      by (simp add: residualFunc121_def oc_latch_eqFunction_115_def oc_latch_eqFunction_116_def
          Let_def framed_def same_inputs_def fun_eq_iff)
    show "\<exists>u'. residualFunc121 rt u x = Normal r u'
            \<and> agree {RealVarAt 5, RealVarAt 2, RealVarAt 6} s' u'"
      if "residualFunc121 rt s x = Normal r s'" "agree {RealVarAt 1, RealVarAt 4} s u"
      for s u x r s'
      using that same_inputs_reads [of s u]
      by (auto simp add: residualFunc121_def oc_latch_eqFunction_115_def
          oc_latch_eqFunction_116_def Let_def agree_def same_inputs_def fun_eq_iff)
    show "state_of (oc_latch_functionJacLSJac3_column rt j s) = s" for j s
      by (rule column_state_of)
    show "oc_latch_functionJacLSJac3_column rt j u = Normal rj u"
      if "oc_latch_functionJacLSJac3_column rt j s = Normal rj s'"
        "agree {RealVarAt 1, RealVarAt 4} s u" for j s u rj s'
      using that
      by (auto simp add: oc_latch_functionJacLSJac3_column_def oc_latch_eqFunction_118_def
          oc_latch_eqFunction_119_def oc_latch_eqFunction_120_def agree_def
          split: sum.splits if_splits)
  qed simp_all
  then show ?thesis by (simp add: insert_commute)
qed

subsection \<open>The pass\<close>

lemma algebraic_equations_footprints:
  "list_all2 (\<lambda>e p. footprint rt (snd e) (fst p) (snd p)) algebraic_equations algebraic_footprints"
  unfolding algebraic_equations_def algebraic_footprints_def list_all2_Cons list.rel_inject
    fst_conv snd_conv
  by (intro conjI
      oc_latch_eqFunction_89_footprint oc_latch_eqFunction_90_footprint
      oc_latch_eqFunction_91_footprint oc_latch_eqFunction_98_footprint
      oc_latch_eqFunction_99_footprint oc_latch_eqFunction_100_footprint
      oc_latch_eqFunction_101_footprint oc_latch_eqFunction_102_footprint
      oc_latch_eqFunction_103_footprint oc_latch_eqFunction_104_footprint
      oc_latch_eqFunction_105_footprint oc_latch_eqFunction_107_footprint
      oc_latch_eqFunction_109_footprint oc_latch_eqFunction_110_footprint
      oc_latch_eqFunction_111_footprint oc_latch_eqFunction_112_footprint
      oc_latch_eqFunction_113_footprint oc_latch_eqFunction_114_footprint
      oc_latch_eqFunction_121_footprint oc_latch_eqFunction_122_footprint
      oc_latch_eqFunction_123_footprint oc_latch_eqFunction_124_footprint
      oc_latch_eqFunction_125_footprint oc_latch_eqFunction_126_footprint
      oc_latch_eqFunction_127_footprint oc_latch_eqFunction_128_footprint
      oc_latch_eqFunction_129_footprint oc_latch_eqFunction_130_footprint
      oc_latch_eqFunction_131_footprint oc_latch_eqFunction_132_footprint
      oc_latch_eqFunction_133_footprint oc_latch_eqFunction_134_footprint
      oc_latch_eqFunction_135_footprint oc_latch_eqFunction_136_footprint
      oc_latch_eqFunction_137_footprint oc_latch_eqFunction_138_footprint
      oc_latch_eqFunction_139_footprint)
     simp

lemma algebraic_footprints_causal: "causal algebraic_footprints"
  by (simp add: algebraic_footprints_def)

lemma throwing_assertion_holds:
  assumes shape: "\<And>rt s. \<exists>finfo c msg. f rt s = throwing_assertion n (p (realParam s)) finfo c msg rt s"
    and "p (realParam s)"
  shows "f rt s = Normal () s"
proof -
  obtain finfo c msg where "f rt s = throwing_assertion n (p (realParam s)) finfo c msg rt s"
    using shape by blast
  with assms(2) show ?thesis by (simp add: throwing_assertion_def)
qed

lemma algebraic_assertions_hold:
  assumes "realParam s = (\<lambda>i. 0)(29 := 1)"
  shows "oc_latch_eqFunction_134 rt s = Normal () s" "oc_latch_eqFunction_135 rt s = Normal () s"
    "oc_latch_eqFunction_136 rt s = Normal () s" "oc_latch_eqFunction_137 rt s = Normal () s"
    "oc_latch_eqFunction_138 rt s = Normal () s" "oc_latch_eqFunction_139 rt s = Normal () s"
  proof -
  show "oc_latch_eqFunction_134 rt s = Normal () s"
    by (rule throwing_assertion_holds [where p = "\<lambda>P. 1 / 10 ^ 15 \<le> 1 + P 4 * (P 1 - P 3)"])
     (rule oc_latch_eqFunction_134_shape, simp add: assms)
    show "oc_latch_eqFunction_135 rt s = Normal () s"
    by (rule throwing_assertion_holds [where p = "\<lambda>P. 1 / 10 ^ 15 \<le> 1 + P 10 * (P 7 - P 9)"])
     (rule oc_latch_eqFunction_135_shape, simp add: assms)
    show "oc_latch_eqFunction_136 rt s = Normal () s"
    by (rule throwing_assertion_holds [where p = "\<lambda>P. 1 / 10 ^ 15 \<le> 1 + P 42 * (P 39 - P 41)"])
     (rule oc_latch_eqFunction_136_shape, simp add: assms)
    show "oc_latch_eqFunction_137 rt s = Normal () s"
    by (rule throwing_assertion_holds [where p = "\<lambda>P. 1 / 10 ^ 15 \<le> 1 + P 48 * (P 45 - P 47)"])
     (rule oc_latch_eqFunction_137_shape, simp add: assms)
    show "oc_latch_eqFunction_138 rt s = Normal () s"
    by (rule throwing_assertion_holds [where p = "\<lambda>P. 1 / 10 ^ 15 \<le> 1 + P 54 * (P 51 - P 53)"])
     (rule oc_latch_eqFunction_138_shape, simp add: assms)
    show "oc_latch_eqFunction_139 rt s = Normal () s"
    by (rule throwing_assertion_holds [where p = "\<lambda>P. 1 / 10 ^ 15 \<le> 1 + P 60 * (P 57 - P 59)"])
     (rule oc_latch_eqFunction_139_shape, simp add: assms)
qed

lemma example_pass:
  "\<exists>F. functionAlg_system0 example_runtime example_state = Normal () F
       \<and> realVar F 5 = 1 / 20 \<and> realVar F 49 = 1 / 2 \<and> realVar F 11 = - (1 / 5)"
  by (simp add: functionAlg_system0_def algebraic_equations_def
      oc_latch_eqFunction_89_def oc_latch_eqFunction_90_def oc_latch_eqFunction_91_def
      oc_latch_eqFunction_98_def oc_latch_eqFunction_99_def oc_latch_eqFunction_100_def
      oc_latch_eqFunction_101_def oc_latch_eqFunction_102_def oc_latch_eqFunction_103_def
      oc_latch_eqFunction_104_def oc_latch_eqFunction_105_def oc_latch_eqFunction_107_def
      oc_latch_eqFunction_109_def oc_latch_eqFunction_110_def oc_latch_eqFunction_111_def
      oc_latch_eqFunction_112_def oc_latch_eqFunction_113_def oc_latch_eqFunction_114_def
      oc_latch_eqFunction_121_def oc_latch_eqFunction_122_def oc_latch_eqFunction_123_def
      oc_latch_eqFunction_124_def oc_latch_eqFunction_125_def oc_latch_eqFunction_126_def
      oc_latch_eqFunction_127_def oc_latch_eqFunction_128_def oc_latch_eqFunction_129_def
      oc_latch_eqFunction_130_def oc_latch_eqFunction_131_def oc_latch_eqFunction_132_def
      oc_latch_eqFunction_133_def algebraic_assertions_hold
      solve_linear_system_def oc_latch_initialLinearSystem_def Let_def
      residualFunc121_eq residualFunc98_eq LSJac2_column_eq LSJac3_column_eq
      DIVISION_SIM_def log_solving_def fun_eq_iff)


text \<open>
  C8.  \<^verbatim>\<open>functionAlg_system0\<close> never writes the pre-value arrays, whether it returns or
  is left by a throw.  When it has returned, running it again on the store it left
  returns and leaves that store as it is: every variable, flag and parameter of \<^verbatim>\<open>DATA\<close>
  is the same after the second run as after the first.  (The log and
  \<^verbatim>\<open>threadData->lastEquationSolved\<close> are not part of the store.)
\<close>

theorem algebraic_pass_idempotent:
  "realPre (state_of (functionAlg_system0 rt s)) = realPre s
   \<and> booleanPre (state_of (functionAlg_system0 rt s)) = booleanPre s
   \<and> (functionAlg_system0 rt s = Normal () F
        \<longrightarrow> (\<exists>F'. functionAlg_system0 rt F = Normal () F' \<and> data F' = data F))"
proof (intro conjI impI)
  have "framed (written algebraic_footprints) s (state_of (functionAlg_system0 rt s))"
    unfolding functionAlg_system0_def
    using algebraic_equations_footprints by (rule run_equations_framed)
  from framed_pre [OF this]
  show "realPre (state_of (functionAlg_system0 rt s)) = realPre s"
    and "booleanPre (state_of (functionAlg_system0 rt s)) = booleanPre s"
    by simp_all
next
  assume "functionAlg_system0 rt s = Normal () F"
  then have "run_equations algebraic_equations rt s = Normal () F"
    by (simp add: functionAlg_system0_def)
  with algebraic_equations_footprints algebraic_footprints_causal
  have "\<exists>F'. run_equations algebraic_equations rt F = Normal () F' \<and> data F' = data F"
    by (rule run_equations_settled) (rule refl)
  then show "\<exists>F'. functionAlg_system0 rt F = Normal () F' \<and> data F' = data F"
    by (simp add: functionAlg_system0_def)
qed

theorem algebraic_pass_idempotent_witness:
  "\<exists>F F'. functionAlg_system0 example_runtime example_state = Normal () F
        \<and> realVar F 5 = 1 / 20 \<and> realVar F 49 = 1 / 2 \<and> realVar F 11 = - (1 / 5)
        \<and> functionAlg_system0 example_runtime F = Normal () F' \<and> data F' = data F
        \<and> realPre F = realPre example_state \<and> booleanPre F = booleanPre example_state"
proof -
  from example_pass obtain F where
    F: "functionAlg_system0 example_runtime example_state = Normal () F"
    and v: "realVar F 5 = 1 / 20" "realVar F 49 = 1 / 2" "realVar F 11 = - (1 / 5)"
    by blast
  from algebraic_pass_idempotent [of example_runtime example_state F] F
  obtain F' where "functionAlg_system0 example_runtime F = Normal () F'" "data F' = data F"
    and "realPre F = realPre example_state" "booleanPre F = booleanPre example_state"
    by auto
  with F v show ?thesis by blast
qed

end
